(* ===== verification/Prelude.thy ===== *)
theory Prelude
  imports Main "HOL-Library.AList"
begin

text \<open>
  Shared vocabulary of the MediaWikiApi development: the named collections the
  component theories feed, and generic lemmas on lists, strings and association
  lists that several components use.  JavaScript objects are association lists
  (\<open>(string \<times> 'v) list\<close>) updated with \<^const>\<open>AList.update\<close>, which keeps the
  insertion order of keys as a JavaScript object does for non-index keys.
\<close>

named_theorems js_eval "evaluation rules of the JavaScript value layer"
named_theorems session_frame "fields of the session an operation leaves unchanged"

subsection \<open>Strings built by accumulation\<close>

lemma foldl_append_concat:
  "foldl (\<lambda>h x. h @ f x) acc xs = acc @ concat (map f xs)"
  by (induction xs arbitrary: acc) auto

lemma take_drop_suffix [simp]:
  "take (length (xs @ ys) - length ys) (xs @ ys) = xs"
  by simp

subsection \<open>Association lists\<close>

lemma map_of_update_same [simp]: "map_of (AList.update k v al) k = Some v"
  by (simp add: update_conv')

lemma map_of_update_other [simp]:
  "k' \<noteq> k \<Longrightarrow> map_of (AList.update k v al) k' = map_of al k'"
  by (simp add: update_conv')

lemma keys_update [simp]: "fst ` set (AList.update k v al) = insert k (fst ` set al)"
  by (induction al) auto

lemma keys_delete [simp]: "fst ` set (AList.delete k al) = fst ` set al - {k}"
  by (induction al) auto


lemma map_of_foldl_update:
  "map_of (foldl (\<lambda>ob k. AList.update (f k) (g k) ob) base ks) =
     map_of base ++ map_of (rev (map (\<lambda>k. (f k, g k)) ks))"
proof (induction ks arbitrary: base)
  case Nil
  then show ?case by simp
next
  case (Cons k ks)
  then show ?case by (auto simp: fun_eq_iff map_add_def split: option.splits)
qed

lemma map_of_rev_distinct: "distinct (map fst xs) \<Longrightarrow> map_of (rev xs) = map_of xs"
proof (induction xs)
  case Nil
  then show ?case by simp
next
  case (Cons x xs)
  then have "fst x \<notin> dom (map_of xs)" by (simp add: dom_map_of_conv_image_fst)
  with Cons show ?case by (cases x) (auto simp: fun_eq_iff map_add_def split: option.splits)
qed

end
