(* ===== verification/JsValue.thy ===== *)
theory JsValue
  imports Prelude
begin

text \<open>
  The JavaScript value layer the library's code runs on: the values a JSON
  response, a caller's argument or a field of the session can hold, with the
  coercions the source relies on (truthiness in \<open>if (x)\<close> and \<open>x || y\<close>,
  \<open>typeof\<close>, \<open>ToString\<close> in string concatenation, the \<open>+\<close> operator),
  property reads that throw a \<open>TypeError\<close> on \<open>undefined\<close> and \<open>null\<close>, the
  key order of \<open>for (k in o)\<close>, \<open>Array.prototype.join\<close> and
  \<open>String.prototype.slice(0, -n)\<close>.  Numbers are integers (the program only
  handles page ids, limits and user ids) together with \<open>NaN\<close>; a function
  value is an opaque handle \<open>Fn n\<close>.
\<close>

datatype jsval =
    Undefined
  | Null
  | Bool bool
  | Num int
  | NaN
  | Str string
  | Arr "jsval list"
  | Obj "(string \<times> jsval) list"
  | Fn nat

type_synonym jsobj = "(string \<times> jsval) list"

text \<open>An exception thrown by the code: \<open>new Error(msg)\<close> or a \<open>TypeError\<close>
  (a property read on \<open>undefined\<close>/\<open>null\<close>, a call of a non-function, a wrong
  argument type of a library call), with the offending name.\<close>

datatype js_exn = Error string | TypeError string

subsection \<open>Coercions\<close>

fun truthy :: "jsval \<Rightarrow> bool" where
  "truthy Undefined = False"
| "truthy Null = False"
| "truthy (Bool b) = b"
| "truthy (Num n) = (n \<noteq> 0)"
| "truthy NaN = False"
| "truthy (Str s) = (s \<noteq> [])"
| "truthy (Arr _) = True"
| "truthy (Obj _) = True"
| "truthy (Fn _) = True"

definition js_or :: "jsval \<Rightarrow> jsval \<Rightarrow> jsval" where
  "js_or a b = (if truthy a then a else b)"

fun typeof :: "jsval \<Rightarrow> string" where
  "typeof Undefined = ''undefined''"
| "typeof Null = ''object''"
| "typeof (Bool _) = ''boolean''"
| "typeof (Num _) = ''number''"
| "typeof NaN = ''number''"
| "typeof (Str _) = ''string''"
| "typeof (Arr _) = ''object''"
| "typeof (Obj _) = ''object''"
| "typeof (Fn _) = ''function''"

fun string_of_nat :: "nat \<Rightarrow> string" where
  "string_of_nat n = (if n < 10 then [''0123456789'' ! n]
     else string_of_nat (n div 10) @ [''0123456789'' ! (n mod 10)])"

definition string_of_int :: "int \<Rightarrow> string" where
  "string_of_int i = (if i < 0 then CHR ''-'' # string_of_nat (nat (- i)) else string_of_nat (nat i))"

text \<open>\<open>Array.prototype.join\<close> on strings: the parts with the separator
  between them, none before the first or after the last.\<close>

fun join :: "'a list \<Rightarrow> 'a list list \<Rightarrow> 'a list" where
  "join sep [] = []"
| "join sep [x] = x"
| "join sep (x # y # zs) = x @ sep @ join sep (y # zs)"

text \<open>\<open>ToString\<close>: arrays join their elements with commas, \<open>undefined\<close> and
  \<open>null\<close> elements becoming empty.\<close>

fun to_str :: "jsval \<Rightarrow> string" where
  "to_str Undefined = ''undefined''"
| "to_str Null = ''null''"
| "to_str (Bool b) = (if b then ''true'' else ''false'')"
| "to_str (Num n) = string_of_int n"
| "to_str NaN = ''NaN''"
| "to_str (Str s) = s"
| "to_str (Arr xs) = join '','' (map (\<lambda>x. if x = Undefined \<or> x = Null then [] else to_str x) xs)"
| "to_str (Obj _) = ''[object Object]''"
| "to_str (Fn _) = ''function''"

text \<open>The binary \<open>+\<close>: string concatenation as soon as one operand is
  (or converts to) a string, numeric addition otherwise.\<close>

fun to_num :: "jsval \<Rightarrow> int option" where
  "to_num Null = Some 0"
| "to_num (Bool b) = Some (if b then 1 else 0)"
| "to_num (Num n) = Some n"
| "to_num _ = None"

fun stringish :: "jsval \<Rightarrow> bool" where
  "stringish (Str _) = True"
| "stringish (Arr _) = True"
| "stringish (Obj _) = True"
| "stringish (Fn _) = True"
| "stringish _ = False"

definition js_add :: "jsval \<Rightarrow> jsval \<Rightarrow> jsval" where
  "js_add a b =
     (if stringish a \<or> stringish b then Str (to_str a @ to_str b)
      else (case (to_num a, to_num b) of (Some m, Some n) \<Rightarrow> Num (m + n) | _ \<Rightarrow> NaN))"

text \<open>\<open>s.slice(0, -n)\<close>: the string without its last \<open>n\<close> characters, the
  empty string when it is shorter.\<close>

definition slice_end :: "string \<Rightarrow> nat \<Rightarrow> string" where
  "slice_end s n = take (length s - n) s"

subsection \<open>Objects and property access\<close>

text \<open>An object is an association list; its keys are those of their first
  occurrence, in insertion order, as \<^const>\<open>map_of\<close> reads them.\<close>

definition obj_get :: "jsobj \<Rightarrow> string \<Rightarrow> jsval" where
  "obj_get ob k = (case map_of ob k of None \<Rightarrow> Undefined | Some v \<Rightarrow> v)"

definition obj_keys :: "jsobj \<Rightarrow> string list" where
  "obj_keys ob = map fst (AList.clearjunk ob)"

definition index_key :: "string \<Rightarrow> nat \<Rightarrow> nat option" where
  "index_key k n = find (\<lambda>i. string_of_nat i = k) [0..<n]"

text \<open>\<open>v[k]\<close> and \<open>v.k\<close>: a \<open>TypeError\<close> on \<open>undefined\<close> and \<open>null\<close>;
  index and \<open>length\<close> reads on arrays and strings; \<open>undefined\<close> for any
  other missing property.\<close>

fun get_prop :: "jsval \<Rightarrow> string \<Rightarrow> js_exn + jsval" where
  "get_prop Undefined k = Inl (TypeError k)"
| "get_prop Null k = Inl (TypeError k)"
| "get_prop (Obj ob) k = Inr (obj_get ob k)"
| "get_prop (Arr xs) k =
     (if k = ''length'' then Inr (Num (int (length xs)))
      else case index_key k (length xs) of Some i \<Rightarrow> Inr (xs ! i) | None \<Rightarrow> Inr Undefined)"
| "get_prop (Str s) k =
     (if k = ''length'' then Inr (Num (int (length s)))
      else case index_key k (length s) of Some i \<Rightarrow> Inr (Str [s ! i]) | None \<Rightarrow> Inr Undefined)"
| "get_prop _ k = Inr Undefined"

text \<open>The keys \<open>for (k in v)\<close> visits: none for \<open>undefined\<close>, \<open>null\<close> and
  other primitives, the indices of arrays and strings, the own keys of objects.\<close>

fun js_keys :: "jsval \<Rightarrow> string list" where
  "js_keys (Obj ob) = obj_keys ob"
| "js_keys (Arr xs) = map string_of_nat [0..<length xs]"
| "js_keys (Str s) = map string_of_nat [0..<length s]"
| "js_keys _ = []"

text \<open>Sequencing of property reads that may throw, and the loop
  \<open>for (k in v) { x = f(k); }\<close>, which leaves the value of its last iteration
  in \<open>x\<close> (its initial value when there is none) unless an iteration throws.\<close>

definition sbind :: "js_exn + 'a \<Rightarrow> ('a \<Rightarrow> js_exn + 'b) \<Rightarrow> js_exn + 'b" where
  "sbind r f = (case r of Inl e \<Rightarrow> Inl e | Inr x \<Rightarrow> f x)"

fun for_in_assign :: "(string \<Rightarrow> js_exn + jsval) \<Rightarrow> jsval \<Rightarrow> string list \<Rightarrow> js_exn + jsval" where
  "for_in_assign f x [] = Inr x"
| "for_in_assign f x (k # ks) = (case f k of Inl e \<Rightarrow> Inl e | Inr v \<Rightarrow> for_in_assign f v ks)"

text \<open>A property read on a value that is neither \<open>undefined\<close> nor \<open>null\<close>,
  which cannot throw; \<^term>\<open>get_prop\<close> agrees with it there.\<close>

definition prop_val :: "jsval \<Rightarrow> string \<Rightarrow> jsval" where
  "prop_val v k = (case get_prop v k of Inl _ \<Rightarrow> Undefined | Inr x \<Rightarrow> x)"

subsection \<open>Evaluation and separator lemmas\<close>

declare js_or_def [js_eval] string_of_int_def [js_eval] js_add_def [js_eval]
  slice_end_def [js_eval] obj_get_def [js_eval] obj_keys_def [js_eval] index_key_def [js_eval]
  sbind_def [js_eval]

lemma join_snoc_sep:
  "concat (map (\<lambda>x. f x @ sep) xs) = (if xs = [] then [] else join sep (map f xs) @ sep)"
proof (induction xs)
  case Nil
  then show ?case by simp
next
  case (Cons x xs)
  then show ?case by (cases xs) auto
qed

lemma join_last: "xs \<noteq> [] \<Longrightarrow> \<exists>pre. join sep xs = pre @ last xs"
proof (induction sep xs rule: join.induct)
  case (3 sep x y zs)
  then obtain pre where "join sep (y # zs) = pre @ last (y # zs)" by auto
  then show ?case by (intro exI [of _ "x @ sep @ pre"]) simp
qed auto

lemma slice_end_append [simp]: "slice_end (xs @ ys) (length ys) = xs"
  by (simp add: slice_end_def)


lemma get_prop_truthy: "truthy v \<Longrightarrow> get_prop v k = Inr (prop_val v k)"
  by (cases v) (simp_all add: prop_val_def split: if_splits option.splits)

lemma prop_val_Obj [simp]: "prop_val (Obj ob) k = obj_get ob k"
  by (simp add: prop_val_def)

lemma index_key_zero [simp]: "0 < n \<Longrightarrow> index_key ''0'' n = Some 0"
  by (simp add: index_key_def upt_conv_Cons del: upt_Suc)


lemma distinct_obj_keys: "distinct (obj_keys ob)"
  by (simp add: obj_keys_def)

lemma set_obj_keys: "x \<in> set (obj_keys ob) \<longleftrightarrow> map_of ob x \<noteq> None"
proof -
  have "set (obj_keys ob) = fst ` set ob"
    using clearjunk_keys_set [of ob] by (simp add: obj_keys_def)
  then show ?thesis by (simp add: map_of_eq_None_iff)
qed

lemma map_of_map_prefix:
  "map_of (map (\<lambda>k. (p @ k, g k)) ks) (p @ x) = (if x \<in> set ks then Some (g x) else None)"
  by (induction ks) auto

end
