(* ===== verification/CookieJar.thy ===== *)
theory CookieJar
  imports JsValue
begin

text \<open>
  The cookie jar of a session (\<open>this.cookies\<close> in \<open>src/lib/index.js\<close>): a
  name prefix and an object from cookie names to values, rendered by
  \<open>parse()\<close> into the value of the \<open>Cookie\<close> request header.  The rendering
  accumulates \<open>prefix + key + '=' + value + "; "\<close> over the keys in
  \<open>for-in\<close> order and drops the last two characters; it is proved equal to
  the separator-joined list of \<open>prefix key=value\<close> entries, from which the
  empty-jar case and the shape of the header follow.
\<close>

record cookie_jar =
  prefix :: jsval
  cookie_map :: jsobj

definition parse :: "cookie_jar \<Rightarrow> string" where
  "parse c =
     slice_end
       (foldl (\<lambda>header key. header @ to_str (prefix c) @ key @ ''='' @ to_str (obj_get (cookie_map c) key) @ ''; '')
          [] (obj_keys (cookie_map c)))
       2"

text \<open>Assignment \<open>map[k] = v\<close> and \<open>delete map[k]\<close> on the jar's object.\<close>

definition cookie_set :: "string \<Rightarrow> jsval \<Rightarrow> cookie_jar \<Rightarrow> cookie_jar" where
  "cookie_set k v c = c\<lparr>cookie_map := AList.update k v (cookie_map c)\<rparr>"

definition cookie_delete :: "string \<Rightarrow> cookie_jar \<Rightarrow> cookie_jar" where
  "cookie_delete k c = c\<lparr>cookie_map := AList.delete k (cookie_map c)\<rparr>"

text \<open>The reference rendering: one \<open>prefix name=value\<close> entry per key, joined
  by \<open>"; "\<close>.\<close>

definition cookie_entry :: "cookie_jar \<Rightarrow> string \<Rightarrow> string" where
  "cookie_entry c key = to_str (prefix c) @ key @ ''='' @ to_str (obj_get (cookie_map c) key)"

definition cookie_header :: "cookie_jar \<Rightarrow> string" where
  "cookie_header c = join ''; '' (map (cookie_entry c) (obj_keys (cookie_map c)))"

subsection \<open>Rendering\<close>

lemma parse_as_header: "parse c = cookie_header c"
proof -
  have "foldl (\<lambda>header key. header @ to_str (prefix c) @ key @ ''='' @ to_str (obj_get (cookie_map c) key) @ ''; '')
          [] (obj_keys (cookie_map c))
        = concat (map (\<lambda>key. cookie_entry c key @ ''; '') (obj_keys (cookie_map c)))"
    by (simp add: foldl_append_concat cookie_entry_def)
  also have "\<dots> = (if obj_keys (cookie_map c) = [] then [] else cookie_header c @ ''; '')"
    by (simp add: join_snoc_sep cookie_header_def)
  finally show ?thesis
    using slice_end_append [of "cookie_header c" "''; ''"]
    by (simp add: parse_def cookie_header_def slice_end_def)
qed

text \<open>C6: the accumulate-then-slice loop of \<open>parse()\<close> computes exactly the
  separator-joined entries: no separator before the first entry, none after the
  last, one between each two.\<close>

theorem parse_eq_cookie_header: "parse c = cookie_header c"
  by (rule parse_as_header)

subsection \<open>The trailing separator\<close>

lemma suffix_sep_eq: "(\<exists>pre. xs @ CHR ''='' # v = pre @ ''; '') \<longleftrightarrow> (\<exists>pre. v = pre @ ''; '')"
proof (cases v rule: rev_cases)
  case Nil
  then show ?thesis by auto
next
  case (snoc w b)
  show ?thesis
  proof (cases w rule: rev_cases)
    case Nil
    with snoc show ?thesis by auto
  next
    case (snoc u a)
    with \<open>v = w @ [b]\<close> show ?thesis by auto
  qed
qed

text \<open>C35: the header ends with the separator \<open>"; "\<close> exactly when the value
  of the last cookie does: values are not escaped, so the specification's
  promise that the rendering never ends in \<open>"; "\<close> holds only for values that
  do not themselves end in it.\<close>

theorem parse_trailing_separator:
  assumes "obj_keys (cookie_map c) \<noteq> []"
  shows "(\<exists>pre. parse c = pre @ ''; '') \<longleftrightarrow>
         (\<exists>pre. to_str (obj_get (cookie_map c) (last (obj_keys (cookie_map c)))) = pre @ ''; '')"
proof -
  obtain pre where "cookie_header c = pre @ cookie_entry c (last (obj_keys (cookie_map c)))"
    using join_last [of "map (cookie_entry c) (obj_keys (cookie_map c))" "''; ''"] assms
    by (auto simp: cookie_header_def last_map)
  then show ?thesis
    using suffix_sep_eq [of "pre @ to_str (prefix c) @ last (obj_keys (cookie_map c))"]
    by (simp add: parse_as_header cookie_entry_def)
qed

subsection \<open>Witnesses\<close>

theorem parse_trailing_separator_witness:
  "obj_keys (cookie_map \<lparr>prefix = Str '''', cookie_map = [(''a'', Str ''b; '')]\<rparr>) \<noteq> [] \<and>
   (\<exists>pre. parse \<lparr>prefix = Str '''', cookie_map = [(''a'', Str ''b; '')]\<rparr> = pre @ ''; '')"
  using parse_trailing_separator [of "\<lparr>prefix = Str '''', cookie_map = [(''a'', Str ''b; '')]\<rparr>"]
  by (simp add: js_eval)

end
