(* ===== verification/Session.thy ===== *)
theory Session
  imports CookieJar
begin

text \<open>
  The state of a \<open>MediaWikiApi\<close> object and the shape of its asynchronous
  effects.  The object's fields are a record; the constructor either throws or
  returns the initial record.  An operation runs synchronously until it hands a
  request to the transport (\<open>request(req).when(cb)\<close> of the \<open>ahr2\<close> library)
  or finishes by invoking the caller's callback or by throwing.  This is the
  \<open>outcome\<close>: \<open>Awaiting req k\<close> carries the request and the \<open>when\<close>
  continuation, which receives the transport's result and the session as it is
  when the response arrives (other operations may have changed it meanwhile),
  and returns the new session and the next outcome.  A callback passed down the
  internal call chain is either the caller's value (\<open>User\<close>, any JavaScript
  value, checked or called as a function) or one of the library's own closures.
\<close>

record session =
  site :: jsval
  api :: string
  isBot :: jsval
  loggedIn :: bool
  cookies :: cookie_jar
  tokens :: jsobj

definition MediaWikiApi :: "jsval \<Rightarrow> js_exn + session" where
  "MediaWikiApi s =
     (if \<not> truthy s then Inl (Error ''MediaWikiAPI needs a site to query.'')
      else Inr \<lparr>site = s, api = ''/w/api.php'', isBot = Bool True, loggedIn = False,
                cookies = \<lparr>prefix = Str '''', cookie_map = []\<rparr>, tokens = []\<rparr>)"

text \<open>The session the constructor returns for \<open>new MediaWikiApi('example.org')\<close>,
  the starting point of the concrete scenarios.\<close>

abbreviation example_session :: session where
  "example_session \<equiv> \<lparr>site = Str ''example.org'', api = ''/w/api.php'', isBot = Bool True,
     loggedIn = False, cookies = \<lparr>prefix = Str '''', cookie_map = []\<rparr>, tokens = []\<rparr>"

text \<open>The request object handed to the transport: \<open>encodedBody\<close> for a string
  body, \<open>body\<close> for any other truthy body, neither otherwise.\<close>

datatype req_body = NoBody | EncodedBody string | Body jsval

record http_req =
  req_method :: string
  hostname :: jsval
  port :: nat
  pathname :: string
  req_query :: jsobj
  req_headers :: "(string \<times> string) list"
  req_body :: req_body

text \<open>What the transport passes to the \<open>when\<close> callback: \<open>(err, ahr, data)\<close>.\<close>

record tresult =
  tr_err :: jsval
  tr_ahr :: jsval
  tr_data :: jsval

text \<open>The arguments of a completion callback, \<open>(err, data, ahr)\<close>; an argument
  the call leaves out is \<open>undefined\<close>.\<close>

type_synonym cbargs = "jsval \<times> jsval \<times> jsval"

datatype outcome =
    Invoked jsval cbargs
  | Thrown js_exn
  | Awaiting http_req "tresult \<Rightarrow> session \<Rightarrow> session \<times> outcome"

type_synonym action = "session \<Rightarrow> session \<times> outcome"

datatype cont = User jsval | Closure "cbargs \<Rightarrow> action"

fun cont_is_function :: "cont \<Rightarrow> bool" where
  "cont_is_function (User f) = (typeof f = ''function'')"
| "cont_is_function (Closure _) = True"

text \<open>Calling a callback: the caller's callback is invoked (a \<open>TypeError\<close> if it
  is not a function), a closure of the library runs on the current session.\<close>

fun call_cont :: "cont \<Rightarrow> cbargs \<Rightarrow> action" where
  "call_cont (User f) args s =
     (if typeof f = ''function'' then (s, Invoked f args) else (s, Thrown (TypeError ''callback'')))"
| "call_cont (Closure k) args s = k args s"

end
