(* ===== verification/Request.thy ===== *)
theory Request
  imports Session
begin

text \<open>
  The request builder and dispatcher (\<open>_request\<close>, \<open>_post\<close>, \<open>_get\<close> and
  \<open>_query\<close> in \<open>src/lib/index.js\<close>).  \<^term>\<open>request\<close> checks the callback,
  forces \<open>format=json\<close>, builds the transport request from the session's
  site, API path and cookie header at dispatch time, and awaits the transport.
  \<^term>\<open>response_handler\<close> is the \<open>when\<close> callback that normalises the
  transport's result: the \<open>mediawiki-api-error\<close> header selects the fixed help
  error or the body's \<open>error\<close> field, and without it the transport's error and
  data pass through unchanged.
\<close>

definition help_info :: string where
  "help_info =
     ''The help page was shown instead of any '' @
     ''specific error message. This usually happens '' @
     ''when the action is left off. If you want to '' @
     ''see this page, the wikimedia one is at '' @
     ''http://en.wikipedia.org/w/api.php?action=help''"

definition help_error :: jsval where
  "help_error = Obj [(''code'', Str ''help''), (''info'', Str help_info)]"

definition response_handler :: "cont \<Rightarrow> tresult \<Rightarrow> action" where
  "response_handler callback r s =
     (case get_prop (tr_ahr r) ''headers'' of
        Inl e \<Rightarrow> (s, Thrown e)
      | Inr hs \<Rightarrow>
          (case get_prop hs ''mediawiki-api-error'' of
             Inl e \<Rightarrow> (s, Thrown e)
           | Inr h \<Rightarrow>
               if truthy h then
                 (if h = Str ''help'' then call_cont callback (help_error, Undefined, tr_ahr r) s
                  else (case get_prop (tr_data r) ''error'' of
                          Inl e \<Rightarrow> (s, Thrown e)
                        | Inr err \<Rightarrow> call_cont callback (err, Undefined, tr_ahr r) s))
               else call_cont callback (tr_err r, tr_data r, tr_ahr r) s))"

definition build_req :: "session \<Rightarrow> string \<Rightarrow> jsobj \<Rightarrow> jsval \<Rightarrow> http_req" where
  "build_req s method q body =
     (let req = \<lparr>req_method = method, hostname = site s, port = 80, pathname = api s,
                 req_query = q, req_headers = [(''Cookie'', parse (cookies s))], req_body = NoBody\<rparr>
      in if truthy body then
           (case body of
              Str b \<Rightarrow> req\<lparr>req_body := EncodedBody b,
                         req_headers := req_headers req @ [(''Content-Type'', ''application/x-www-form-urlencoded'')]\<rparr>
            | _ \<Rightarrow> req\<lparr>req_body := Body body\<rparr>)
         else req)"

definition request :: "jsobj \<Rightarrow> cont \<Rightarrow> string \<Rightarrow> jsval \<Rightarrow> action" where
  "request q callback method body s =
     (if \<not> cont_is_function callback then (s, Thrown (Error ''Callback is not a function.''))
      else (s, Awaiting (build_req s method (AList.update ''format'' (Str ''json'') q) body)
                        (response_handler callback)))"

definition post :: "jsobj \<Rightarrow> jsval \<Rightarrow> cont \<Rightarrow> action" where
  "post q body callback = request q callback ''POST'' body"

definition get :: "jsobj \<Rightarrow> cont \<Rightarrow> action" where
  "get q callback = request q callback ''GET'' Undefined"

definition query :: "jsobj \<Rightarrow> cont \<Rightarrow> action" where
  "query q callback = get (AList.update ''action'' (Str ''query'') q) callback"

text \<open>A response handle without the error header, as the transport passes it
  for an ordinary answer.\<close>

definition plain_ahr :: jsval where
  "plain_ahr = Obj [(''headers'', Obj [])]"

lemmas request_defs = request_def post_def get_def query_def

subsection \<open>Normalisation of responses\<close>

lemma response_handler_help:
  assumes "get_prop (tr_ahr r) ''headers'' = Inr hs"
    and "get_prop hs ''mediawiki-api-error'' = Inr (Str ''help'')"
  shows "response_handler cb r s = call_cont cb (help_error, Undefined, tr_ahr r) s"
  using assms by (simp add: response_handler_def)

lemma response_handler_api_error:
  assumes "get_prop (tr_ahr r) ''headers'' = Inr hs"
    and "get_prop hs ''mediawiki-api-error'' = Inr h" and "truthy h" and "h \<noteq> Str ''help''"
  shows "response_handler cb r s =
           (case get_prop (tr_data r) ''error'' of
              Inl e \<Rightarrow> (s, Thrown e)
            | Inr err \<Rightarrow> call_cont cb (err, Undefined, tr_ahr r) s)"
  using assms by (simp add: response_handler_def)

lemma response_handler_pass:
  assumes "get_prop (tr_ahr r) ''headers'' = Inr hs"
    and "get_prop hs ''mediawiki-api-error'' = Inr h" and "\<not> truthy h"
  shows "response_handler cb r s = call_cont cb (tr_err r, tr_data r, tr_ahr r) s"
  using assms by (simp add: response_handler_def)

lemma response_handler_plain:
  "response_handler cb \<lparr>tr_err = e, tr_ahr = plain_ahr, tr_data = d\<rparr> s = call_cont cb (e, d, plain_ahr) s"
  by (simp add: response_handler_def plain_ahr_def js_eval)

lemma request_function:
  "cont_is_function cb \<Longrightarrow>
   request q cb m body s =
     (s, Awaiting (build_req s m (AList.update ''format'' (Str ''json'') q) body) (response_handler cb))"
  by (simp add: request_def)

lemma build_req_fields [simp]:
  "req_method (build_req s m q body) = m"
  "hostname (build_req s m q body) = site s"
  "port (build_req s m q body) = 80"
  "pathname (build_req s m q body) = api s"
  "req_query (build_req s m q body) = q"
  "hd (req_headers (build_req s m q body)) = (''Cookie'', parse (cookies s))"
  by (auto simp: build_req_def Let_def split: jsval.splits)

subsection \<open>The dispatcher's contract\<close>

text \<open>C1: a response whose \<open>mediawiki-api-error\<close> header is \<open>help\<close> reaches
  the caller as the fixed help error \<open>{code: 'help', info: ...}\<close> with no data
  and the raw response handle, whatever the transport's error and body are.\<close>

theorem request_help_error:
  assumes "typeof f = ''function''"
    and "get_prop ahr ''headers'' = Inr hs"
    and "get_prop hs ''mediawiki-api-error'' = Inr (Str ''help'')"
  shows "\<exists>req k. request q (User f) m body s = (s, Awaiting req k) \<and>
           (\<forall>e d s'. k \<lparr>tr_err = e, tr_ahr = ahr, tr_data = d\<rparr> s' = (s', Invoked f (help_error, Undefined, ahr)))"
  using assms by (simp add: request_function response_handler_help)

text \<open>C2: without a (truthy) \<open>mediawiki-api-error\<close> header the transport's
  error, the parsed body and the response handle reach the caller unchanged.\<close>

theorem request_passthrough:
  assumes "typeof f = ''function''"
    and "get_prop ahr ''headers'' = Inr hs"
    and "get_prop hs ''mediawiki-api-error'' = Inr h" and "\<not> truthy h"
  shows "\<exists>req k. request q (User f) m body s = (s, Awaiting req k) \<and>
           (\<forall>e d s'. k \<lparr>tr_err = e, tr_ahr = ahr, tr_data = d\<rparr> s' = (s', Invoked f (e, d, ahr)))"
  using assms by (simp add: request_function response_handler_pass)

text \<open>C3: any other value of the header makes the body's \<open>error\<close> field the
  caller's error, with no data; a body that is \<open>undefined\<close> (no parsed JSON)
  makes the handler throw a \<open>TypeError\<close> instead, and the caller's callback
  is never called.\<close>

theorem request_api_error:
  assumes "typeof f = ''function''"
    and "get_prop ahr ''headers'' = Inr hs"
    and "get_prop hs ''mediawiki-api-error'' = Inr h" and "truthy h" and "h \<noteq> Str ''help''"
  shows "\<exists>req k. request q (User f) m body s = (s, Awaiting req k) \<and>
           (\<forall>e dobj s'. k \<lparr>tr_err = e, tr_ahr = ahr, tr_data = Obj dobj\<rparr> s' =
                (s', Invoked f (obj_get dobj ''error'', Undefined, ahr))) \<and>
           (\<forall>e s'. k \<lparr>tr_err = e, tr_ahr = ahr, tr_data = Undefined\<rparr> s' = (s', Thrown (TypeError ''error'')))"
  using assms by (simp add: request_function response_handler_api_error)

text \<open>C4: every dispatched request carries \<open>format=json\<close>, the cookie header
  rendered from the session at dispatch time, the session's host and API path
  on port 80, and dispatching changes no state.\<close>

theorem request_dispatch:
  assumes "cont_is_function cb"
  shows "\<exists>req k. request q cb m body s = (s, Awaiting req k) \<and>
           map_of (req_query req) ''format'' = Some (Str ''json'') \<and>
           req_query req = AList.update ''format'' (Str ''json'') q \<and>
           hd (req_headers req) = (''Cookie'', parse (cookies s)) \<and>
           req_method req = m \<and> hostname req = site s \<and> port req = 80 \<and> pathname req = api s"
  using assms by (simp add: request_function)

subsection \<open>Witnesses\<close>

theorem request_help_error_witness:
  "typeof (Fn 0) = ''function'' \<and>
   get_prop (Obj [(''headers'', Obj [(''mediawiki-api-error'', Str ''help'')])]) ''headers''
     = Inr (Obj [(''mediawiki-api-error'', Str ''help'')]) \<and>
   get_prop (Obj [(''mediawiki-api-error'', Str ''help'')]) ''mediawiki-api-error'' = Inr (Str ''help'') \<and>
   (\<exists>req k. request [(''action'', Str ''login'')] (User (Fn 0)) ''POST'' (Obj []) example_session
       = (example_session, Awaiting req k) \<and>
     (\<forall>e d s'. k \<lparr>tr_err = e, tr_ahr = Obj [(''headers'', Obj [(''mediawiki-api-error'', Str ''help'')])], tr_data = d\<rparr> s'
        = (s', Invoked (Fn 0) (help_error, Undefined, Obj [(''headers'', Obj [(''mediawiki-api-error'', Str ''help'')])]))))"
  using request_help_error [of "Fn 0" "Obj [(''headers'', Obj [(''mediawiki-api-error'', Str ''help'')])]"
      "Obj [(''mediawiki-api-error'', Str ''help'')]" "[(''action'', Str ''login'')]" "''POST''" "Obj []" example_session]
  by (simp add: js_eval)

theorem request_passthrough_witness:
  "typeof (Fn 0) = ''function'' \<and>
   get_prop (Obj [(''headers'', Obj [])]) ''headers'' = Inr (Obj []) \<and>
   get_prop (Obj []) ''mediawiki-api-error'' = Inr Undefined \<and> \<not> truthy Undefined \<and>
   (\<exists>req k. request [(''action'', Str ''logout'')] (User (Fn 0)) ''GET'' Undefined example_session
       = (example_session, Awaiting req k) \<and>
     (\<forall>e d s'. k \<lparr>tr_err = e, tr_ahr = Obj [(''headers'', Obj [])], tr_data = d\<rparr> s'
        = (s', Invoked (Fn 0) (e, d, Obj [(''headers'', Obj [])]))))"
  using request_passthrough [of "Fn 0" "Obj [(''headers'', Obj [])]" "Obj []" Undefined
      "[(''action'', Str ''logout'')]" "''GET''" Undefined example_session]
  by (simp add: js_eval)

theorem request_api_error_witness:
  "typeof (Fn 0) = ''function'' \<and>
   get_prop (Obj [(''headers'', Obj [(''mediawiki-api-error'', Str ''badtoken'')])]) ''headers''
     = Inr (Obj [(''mediawiki-api-error'', Str ''badtoken'')]) \<and>
   get_prop (Obj [(''mediawiki-api-error'', Str ''badtoken'')]) ''mediawiki-api-error'' = Inr (Str ''badtoken'') \<and>
   truthy (Str ''badtoken'') \<and> Str ''badtoken'' \<noteq> Str ''help'' \<and>
   (\<exists>req k. request [] (User (Fn 0)) ''POST'' (Str ''a=b'') example_session = (example_session, Awaiting req k) \<and>
     (\<forall>e dobj s'. k \<lparr>tr_err = e, tr_ahr = Obj [(''headers'', Obj [(''mediawiki-api-error'', Str ''badtoken'')])], tr_data = Obj dobj\<rparr> s' =
        (s', Invoked (Fn 0) (obj_get dobj ''error'', Undefined, Obj [(''headers'', Obj [(''mediawiki-api-error'', Str ''badtoken'')])]))) \<and>
     (\<forall>e s'. k \<lparr>tr_err = e, tr_ahr = Obj [(''headers'', Obj [(''mediawiki-api-error'', Str ''badtoken'')])], tr_data = Undefined\<rparr> s'
        = (s', Thrown (TypeError ''error''))))"
  using request_api_error [of "Fn 0" "Obj [(''headers'', Obj [(''mediawiki-api-error'', Str ''badtoken'')])]"
      "Obj [(''mediawiki-api-error'', Str ''badtoken'')]" "Str ''badtoken''" "[]" "''POST''" "Str ''a=b''" example_session]
  by (simp add: js_eval)

theorem request_dispatch_witness:
  "cont_is_function (User (Fn 0)) \<and>
   (\<exists>req k. request [(''action'', Str ''logout'')] (User (Fn 0)) ''GET'' Undefined example_session
       = (example_session, Awaiting req k) \<and>
     map_of (req_query req) ''format'' = Some (Str ''json'') \<and>
     req_query req = [(''action'', Str ''logout''), (''format'', Str ''json'')] \<and>
     hd (req_headers req) = (''Cookie'', '''') \<and>
     req_method req = ''GET'' \<and> hostname req = Str ''example.org'' \<and> port req = 80 \<and> pathname req = ''/w/api.php'')"
  using request_dispatch [of "User (Fn 0)" "[(''action'', Str ''logout'')]" "''GET''" Undefined example_session]
  by (simp add: js_eval parse_def)

end
