(* ===== verification/TokenCache.thy ===== *)
theory TokenCache
  imports Request
begin

text \<open>
  The token cache (\<open>this.tokens\<close> and \<open>_getToken\<close> in \<open>src/lib/index.js\<close>):
  a truthy cached token of the requested type is handed to the callback at once;
  otherwise an \<open>info\<close> query for \<open>intoken=type\<close> on the page \<open>Main Page\<close> is
  sent, and its continuation takes \<open><type>token\<close> from the last page of the
  answer, caches it (even when it is \<open>undefined\<close>) and calls back.  A failed
  query caches nothing.
\<close>

definition token_received :: "string \<Rightarrow> cont \<Rightarrow> cbargs \<Rightarrow> action" where
  "token_received tokenType callback args s =
     (case args of (err, data, ahr) \<Rightarrow>
        if \<not> truthy err then
          (case sbind (get_prop data ''query'') (\<lambda>q. get_prop q ''pages'') of
             Inl e \<Rightarrow> (s, Thrown e)
           | Inr pages \<Rightarrow>
               (case for_in_assign (\<lambda>page. sbind (get_prop pages page) (\<lambda>p. get_prop p (tokenType @ ''token'')))
                       Undefined (js_keys pages) of
                  Inl e \<Rightarrow> (s, Thrown e)
                | Inr token \<Rightarrow>
                    call_cont callback (err, token, Undefined)
                      (s\<lparr>tokens := AList.update tokenType token (tokens s)\<rparr>)))
        else call_cont callback (err, Undefined, Undefined) s)"

definition getToken :: "string \<Rightarrow> cont \<Rightarrow> action" where
  "getToken tokenType callback s =
     (if truthy (obj_get (tokens s) tokenType)
      then call_cont callback (Undefined, obj_get (tokens s) tokenType, Null) s
      else query [(''prop'', Str ''info''), (''intoken'', Str tokenType), (''titles'', Str ''Main Page'')]
             (Closure (token_received tokenType callback)) s)"

text \<open>The shape of a successful answer to the token query: one page whose
  entry holds the token under \<open><type>token\<close>.\<close>

definition token_answer :: "string \<Rightarrow> string \<Rightarrow> jsval \<Rightarrow> jsval" where
  "token_answer tokenType pageid tok =
     Obj [(''query'', Obj [(''pages'', Obj [(pageid, Obj [(tokenType @ ''token'', tok)])])])]"

subsection \<open>Behaviour\<close>

lemma token_received_answer:
  "\<not> truthy err \<Longrightarrow>
   token_received t cb (err, token_answer t pid tok, ahr) s =
     call_cont cb (err, tok, Undefined) (s\<lparr>tokens := AList.update t tok (tokens s)\<rparr>)"
  by (simp add: token_received_def token_answer_def js_eval)

lemma token_received_error:
  "truthy err \<Longrightarrow> token_received t cb (err, data, ahr) s = call_cont cb (err, Undefined, Undefined) s"
  by (simp add: token_received_def)

text \<open>C7: a token fetched once is served from the cache afterwards: with no
  usable cached token, \<open>_getToken\<close> sends exactly the \<open>info\<close>/\<open>intoken\<close>
  query; a successful answer carrying a truthy token hands it to the callback
  and stores it, and from then on every \<open>_getToken\<close> of that type answers
  from the cache with no request.\<close>

theorem getToken_fetch_then_cached:
  assumes "\<not> truthy (obj_get (tokens s) t)" and "truthy tok" and "typeof f = ''function''"
  shows "\<exists>req k. getToken t (User f) s = (s, Awaiting req k) \<and>
           req_method req = ''GET'' \<and>
           req_query req = [(''prop'', Str ''info''), (''intoken'', Str t), (''titles'', Str ''Main Page''),
                            (''action'', Str ''query''), (''format'', Str ''json'')] \<and>
           (\<forall>s'. \<exists>s''. k \<lparr>tr_err = Undefined, tr_ahr = plain_ahr, tr_data = token_answer t pid tok\<rparr> s'
                        = (s'', Invoked f (Undefined, tok, Undefined)) \<and>
                  tokens s'' = AList.update t tok (tokens s') \<and>
                  (\<forall>cb. getToken t cb s'' = call_cont cb (Undefined, tok, Null) s''))"
proof -
  have q: "getToken t (User f) s =
      (s, Awaiting (build_req s ''GET'' [(''prop'', Str ''info''), (''intoken'', Str t), (''titles'', Str ''Main Page''),
                            (''action'', Str ''query''), (''format'', Str ''json'')] Undefined)
                   (response_handler (Closure (token_received t (User f)))))"
    using assms(1) by (simp add: getToken_def request_defs)
  have k: "response_handler (Closure (token_received t (User f)))
             \<lparr>tr_err = Undefined, tr_ahr = plain_ahr, tr_data = token_answer t pid tok\<rparr> s'
           = (s'\<lparr>tokens := AList.update t tok (tokens s')\<rparr>, Invoked f (Undefined, tok, Undefined))" for s'
    using assms(3) by (simp add: response_handler_plain token_received_answer)
  have "getToken t cb (s'\<lparr>tokens := AList.update t tok (tokens s')\<rparr>)
          = call_cont cb (Undefined, tok, Null) (s'\<lparr>tokens := AList.update t tok (tokens s')\<rparr>)" for cb s'
    using assms(2) by (simp add: getToken_def js_eval)
  with q k show ?thesis by auto
qed

text \<open>C8: a failed token query (a truthy transport error, no error header)
  caches nothing and leaves the session as it was; the callback receives the
  error and no token.\<close>

theorem getToken_failure_no_cache:
  assumes "\<not> truthy (obj_get (tokens s) t)" and "truthy err" and "typeof f = ''function''"
  shows "\<exists>req k. getToken t (User f) s = (s, Awaiting req k) \<and>
           (\<forall>d s'. k \<lparr>tr_err = err, tr_ahr = plain_ahr, tr_data = d\<rparr> s' = (s', Invoked f (err, Undefined, Undefined)))"
  using assms
  by (simp add: getToken_def request_defs request_function response_handler_plain token_received_error)

theorem getToken_fetch_then_cached_witness:
  "\<not> truthy (obj_get (tokens example_session) ''edit'') \<and> truthy (Str ''abc+1'') \<and> typeof (Fn 1) = ''function'' \<and>
   (\<exists>req k. getToken ''edit'' (User (Fn 1)) example_session = (example_session, Awaiting req k) \<and>
           req_method req = ''GET'' \<and>
           req_query req = [(''prop'', Str ''info''), (''intoken'', Str ''edit''), (''titles'', Str ''Main Page''),
                            (''action'', Str ''query''), (''format'', Str ''json'')] \<and>
           (\<forall>s'. \<exists>s''. k \<lparr>tr_err = Undefined, tr_ahr = plain_ahr, tr_data = token_answer ''edit'' ''1'' (Str ''abc+1'')\<rparr> s'
                        = (s'', Invoked (Fn 1) (Undefined, Str ''abc+1'', Undefined)) \<and>
                  tokens s'' = AList.update ''edit'' (Str ''abc+1'') (tokens s') \<and>
                  (\<forall>cb. getToken ''edit'' cb s'' = call_cont cb (Undefined, Str ''abc+1'', Null) s'')))"
  using getToken_fetch_then_cached [of example_session "''edit''" "Str ''abc+1''" "Fn 1" "''1''"]
  by (simp add: js_eval)

theorem getToken_failure_no_cache_witness:
  "\<not> truthy (obj_get (tokens example_session) ''edit'') \<and> truthy (Str ''ECONNRESET'') \<and> typeof (Fn 1) = ''function'' \<and>
   (\<exists>req k. getToken ''edit'' (User (Fn 1)) example_session = (example_session, Awaiting req k) \<and>
      (\<forall>d s'. k \<lparr>tr_err = Str ''ECONNRESET'', tr_ahr = plain_ahr, tr_data = d\<rparr> s'
               = (s', Invoked (Fn 1) (Str ''ECONNRESET'', Undefined, Undefined))))"
  using getToken_failure_no_cache [of example_session "''edit''" "Str ''ECONNRESET''" "Fn 1"]
  by (simp add: js_eval)

end
