(* ===== verification/FormEncoding.thy ===== *)
theory FormEncoding
  imports JsValue
begin

text \<open>
  The form-body encoder \<open>_makeQueryString\<close> of \<open>src/lib/index.js\<close>: the
  fields of the edit body as \<open>name=value\<close> joined by \<open>&\<close>, passed through
  \<open>encodeURI\<close> and then with every \<open>+\<close> replaced by \<open>%2B\<close>.  Strings are
  byte strings (UTF-8), so \<open>encodeURI\<close> percent-encodes every byte outside its
  unescaped set, as it does for the UTF-8 bytes of a JavaScript string.  The
  receiving side, the remote API's \<open>application/x-www-form-urlencoded\<close>
  decoder, is not part of the repository; it is modelled from the wire contract
  (split at \<open>&\<close>, skip empty pairs, split at the first \<open>=\<close>, decode \<open>+\<close> as a
  space and \<open>%XY\<close> as a byte) to state what the server reads back.
\<close>

definition uri_unescaped :: "char \<Rightarrow> bool" where
  "uri_unescaped c \<longleftrightarrow>
     c \<in> set (''ABCDEFGHIJKLMNOPQRSTUVWXYZabcdefghijklmnopqrstuvwxyz0123456789'' @
              '';,/?:@&=+$-_.!~*()#'' @ [CHR 0x27])"

definition hex_digit :: "nat \<Rightarrow> char" where
  "hex_digit n = ''0123456789ABCDEF'' ! n"

definition pct_encode :: "char \<Rightarrow> string" where
  "pct_encode c = [CHR ''%'', hex_digit (of_char c div 16), hex_digit (of_char c mod 16)]"

definition encodeURI :: "string \<Rightarrow> string" where
  "encodeURI s = concat (map (\<lambda>c. if uri_unescaped c then [c] else pct_encode c) s)"

definition replace_plus :: "string \<Rightarrow> string" where
  "replace_plus s = concat (map (\<lambda>c. if c = CHR ''+'' then ''%2B'' else [c]) s)"

definition makeQueryString :: "jsobj \<Rightarrow> string" where
  "makeQueryString body =
     replace_plus (encodeURI (join ''&'' (map (\<lambda>field. field @ ''='' @ to_str (obj_get body field)) (obj_keys body))))"

text \<open>What \<open>encodeURI\<close> followed by the \<open>+\<close> replacement does to one
  character: the lemmas below show the body is the concatenation of these.\<close>

definition enc_char :: "char \<Rightarrow> string" where
  "enc_char c = (if c = CHR ''+'' then ''%2B'' else if uri_unescaped c then [c] else pct_encode c)"

definition form_enc :: "string \<Rightarrow> string" where
  "form_enc s = concat (map enc_char s)"

subsection \<open>The receiving decoder\<close>

fun split_on :: "char \<Rightarrow> string \<Rightarrow> string list" where
  "split_on d [] = [[]]"
| "split_on d (c # cs) =
     (if c = d then [] # split_on d cs
      else (case split_on d cs of [] \<Rightarrow> [[c]] | w # ws \<Rightarrow> (c # w) # ws))"

definition hex_value :: "char \<Rightarrow> nat option" where
  "hex_value c =
     (if c \<in> set ''0123456789'' then Some (of_char c - 48)
      else if c \<in> set ''ABCDEF'' then Some (of_char c - 55)
      else if c \<in> set ''abcdef'' then Some (of_char c - 87)
      else None)"

fun pct_decode :: "string \<Rightarrow> string" where
  "pct_decode [] = []"
| "pct_decode (c # cs) =
     (if c = CHR ''%'' then
        (case cs of
           h1 # h2 # rest \<Rightarrow>
             (case (hex_value h1, hex_value h2) of
                (Some a, Some b) \<Rightarrow> char_of (16 * a + b) # pct_decode rest
              | _ \<Rightarrow> c # pct_decode cs)
         | _ \<Rightarrow> c # pct_decode cs)
      else (if c = CHR ''+'' then CHR '' '' else c) # pct_decode cs)"

definition decode_pair :: "string \<Rightarrow> string \<times> string" where
  "decode_pair p =
     (case split_on CHR ''='' p of
        [] \<Rightarrow> ([], [])
      | [k] \<Rightarrow> (pct_decode k, [])
      | k # v # vs \<Rightarrow> (pct_decode k, pct_decode (join ''='' (v # vs))))"

definition form_decode :: "string \<Rightarrow> (string \<times> string) list" where
  "form_decode s = map decode_pair (filter (\<lambda>p. p \<noteq> []) (split_on CHR ''&'' s))"


subsection \<open>Encoding lemmas\<close>

lemma hex_digit_set: "n < 16 \<Longrightarrow> hex_digit n \<in> set ''0123456789ABCDEF''"
  unfolding hex_digit_def by (rule nth_mem) simp

lemma hex_value_hex_digit_all: "\<forall>n<(16::nat). hex_value (hex_digit n) = Some n"
  by (simp add: hex_value_def hex_digit_def numeral_eq_Suc less_Suc_eq)

lemma hex_value_hex_digit: "n < 16 \<Longrightarrow> hex_value (hex_digit n) = Some n"
  using hex_value_hex_digit_all by blast

lemma of_char_div_16: "of_char c div 16 < (16::nat)"
  using nat_of_char_less_256 [of c] by (intro less_mult_imp_div_less) simp

lemma char_of_hex_split: "char_of (16 * (of_char c div 16) + of_char c mod (16::nat)) = c"
  by simp

lemma pct_encode_no_plus: "CHR ''+'' \<notin> set (pct_encode c)"
  using hex_digit_set [OF of_char_div_16, of c] hex_digit_set [of "of_char c mod 16"]
  by (auto simp: pct_encode_def)

lemma replace_plus_pct_encode: "replace_plus (pct_encode c) = pct_encode c"
proof -
  have "\<forall>x\<in>set (pct_encode c). x \<noteq> CHR ''+''" using pct_encode_no_plus by blast
  then have "replace_plus (pct_encode c) = concat (map (\<lambda>x. [x]) (pct_encode c))"
    by (simp add: replace_plus_def cong: map_cong)
  then show ?thesis by simp
qed

lemma replace_plus_append: "replace_plus (xs @ ys) = replace_plus xs @ replace_plus ys"
  by (simp add: replace_plus_def)

lemma uri_unescaped_plus: "uri_unescaped (CHR ''+'')"
  by (simp add: uri_unescaped_def)

lemma replace_plus_char: "replace_plus (if uri_unescaped c then [c] else pct_encode c) = enc_char c"
  using uri_unescaped_plus
  by (auto simp: enc_char_def replace_plus_pct_encode) (simp_all add: replace_plus_def)

lemma replace_plus_encodeURI: "replace_plus (encodeURI s) = form_enc s"
  by (induction s) (simp_all add: encodeURI_def form_enc_def replace_plus_append replace_plus_char,
                    simp add: replace_plus_def)

lemma uri_unescaped_not_pct: "\<not> uri_unescaped (CHR ''%'')"
  by (simp add: uri_unescaped_def)

lemma pct_decode_pct_encode: "pct_decode (pct_encode c @ rest) = c # pct_decode rest"
proof -
  have hi: "hex_value (hex_digit (of_char c div 16)) = Some (of_char c div 16)"
    by (rule hex_value_hex_digit [OF of_char_div_16])
  have lo: "hex_value (hex_digit (of_char c mod 16)) = Some (of_char c mod 16)"
    by (rule hex_value_hex_digit) simp
  show ?thesis by (simp add: pct_encode_def hi lo)
qed

lemma pct_decode_enc_char: "pct_decode (enc_char c @ rest) = c # pct_decode rest"
proof (cases "c = CHR ''+''")
  case True
  have "of_char (CHR ''+'') = (43::nat)" by simp
  then have "char_of (43::nat) = CHR ''+''" using char_of_char [of "CHR ''+''"] by metis
  with True show ?thesis by (simp add: enc_char_def hex_value_def)
next
  case False
  show ?thesis
  proof (cases "uri_unescaped c")
    case True
    with uri_unescaped_not_pct have "c \<noteq> CHR ''%''" by auto
    with True False show ?thesis by (simp add: enc_char_def)
  next
    case nu: False
    with False show ?thesis by (simp add: enc_char_def pct_decode_pct_encode)
  qed
qed

lemma pct_decode_form_enc: "pct_decode (form_enc s) = s"
proof (induction s)
  case Nil
  then show ?case by (simp add: form_enc_def)
next
  case (Cons c s)
  then show ?case by (simp add: form_enc_def pct_decode_enc_char)
qed

lemma pct_encode_chars: "set (pct_encode c) \<subseteq> set ''%0123456789ABCDEF''"
  using hex_digit_set [OF of_char_div_16, of c] hex_digit_set [of "of_char c mod 16"]
  by (auto simp: pct_encode_def)

lemma sep_in_enc_char:
  assumes "d = CHR ''&'' \<or> d = CHR ''=''"
  shows "d \<in> set (enc_char c) \<longleftrightarrow> c = d"
proof -
  have "d \<notin> set (pct_encode c)" using pct_encode_chars [of c] assms by auto
  moreover have "uri_unescaped d" using assms by (auto simp: uri_unescaped_def)
  ultimately show ?thesis using assms by (auto simp: enc_char_def)
qed

lemma form_enc_append [simp]: "form_enc (xs @ ys) = form_enc xs @ form_enc ys"
  by (simp add: form_enc_def)

lemma form_enc_sep:
  "d = CHR ''&'' \<or> d = CHR ''='' \<Longrightarrow> form_enc [d] = [d]"
  by (auto simp: form_enc_def enc_char_def uri_unescaped_def)

lemma sep_in_form_enc:
  "d = CHR ''&'' \<or> d = CHR ''='' \<Longrightarrow> d \<in> set (form_enc s) \<longleftrightarrow> d \<in> set s"
  by (induction s) (auto simp: form_enc_def sep_in_enc_char)

lemma form_enc_join:
  "form_enc sep = sep \<Longrightarrow> form_enc (join sep ws) = join sep (map form_enc ws)"
  by (induction sep ws rule: join.induct) (simp_all add: form_enc_def)

subsection \<open>Decoding lemmas\<close>

lemma split_on_nonempty: "split_on d s \<noteq> []"
  by (induction s) (auto split: list.splits)

lemma split_on_no_sep: "d \<notin> set w \<Longrightarrow> split_on d w = [w]"
  by (induction w) auto

lemma split_on_append_sep: "d \<notin> set w \<Longrightarrow> split_on d (w @ d # rest) = w # split_on d rest"
  by (induction w) auto

lemma split_on_join:
  "ws \<noteq> [] \<Longrightarrow> \<forall>w\<in>set ws. d \<notin> set w \<Longrightarrow> split_on d (join [d] ws) = ws"
proof (induction ws)
  case Nil
  then show ?case by simp
next
  case (Cons w ws)
  then show ?case
    by (cases ws) (simp_all add: split_on_no_sep split_on_append_sep)
qed

lemma join_Cons_Cons: "join sep ((c # w) # ws) = c # join sep (w # ws)"
  by (cases ws) simp_all

lemma join_split_on: "join [d] (split_on d s) = s"
proof (induction s)
  case Nil
  then show ?case by simp
next
  case (Cons c s)
  obtain w ws where ws: "split_on d s = w # ws"
    using split_on_nonempty [of d s] by (cases "split_on d s") auto
  show ?case
  proof (cases "c = d")
    case True
    with Cons.IH ws show ?thesis by simp
  next
    case False
    with Cons.IH ws show ?thesis by (simp add: join_Cons_Cons)
  qed
qed

lemma decode_pair_enc:
  assumes "CHR ''='' \<notin> set k"
  shows "decode_pair (form_enc k @ CHR ''='' # form_enc v) = (k, v)"
proof -
  have k: "CHR ''='' \<notin> set (form_enc k)" using assms sep_in_form_enc by blast
  obtain w ws where ws: "split_on CHR ''='' (form_enc v) = w # ws"
    using split_on_nonempty by (cases "split_on CHR ''='' (form_enc v)") auto
  have "split_on CHR ''='' (form_enc k @ CHR ''='' # form_enc v) = form_enc k # w # ws"
    using split_on_append_sep [OF k] ws by simp
  moreover have "join ''='' (w # ws) = form_enc v"
    using join_split_on [of "CHR ''=''" "form_enc v"] ws by simp
  ultimately show ?thesis by (simp add: decode_pair_def pct_decode_form_enc)
qed

lemma makeQueryString_form_enc:
  "makeQueryString body =
     join ''&'' (map (\<lambda>f. form_enc f @ ''='' @ form_enc (to_str (obj_get body f))) (obj_keys body))"
proof -
  have amp: "form_enc ''&'' = ''&''" and eq: "form_enc ''='' = ''=''" by (simp_all add: form_enc_sep)
  have eqc: "form_enc (CHR ''='' # s) = CHR ''='' # form_enc s" for s
    using form_enc_append [of "''=''" s] eq by simp
  show ?thesis
    by (simp add: makeQueryString_def replace_plus_encodeURI form_enc_join [OF amp] comp_def eqc)
qed

lemma form_enc_amp: "form_enc (CHR ''&'' # b) = CHR ''&'' # form_enc b"
  by (simp add: form_enc_def enc_char_def uri_unescaped_def)

subsection \<open>The round trip through the server's decoder\<close>

lemma form_decode_makeQueryString:
  assumes "\<forall>f\<in>set (obj_keys body). CHR ''&'' \<notin> set f \<and> CHR ''='' \<notin> set f \<and> CHR ''&'' \<notin> set (to_str (obj_get body f))"
  shows "form_decode (makeQueryString body) = map (\<lambda>f. (f, to_str (obj_get body f))) (obj_keys body)"
proof (cases "obj_keys body = []")
  case True
  then show ?thesis by (simp add: makeQueryString_form_enc form_decode_def)
next
  case False
  let ?seg = "\<lambda>f. form_enc f @ ''='' @ form_enc (to_str (obj_get body f))"
  have amp: "\<forall>w\<in>set (map ?seg (obj_keys body)). CHR ''&'' \<notin> set w"
    using assms sep_in_form_enc [of "CHR ''&''"] by auto
  have split: "split_on CHR ''&'' (makeQueryString body) = map ?seg (obj_keys body)"
    using split_on_join [OF _ amp] False by (simp add: makeQueryString_form_enc)
  have nonempty: "filter (\<lambda>p. p \<noteq> []) (map ?seg (obj_keys body)) = map ?seg (obj_keys body)"
    by (simp add: filter_id_conv)
  have "map decode_pair (map ?seg (obj_keys body)) = map (\<lambda>f. (f, to_str (obj_get body f))) (obj_keys body)"
    using assms by (simp add: decode_pair_enc)
  then show ?thesis by (simp add: form_decode_def split nonempty)
qed

text \<open>C9: what the server's form decoder reads back from the encoded edit body
  is exactly the body's fields, in order, each with the string value of its
  value, for every body whose field names contain neither \<open>&\<close> nor \<open>=\<close> and
  whose values contain no \<open>&\<close>: \<open>encodeURI\<close> plus the \<open>+\<close> escape is
  undone by percent-decoding, and \<open>+\<close> in a value arrives as \<open>+\<close>, not as
  a space.\<close>

theorem makeQueryString_roundtrip:
  assumes "\<forall>f\<in>set (obj_keys body). CHR ''&'' \<notin> set f \<and> CHR ''='' \<notin> set f \<and> CHR ''&'' \<notin> set (to_str (obj_get body f))"
  shows "form_decode (makeQueryString body) = map (\<lambda>f. (f, to_str (obj_get body f))) (obj_keys body)"
  using assms by (rule form_decode_makeQueryString)

text \<open>C10: the transmitted body never contains a raw \<open>+\<close> (which the form
  decoder would turn into a space): every \<open>+\<close> is sent as \<open>%2B\<close>.\<close>

theorem makeQueryString_no_plus: "CHR ''+'' \<notin> set (makeQueryString body)"
proof -
  have "CHR ''+'' \<notin> set (enc_char c)" for c
    using pct_encode_no_plus [of c] by (auto simp: enc_char_def)
  then show ?thesis
    by (simp add: makeQueryString_def replace_plus_encodeURI form_enc_def)
qed

text \<open>C11: \<open>encodeURI\<close> leaves \<open>&\<close> and \<open>=\<close> unescaped, so a value
  containing \<open>&\<close> is not transmitted as one field: for a field whose name
  has neither \<open>&\<close> nor \<open>=\<close>, the server reads the value only up to its
  first \<open>&\<close>, and the rest of the value arrives as further fields of the
  body (\<open>a&b=c\<close> arrives as \<open>a\<close> and an extra field \<open>b=c\<close>).\<close>

theorem makeQueryString_ampersand_splits:
  assumes k: "CHR ''&'' \<notin> set k" "CHR ''='' \<notin> set k" and a: "CHR ''&'' \<notin> set a"
  shows "form_decode (makeQueryString [(k, Str (a @ CHR ''&'' # b))]) = (k, a) # form_decode (form_enc b)"
proof -
  have q: "makeQueryString [(k, Str (a @ CHR ''&'' # b))] = (form_enc k @ CHR ''='' # form_enc a) @ CHR ''&'' # form_enc b"
    by (simp add: makeQueryString_form_enc form_enc_amp js_eval)
  have "CHR ''&'' \<notin> set (form_enc k @ CHR ''='' # form_enc a)"
    using k a sep_in_form_enc [of "CHR ''&''"] by auto
  then have "split_on CHR ''&'' (makeQueryString [(k, Str (a @ CHR ''&'' # b))]) =
             (form_enc k @ CHR ''='' # form_enc a) # split_on CHR ''&'' (form_enc b)"
    unfolding q by (rule split_on_append_sep)
  then show ?thesis using decode_pair_enc [OF k(2), of a] by (simp add: form_decode_def)
qed

theorem makeQueryString_roundtrip_witness:
  "form_decode (makeQueryString [(''text'', Str ''x+y z%''), (''pageid'', Num 42)])
     = [(''text'', ''x+y z%''), (''pageid'', ''42'')]"
  using makeQueryString_roundtrip [of "[(''text'', Str ''x+y z%''), (''pageid'', Num 42)]"]
  by (simp add: js_eval)

theorem makeQueryString_ampersand_splits_witness:
  "CHR ''&'' \<notin> set ''text'' \<and> CHR ''='' \<notin> set ''text'' \<and> CHR ''&'' \<notin> set ''a'' \<and>
   form_decode (makeQueryString [(''text'', Str ''a&b=c'')]) = [(''text'', ''a''), (''b'', ''c'')]"
  using makeQueryString_ampersand_splits [of "''text''" "''a''" "''b=c''"]
  by (simp add: form_enc_def enc_char_def uri_unescaped_def form_decode_def decode_pair_def)

end
