(* ===== verification/Facade.thy ===== *)
theory Facade
  imports TokenCache FormEncoding
begin

text \<open>
  The public operations of a session (\<open>login\<close>, \<open>logout\<close> and \<open>edit\<close> in
  \<open>src/lib/index.js\<close>).  \<open>login\<close> is the two-round handshake: the first
  \<open>action=login\<close> POST, whose continuation stores the cookie prefix and the
  \<open>_session\<close> cookie and only then sends the second POST with \<open>lgtoken\<close>;
  the second continuation marks the session logged in and stores the user
  cookies when the answer has a \<open>login\<close> payload.  \<open>logout\<close> clears the
  flag and the four cookies before it sends \<open>action=logout\<close>.  \<open>edit\<close>
  resolves the title, computes the checksum (a parameter \<open>md5\<close>: the hash
  itself is Node's \<open>crypto\<close>, outside the repository), forces \<open>nocreate\<close>
  and \<open>bot\<close>, fetches the edit token through the token cache and posts the
  form-encoded body.
\<close>

subsection \<open>login\<close>

definition login_round2 :: "cont \<Rightarrow> cbargs \<Rightarrow> action" where
  "login_round2 callback args s =
     (case args of (err, data, ahr) \<Rightarrow>
        if truthy err then call_cont callback (err, Undefined, ahr) s
        else (case (if truthy data then get_prop data ''login'' else Inr data) of
                Inl e \<Rightarrow> (s, Thrown e)
              | Inr lg \<Rightarrow>
                  if truthy lg then
                    call_cont callback (err, data, Undefined)
                      (s\<lparr>loggedIn := True,
                         cookies := cookie_set ''Token'' (prop_val lg ''lgtoken'')
                                      (cookie_set ''UserID'' (prop_val lg ''lguserid'')
                                        (cookie_set ''UserName'' (prop_val lg ''lgusername'') (cookies s)))\<rparr>)
                  else call_cont callback (err, data, Undefined) s))"

definition login_round1 :: "jsval \<Rightarrow> jsval \<Rightarrow> cont \<Rightarrow> cbargs \<Rightarrow> action" where
  "login_round1 user pass callback args s =
     (case args of (err, data, ahr) \<Rightarrow>
        if truthy err then call_cont callback (err, Undefined, ahr) s
        else (case sbind (get_prop data ''login'') (\<lambda>lg. get_prop lg ''cookieprefix'') of
                Inl e \<Rightarrow> (s, Thrown e)
              | Inr pfx \<Rightarrow>
                  let lg = prop_val data ''login'';
                      s1 = s\<lparr>cookies := (cookies s)\<lparr>prefix := pfx\<rparr>\<rparr>;
                      s2 = s1\<lparr>cookies := cookie_set ''_session'' (prop_val lg ''sessionid'') (cookies s1)\<rparr>
                  in post [(''action'', Str ''login''), (''lgname'', user), (''lgpassword'', pass),
                           (''lgtoken'', prop_val lg ''token'')]
                       (Obj []) (Closure (login_round2 callback)) s2))"

definition login :: "jsval \<Rightarrow> jsval \<Rightarrow> cont \<Rightarrow> action" where
  "login user pass callback =
     post [(''action'', Str ''login''), (''lgname'', user), (''lgpassword'', pass)]
       (Obj []) (Closure (login_round1 user pass callback))"

subsection \<open>logout\<close>

definition logout :: "cont \<Rightarrow> action" where
  "logout callback s =
     get [(''action'', Str ''logout'')] callback
       (s\<lparr>loggedIn := False,
          cookies := cookie_delete ''_session'' (cookie_delete ''Token''
                       (cookie_delete ''UserID'' (cookie_delete ''UserName'' (cookies s))))\<rparr>)"

subsection \<open>edit\<close>

text \<open>\<open>md5(text)\<close>: Node's \<open>hash.update\<close> accepts a string and throws a
  \<open>TypeError\<close> on a number or a plain object.\<close>

definition md5_call :: "(string \<Rightarrow> string) \<Rightarrow> jsval \<Rightarrow> js_exn + string" where
  "md5_call md5 v = (case v of Str t \<Rightarrow> Inr (md5 t) | _ \<Rightarrow> Inl (TypeError ''data''))"

definition edit_checksum :: "(string \<Rightarrow> string) \<Rightarrow> jsobj \<Rightarrow> js_exn + string" where
  "edit_checksum md5 body =
     (if truthy (obj_get body ''appendtext'') \<or> truthy (obj_get body ''prependtext'') then
        md5_call md5 (js_add (js_or (obj_get body ''prependtext'') (Str '''')) (js_or (obj_get body ''appendtext'') (Str '''')))
      else if truthy (obj_get body ''text'') then md5_call md5 (obj_get body ''text'')
      else Inl (Error (''Body must have textual content of some sort.'' @
                       ''See http://www.mediawiki.org/wiki/API:Edit for details.'')))"

definition edit_with_token :: "jsobj \<Rightarrow> cont \<Rightarrow> cbargs \<Rightarrow> action" where
  "edit_with_token body callback args =
     (case args of (err, token, _) \<Rightarrow>
        post [(''action'', Str ''edit'')] (Str (makeQueryString (AList.update ''token'' token body))) callback)"

text \<open>The synchronous part of \<open>edit\<close>: the title, the checksum and the
  forced fields, in the order the code adds them to the caller's body object.\<close>

definition edit_body :: "(string \<Rightarrow> string) \<Rightarrow> jsval \<Rightarrow> jsval \<Rightarrow> jsobj \<Rightarrow> js_exn + jsobj" where
  "edit_body md5 isbot title body =
     (if typeof title = ''string'' \<or> typeof title = ''number'' then
        (let body1 = (if typeof title = ''string'' then AList.update ''title'' title body
                      else AList.update ''pageid'' title body)
         in sbind (edit_checksum md5 body1) (\<lambda>digest.
              let body2 = AList.update ''nocreate'' (Str ''true'') (AList.update ''md5'' (Str digest) body1)
              in Inr (if truthy isbot then AList.update ''bot'' (Str ''true'') body2 else body2)))
      else Inl (Error (''Title must be a String (name of page) or Number'' @ ''(page id).'')))"

definition edit :: "(string \<Rightarrow> string) \<Rightarrow> jsval \<Rightarrow> jsobj \<Rightarrow> cont \<Rightarrow> action" where
  "edit md5 title body callback s =
     (case edit_body md5 (isBot s) title body of
        Inl e \<Rightarrow> (s, Thrown e)
      | Inr body3 \<Rightarrow> getToken ''edit'' (Closure (edit_with_token body3 callback)) s)"

subsection \<open>Concrete answers used by the scenarios\<close>

abbreviation round1_login :: jsobj where
  "round1_login \<equiv> [(''cookieprefix'', Str ''x''), (''sessionid'', Str ''s1''), (''token'', Str ''t1'')]"

abbreviation round2_login :: jsobj where
  "round2_login \<equiv> [(''lgusername'', Str ''u''), (''lguserid'', Str ''1''), (''lgtoken'', Str ''final'')]"

abbreviation fixed_md5 :: "string \<Rightarrow> string" where
  "fixed_md5 \<equiv> \<lambda>_. ''5d41402abc4b2a76b9719d911017c592''"

subsection \<open>Dispatch lemmas\<close>

lemma post_closure:
  "post q b (Closure c) s = (s, Awaiting (build_req s ''POST'' (AList.update ''format'' (Str ''json'') q) b)
                                   (response_handler (Closure c)))"
  by (simp add: post_def request_def)

lemma get_user:
  "typeof f = ''function'' \<Longrightarrow>
   get q (User f) s = (s, Awaiting (build_req s ''GET'' (AList.update ''format'' (Str ''json'') q) Undefined)
                                   (response_handler (User f)))"
  by (simp add: get_def request_def)

lemma build_req_obj_body [simp]: "req_body (build_req s m q (Obj ob)) = Body (Obj ob)"
  by (simp add: build_req_def)

subsection \<open>The login handshake\<close>

text \<open>C12: \<open>login\<close> first sends only the round-one POST (\<open>action=login\<close>
  with name and password, no token) and changes nothing; if that round fails,
  its continuation hands the round-one error to the callback and sends nothing
  more, so round two is never attempted.  A callback that is not a function is
  only noticed here, after the network round trip, as a \<open>TypeError\<close>.\<close>

theorem login_round1_error:
  assumes "truthy err"
  shows "\<exists>req k. login u p (User f) s = (s, Awaiting req k) \<and>
           req_method req = ''POST'' \<and> req_body req = Body (Obj []) \<and>
           req_query req = [(''action'', Str ''login''), (''lgname'', u), (''lgpassword'', p), (''format'', Str ''json'')] \<and>
           (\<forall>d s'. k \<lparr>tr_err = err, tr_ahr = plain_ahr, tr_data = d\<rparr> s' =
               (s', if typeof f = ''function'' then Invoked f (err, Undefined, plain_ahr)
                    else Thrown (TypeError ''callback'')))"
  using assms by (simp add: login_def post_closure response_handler_plain login_round1_def)

text \<open>C13: round two is sent only from round one's continuation, after round
  one's answer has arrived: that continuation first stores the cookie prefix and
  the \<open>_session\<close> cookie from the answer, then POSTs the same credentials
  with round one's \<open>lgtoken\<close>, and the second request's cookie header is
  rendered from the jar as it is after those stores.\<close>

theorem login_round2_after_round1:
  assumes "\<not> truthy e" and "obj_get d ''login'' = Obj lg"
  shows "\<exists>req1 k1. login u p (User f) s = (s, Awaiting req1 k1) \<and>
           (\<forall>s'. \<exists>req2 k2.
              k1 \<lparr>tr_err = e, tr_ahr = plain_ahr, tr_data = Obj d\<rparr> s' =
                (s'\<lparr>cookies := cookie_set ''_session'' (obj_get lg ''sessionid'')
                               ((cookies s')\<lparr>prefix := obj_get lg ''cookieprefix''\<rparr>)\<rparr>, Awaiting req2 k2) \<and>
              req_method req2 = ''POST'' \<and>
              req_query req2 = [(''action'', Str ''login''), (''lgname'', u), (''lgpassword'', p),
                                (''lgtoken'', obj_get lg ''token''), (''format'', Str ''json'')] \<and>
              hd (req_headers req2) =
                (''Cookie'', parse (cookie_set ''_session'' (obj_get lg ''sessionid'')
                               ((cookies s')\<lparr>prefix := obj_get lg ''cookieprefix''\<rparr>))))"
  using assms by (simp add: login_def post_closure response_handler_plain login_round1_def js_eval)

text \<open>C14: a successful round two whose answer has a \<open>login\<close> payload marks
  the session logged in and stores \<open>UserName\<close>, \<open>UserID\<close> and \<open>Token\<close> from
  it; the callback then receives the error and data but no response handle
  (\<open>callback(err, data)\<close> drops the third argument).\<close>

theorem login_round2_success:
  assumes "\<not> truthy e" and "obj_get d ''login'' = Obj lg" and "typeof f = ''function''"
  shows "login_round2 (User f) (e, Obj d, ahr) s =
           (s\<lparr>loggedIn := True,
              cookies := cookie_set ''Token'' (obj_get lg ''lgtoken'')
                           (cookie_set ''UserID'' (obj_get lg ''lguserid'')
                             (cookie_set ''UserName'' (obj_get lg ''lgusername'') (cookies s)))\<rparr>,
            Invoked f (e, Obj d, Undefined))"
  using assms by (simp add: login_round2_def)

text \<open>C15: a successful round two whose answer lacks the \<open>login\<close> payload
  leaves the session as it was (not logged in if it was not) and still reports
  success to the callback with the data.\<close>

theorem login_round2_no_payload:
  assumes "\<not> truthy e" and "\<not> truthy (obj_get d ''login'')" and "typeof f = ''function''"
  shows "login_round2 (User f) (e, Obj d, ahr) s = (s, Invoked f (e, Obj d, Undefined))"
  using assms by (simp add: login_round2_def)

subsection \<open>logout\<close>

text \<open>C16: \<open>logout\<close> clears the logged-in flag and the \<open>UserName\<close>,
  \<open>UserID\<close>, \<open>Token\<close> and \<open>_session\<close> cookies, keeping every other cookie
  and the prefix, before anything else; with a function callback it then sends
  \<open>action=logout\<close>, whose cookie header no longer carries those cookies.\<close>

theorem logout_clears:
  assumes "typeof f = ''function''"
  shows "\<exists>s' req k. logout (User f) s = (s', Awaiting req k) \<and>
           \<not> loggedIn s' \<and>
           map_of (cookie_map (cookies s')) =
             map_of (cookie_map (cookies s)) |` (- {''UserName'', ''UserID'', ''Token'', ''_session''}) \<and>
           prefix (cookies s') = prefix (cookies s) \<and> tokens s' = tokens s \<and>
           req_method req = ''GET'' \<and> req_query req = [(''action'', Str ''logout''), (''format'', Str ''json'')] \<and>
           hd (req_headers req) = (''Cookie'', parse (cookies s'))"
  using assms by (auto simp: logout_def get_user cookie_delete_def delete_conv' restrict_map_def)

text \<open>C17: a \<open>logout\<close> whose callback is not a function throws the usage
  error only after it has already logged the session out locally: the flag and
  the four cookies are gone although no request is sent.\<close>

theorem logout_usage_error_after_clearing:
  assumes "typeof f \<noteq> ''function''"
  shows "logout (User f) s =
           (s\<lparr>loggedIn := False,
              cookies := cookie_delete ''_session'' (cookie_delete ''Token''
                           (cookie_delete ''UserID'' (cookie_delete ''UserName'' (cookies s))))\<rparr>,
            Thrown (Error ''Callback is not a function.''))"
  using assms by (simp add: logout_def get_def request_def)

subsection \<open>edit\<close>

lemma edit_checksum_update_other:
  "k \<notin> {''appendtext'', ''prependtext'', ''text''} \<Longrightarrow>
   edit_checksum md5 (AList.update k v body) = edit_checksum md5 body"
  by (auto simp: edit_checksum_def obj_get_def)

text \<open>C18: a title that is neither a string nor a number is rejected with the
  usage error before anything happens: no request, no change of the session.\<close>

theorem edit_title_type_error:
  assumes "typeof title \<noteq> ''string''" and "typeof title \<noteq> ''number''"
  shows "edit md5 title body (User f) s =
           (s, Thrown (Error ''Title must be a String (name of page) or Number(page id).''))"
  using assms by (simp add: edit_def edit_body_def)

text \<open>C19: an edit body with no truthy \<open>appendtext\<close>, \<open>prependtext\<close> or
  \<open>text\<close> is rejected with the missing-content error before any request and
  without changing the session.\<close>

theorem edit_missing_content:
  assumes "typeof title = ''string'' \<or> typeof title = ''number''"
    and "\<not> truthy (obj_get body ''appendtext'')" and "\<not> truthy (obj_get body ''prependtext'')"
    and "\<not> truthy (obj_get body ''text'')"
  shows "edit md5 title body (User f) s =
           (s, Thrown (Error ''Body must have textual content of some sort.See http://www.mediawiki.org/wiki/API:Edit for details.''))"
  using assms
  by (auto simp: edit_def edit_body_def sbind_def edit_checksum_update_other) (simp_all add: edit_checksum_def)

text \<open>C20: with string \<open>prependtext\<close> and \<open>appendtext\<close>, the checksum is taken
  over their concatenation, prepended text first; an empty or absent one counts
  as the empty string, so \<open>appendtext: "a"\<close> without \<open>prependtext\<close> and with
  \<open>prependtext: ""\<close> give the same checksum.\<close>

theorem edit_checksum_concat:
  assumes "obj_get body ''prependtext'' = Str p \<or> (obj_get body ''prependtext'' = Undefined \<and> p = [])"
    and "obj_get body ''appendtext'' = Str a"
    and "p @ a \<noteq> []"
  shows "edit_checksum md5 body = Inr (md5 (p @ a)) \<and>
         edit_checksum md5 (AList.update ''prependtext'' (Str p) body) = Inr (md5 (p @ a))"
  using assms by (auto simp: edit_checksum_def md5_call_def js_eval)

lemma edit_ok:
  "edit_body md5 (isBot s) title body = Inr b \<Longrightarrow>
   edit md5 title body (User f) s = getToken ''edit'' (Closure (edit_with_token b (User f))) s"
  by (simp add: edit_def)

lemma edit_with_token_post:
  "typeof f = ''function'' \<Longrightarrow>
   edit_with_token b (User f) (err, token, x) s =
     (s, Awaiting (build_req s ''POST'' [(''action'', Str ''edit''), (''format'', Str ''json'')]
                    (Str (makeQueryString (AList.update ''token'' token b))))
                  (response_handler (User f)))"
  by (simp add: edit_with_token_def post_def request_def)

text \<open>C21: the edit does not stop when the token query fails: the failed
  query's continuation still posts the edit, with the token field set to
  \<open>undefined\<close>, which the form encoding transmits as \<open>token=undefined\<close>.\<close>

theorem edit_token_failure_posts_undefined:
  assumes "edit_body md5 (isBot s) title body = Inr b"
    and "\<not> truthy (obj_get (tokens s) ''edit'')" and "truthy err" and "typeof f = ''function''"
  shows "\<exists>req k. edit md5 title body (User f) s = (s, Awaiting req k) \<and>
           (\<forall>d s'. \<exists>k2. k \<lparr>tr_err = err, tr_ahr = plain_ahr, tr_data = d\<rparr> s' =
              (s', Awaiting (build_req s' ''POST'' [(''action'', Str ''edit''), (''format'', Str ''json'')]
                              (Str (makeQueryString (AList.update ''token'' Undefined b)))) k2))"
  using assms
  by (simp add: edit_ok getToken_def request_defs response_handler_plain token_received_error
                edit_with_token_post)

lemma edit_body_pageid_text:
  "truthy isbot \<Longrightarrow> t \<noteq> [] \<Longrightarrow>
   edit_body md5 isbot (Num n) [(''text'', Str t)] =
     Inr [(''text'', Str t), (''pageid'', Num n), (''md5'', Str (md5 t)), (''nocreate'', Str ''true''),
          (''bot'', Str ''true'')]"
  by (simp add: edit_body_def edit_checksum_def md5_call_def js_eval)

text \<open>C22: \<open>edit(42, {text: 'hello'}, cb)\<close> on a bot session with a cached edit
  token sends one POST \<open>action=edit\<close> whose form body the server reads as
  \<open>text=hello\<close>, \<open>pageid=42\<close>, \<open>md5=md5('hello')\<close>, \<open>nocreate=true\<close>,
  \<open>bot=true\<close> and the cached token, the token's \<open>+\<close> intact.\<close>

theorem edit_pageid_scenario:
  assumes "set (md5 ''hello'') \<subseteq> set ''0123456789abcdef''"
    and "obj_get (tokens s) ''edit'' = Str tok" and "tok \<noteq> []" and "CHR ''&'' \<notin> set tok"
    and "truthy (isBot s)" and "typeof f = ''function''"
  shows "\<exists>req k b. edit md5 (Num 42) [(''text'', Str ''hello'')] (User f) s = (s, Awaiting req k) \<and>
           req_method req = ''POST'' \<and> req_query req = [(''action'', Str ''edit''), (''format'', Str ''json'')] \<and>
           req_body req = EncodedBody b \<and>
           form_decode b = [(''text'', ''hello''), (''pageid'', ''42''), (''md5'', md5 ''hello''),
                            (''nocreate'', ''true''), (''bot'', ''true''), (''token'', tok)]"
proof -
  let ?b = "AList.update ''token'' (Str tok)
              [(''text'', Str ''hello''), (''pageid'', Num 42), (''md5'', Str (md5 ''hello'')),
               (''nocreate'', Str ''true''), (''bot'', Str ''true'')]"
  have run: "edit md5 (Num 42) [(''text'', Str ''hello'')] (User f) s =
      (s, Awaiting (build_req s ''POST'' [(''action'', Str ''edit''), (''format'', Str ''json'')] (Str (makeQueryString ?b)))
                   (response_handler (User f)))"
    using assms(2,3,5,6)
    by (simp add: edit_ok [OF edit_body_pageid_text] getToken_def edit_with_token_post)
  have md5: "CHR ''&'' \<notin> set (md5 ''hello'') \<and> CHR ''='' \<notin> set (md5 ''hello'')"
    using assms(1) by auto
  have dec: "form_decode (makeQueryString ?b) =
      [(''text'', ''hello''), (''pageid'', ''42''), (''md5'', md5 ''hello''),
       (''nocreate'', ''true''), (''bot'', ''true''), (''token'', tok)]"
    using md5 assms(4) by (simp add: form_decode_makeQueryString js_eval)
  have ne: "makeQueryString ?b \<noteq> []"
    using dec by (auto simp: form_decode_def)
  show ?thesis
    using run dec ne by (simp add: build_req_def)
qed

subsection \<open>Witnesses\<close>

theorem login_round1_error_witness:
  "truthy (Str ''ECONNREFUSED'') \<and>
   (\<exists>req k. login (Str ''u'') (Str ''p'') (User (Fn 0)) example_session = (example_session, Awaiting req k) \<and>
      req_method req = ''POST'' \<and> req_body req = Body (Obj []) \<and>
      req_query req = [(''action'', Str ''login''), (''lgname'', Str ''u''), (''lgpassword'', Str ''p''),
                       (''format'', Str ''json'')] \<and>
      (\<forall>d s'. k \<lparr>tr_err = Str ''ECONNREFUSED'', tr_ahr = plain_ahr, tr_data = d\<rparr> s' =
          (s', Invoked (Fn 0) (Str ''ECONNREFUSED'', Undefined, plain_ahr))))"
  using login_round1_error [of "Str ''ECONNREFUSED''" "Str ''u''" "Str ''p''" "Fn 0" example_session]
  by simp

theorem login_round2_after_round1_witness:
  "\<not> truthy Undefined \<and> obj_get [(''login'', Obj round1_login)] ''login'' = Obj round1_login \<and>
   (\<exists>req1 k1. login (Str ''u'') (Str ''p'') (User (Fn 0)) example_session = (example_session, Awaiting req1 k1) \<and>
      (\<forall>s'. \<exists>req2 k2.
         k1 \<lparr>tr_err = Undefined, tr_ahr = plain_ahr, tr_data = Obj [(''login'', Obj round1_login)]\<rparr> s' =
           (s'\<lparr>cookies := cookie_set ''_session'' (Str ''s1'') ((cookies s')\<lparr>prefix := Str ''x''\<rparr>)\<rparr>, Awaiting req2 k2) \<and>
         req_method req2 = ''POST'' \<and>
         req_query req2 = [(''action'', Str ''login''), (''lgname'', Str ''u''), (''lgpassword'', Str ''p''),
                           (''lgtoken'', Str ''t1''), (''format'', Str ''json'')] \<and>
         hd (req_headers req2) =
           (''Cookie'', parse (cookie_set ''_session'' (Str ''s1'') ((cookies s')\<lparr>prefix := Str ''x''\<rparr>)))))"
  using login_round2_after_round1 [of Undefined "[(''login'', Obj round1_login)]" round1_login
      "Str ''u''" "Str ''p''" "Fn 0" example_session]
  by (simp add: js_eval)

theorem login_round2_success_witness:
  "\<not> truthy Undefined \<and> obj_get [(''login'', Obj round2_login)] ''login'' = Obj round2_login \<and>
   typeof (Fn 0) = ''function'' \<and>
   login_round2 (User (Fn 0)) (Undefined, Obj [(''login'', Obj round2_login)], plain_ahr) example_session =
     (example_session\<lparr>loggedIn := True,
        cookies := \<lparr>prefix = Str '''', cookie_map = [(''UserName'', Str ''u''), (''UserID'', Str ''1''),
                                                  (''Token'', Str ''final'')]\<rparr>\<rparr>,
      Invoked (Fn 0) (Undefined, Obj [(''login'', Obj round2_login)], Undefined))"
  using login_round2_success [of Undefined "[(''login'', Obj round2_login)]" round2_login "Fn 0" plain_ahr example_session]
  by (simp add: js_eval cookie_set_def)

theorem login_round2_no_payload_witness:
  "\<not> truthy Undefined \<and> \<not> truthy (obj_get [(''warnings'', Obj [])] ''login'') \<and> typeof (Fn 0) = ''function'' \<and>
   login_round2 (User (Fn 0)) (Undefined, Obj [(''warnings'', Obj [])], plain_ahr) example_session =
     (example_session, Invoked (Fn 0) (Undefined, Obj [(''warnings'', Obj [])], Undefined))"
  using login_round2_no_payload [of Undefined "[(''warnings'', Obj [])]" "Fn 0" plain_ahr example_session]
  by (simp add: js_eval)

theorem logout_clears_witness:
  "typeof (Fn 0) = ''function'' \<and>
   (\<exists>s' req k. logout (User (Fn 0)) (example_session\<lparr>loggedIn := True,
        cookies := \<lparr>prefix = Str ''x'', cookie_map = [(''_session'', Str ''s1''), (''UserName'', Str ''u''),
                                                  (''lang'', Str ''en'')]\<rparr>\<rparr>) = (s', Awaiting req k) \<and>
      \<not> loggedIn s' \<and>
      map_of (cookie_map (cookies s')) =
        map_of [(''_session'', Str ''s1''), (''UserName'', Str ''u''), (''lang'', Str ''en'')]
          |` (- {''UserName'', ''UserID'', ''Token'', ''_session''}) \<and>
      prefix (cookies s') = Str ''x'' \<and> tokens s' = [] \<and>
      req_method req = ''GET'' \<and> req_query req = [(''action'', Str ''logout''), (''format'', Str ''json'')] \<and>
      hd (req_headers req) = (''Cookie'', parse (cookies s')))"
  using logout_clears [of "Fn 0" "example_session\<lparr>loggedIn := True,
        cookies := \<lparr>prefix = Str ''x'', cookie_map = [(''_session'', Str ''s1''), (''UserName'', Str ''u''),
                                                  (''lang'', Str ''en'')]\<rparr>\<rparr>"]
  by simp

theorem logout_usage_error_after_clearing_witness:
  "typeof (Str ''done'') \<noteq> ''function'' \<and>
   logout (User (Str ''done'')) (example_session\<lparr>loggedIn := True,
        cookies := \<lparr>prefix = Str ''x'', cookie_map = [(''_session'', Str ''s1''), (''UserName'', Str ''u'')]\<rparr>\<rparr>) =
     (example_session\<lparr>cookies := \<lparr>prefix = Str ''x'', cookie_map = []\<rparr>\<rparr>,
      Thrown (Error ''Callback is not a function.''))"
  using logout_usage_error_after_clearing [of "Str ''done''" "example_session\<lparr>loggedIn := True,
        cookies := \<lparr>prefix = Str ''x'', cookie_map = [(''_session'', Str ''s1''), (''UserName'', Str ''u'')]\<rparr>\<rparr>"]
  by (simp add: cookie_delete_def)

theorem edit_title_type_error_witness:
  "typeof (Bool True) \<noteq> ''string'' \<and> typeof (Bool True) \<noteq> ''number'' \<and>
   edit fixed_md5 (Bool True) [(''text'', Str ''hello'')] (User (Fn 0)) example_session =
     (example_session, Thrown (Error ''Title must be a String (name of page) or Number(page id).''))"
  using edit_title_type_error [of "Bool True" fixed_md5 "[(''text'', Str ''hello'')]" "Fn 0" example_session]
  by simp

theorem edit_missing_content_witness:
  "(typeof (Str ''Sandbox'') = ''string'' \<or> typeof (Str ''Sandbox'') = ''number'') \<and>
   \<not> truthy (obj_get [(''summary'', Str ''s''), (''text'', Str '''')] ''appendtext'') \<and>
   \<not> truthy (obj_get [(''summary'', Str ''s''), (''text'', Str '''')] ''prependtext'') \<and>
   \<not> truthy (obj_get [(''summary'', Str ''s''), (''text'', Str '''')] ''text'') \<and>
   edit fixed_md5 (Str ''Sandbox'') [(''summary'', Str ''s''), (''text'', Str '''')] (User (Fn 0)) example_session =
     (example_session, Thrown (Error ''Body must have textual content of some sort.See http://www.mediawiki.org/wiki/API:Edit for details.''))"
  using edit_missing_content [of "Str ''Sandbox''" "[(''summary'', Str ''s''), (''text'', Str '''')]" fixed_md5
      "Fn 0" example_session]
  by (simp add: js_eval)

theorem edit_checksum_concat_witness:
  "(obj_get [(''appendtext'', Str ''a'')] ''prependtext'' = Str [] \<or>
      (obj_get [(''appendtext'', Str ''a'')] ''prependtext'' = Undefined \<and> [] = ([]::string))) \<and>
   obj_get [(''appendtext'', Str ''a'')] ''appendtext'' = Str ''a'' \<and> [] @ ''a'' \<noteq> [] \<and>
   edit_checksum rev [(''appendtext'', Str ''a'')] = Inr (rev ''a'') \<and>
   edit_checksum rev (AList.update ''prependtext'' (Str []) [(''appendtext'', Str ''a'')]) = Inr (rev ''a'')"
  using edit_checksum_concat [of "[(''appendtext'', Str ''a'')]" "[]" "''a''" rev]
  by (simp add: js_eval)

theorem edit_token_failure_posts_undefined_witness:
  "edit_body fixed_md5 (isBot example_session) (Str ''Sandbox'') [(''text'', Str ''hello'')] =
     Inr [(''text'', Str ''hello''), (''title'', Str ''Sandbox''), (''md5'', Str ''5d41402abc4b2a76b9719d911017c592''),
          (''nocreate'', Str ''true''), (''bot'', Str ''true'')] \<and>
   \<not> truthy (obj_get (tokens example_session) ''edit'') \<and> truthy (Str ''ETIMEDOUT'') \<and> typeof (Fn 0) = ''function'' \<and>
   (\<exists>req k. edit fixed_md5 (Str ''Sandbox'') [(''text'', Str ''hello'')] (User (Fn 0)) example_session = (example_session, Awaiting req k) \<and>
      (\<forall>d s'. \<exists>k2. k \<lparr>tr_err = Str ''ETIMEDOUT'', tr_ahr = plain_ahr, tr_data = d\<rparr> s' =
         (s', Awaiting (build_req s' ''POST'' [(''action'', Str ''edit''), (''format'', Str ''json'')]
                (Str (makeQueryString [(''text'', Str ''hello''), (''title'', Str ''Sandbox''),
                   (''md5'', Str ''5d41402abc4b2a76b9719d911017c592''), (''nocreate'', Str ''true''),
                   (''bot'', Str ''true''), (''token'', Undefined)]))) k2)))"
  using edit_token_failure_posts_undefined [of fixed_md5 example_session "Str ''Sandbox''" "[(''text'', Str ''hello'')]"
      "[(''text'', Str ''hello''), (''title'', Str ''Sandbox''), (''md5'', Str ''5d41402abc4b2a76b9719d911017c592''),
        (''nocreate'', Str ''true''), (''bot'', Str ''true'')]" "Str ''ETIMEDOUT''" "Fn 0"]
  by (simp add: edit_body_def edit_checksum_def md5_call_def js_eval)

theorem edit_pageid_scenario_witness:
  "set (fixed_md5 ''hello'') \<subseteq> set ''0123456789abcdef'' \<and>
   obj_get (tokens (example_session\<lparr>tokens := [(''edit'', Str (''ab12+'' @ [CHR 0x5C]))]\<rparr>)) ''edit''
     = Str (''ab12+'' @ [CHR 0x5C]) \<and>
   ''ab12+'' @ [CHR 0x5C] \<noteq> [] \<and> CHR ''&'' \<notin> set (''ab12+'' @ [CHR 0x5C]) \<and>
   truthy (isBot (example_session\<lparr>tokens := [(''edit'', Str (''ab12+'' @ [CHR 0x5C]))]\<rparr>)) \<and>
   typeof (Fn 0) = ''function'' \<and>
   (\<exists>req k b. edit fixed_md5 (Num 42) [(''text'', Str ''hello'')] (User (Fn 0))
        (example_session\<lparr>tokens := [(''edit'', Str (''ab12+'' @ [CHR 0x5C]))]\<rparr>)
        = (example_session\<lparr>tokens := [(''edit'', Str (''ab12+'' @ [CHR 0x5C]))]\<rparr>, Awaiting req k) \<and>
      req_method req = ''POST'' \<and> req_query req = [(''action'', Str ''edit''), (''format'', Str ''json'')] \<and>
      req_body req = EncodedBody b \<and>
      form_decode b = [(''text'', ''hello''), (''pageid'', ''42''), (''md5'', ''5d41402abc4b2a76b9719d911017c592''),
                       (''nocreate'', ''true''), (''bot'', ''true''), (''token'', ''ab12+'' @ [CHR 0x5C])])"
  using edit_pageid_scenario [of fixed_md5 "example_session\<lparr>tokens := [(''edit'', Str (''ab12+'' @ [CHR 0x5C]))]\<rparr>"
      "''ab12+'' @ [CHR 0x5C]" "Fn 0"]
  by (simp add: js_eval)


subsection \<open>The type of the checksummed text\<close>

lemma js_add_or_typeof:
  "typeof (js_add (js_or p (Str '''')) (js_or a (Str ''''))) =
     (if truthy p \<and> truthy a \<and> \<not> stringish p \<and> \<not> stringish a then ''number'' else ''string'')"
  by (cases p; cases a) (simp_all add: js_add_def js_or_def)

lemma md5_call_typeof: "md5_call md5 v = Inl (TypeError ''data'') \<longleftrightarrow> typeof v \<noteq> ''string''"
  by (cases v) (simp_all add: md5_call_def)

text \<open>C40: The value \<open>edit\<close> hands to \<open>md5\<close> when the body has a truthy
  \<open>appendtext\<close> or \<open>prependtext\<close>, \<open>(body.prependtext || "") +
  (body.appendtext || "")\<close>, is a string unless both fields are truthy
  non-string primitives (numbers or \<open>true\<close>), in which case \<open>+\<close> adds
  them as numbers and the checksum throws Node's \<open>TypeError\<close>; exactly
  then the checksum fails.\<close>

theorem edit_checksum_arg_type:
  assumes "truthy (obj_get body ''appendtext'') \<or> truthy (obj_get body ''prependtext'')"
  shows "typeof (js_add (js_or (obj_get body ''prependtext'') (Str '''')) (js_or (obj_get body ''appendtext'') (Str ''''))) =
           (if truthy (obj_get body ''prependtext'') \<and> truthy (obj_get body ''appendtext'') \<and>
               \<not> stringish (obj_get body ''prependtext'') \<and> \<not> stringish (obj_get body ''appendtext'')
            then ''number'' else ''string'') \<and>
         (edit_checksum md5 body = Inl (TypeError ''data'') \<longleftrightarrow>
            truthy (obj_get body ''prependtext'') \<and> truthy (obj_get body ''appendtext'') \<and>
            \<not> stringish (obj_get body ''prependtext'') \<and> \<not> stringish (obj_get body ''appendtext''))"
  using assms by (simp add: edit_checksum_def md5_call_typeof js_add_or_typeof)

theorem edit_checksum_arg_type_witness:
  "truthy (obj_get [(''prependtext'', Num 1), (''appendtext'', Num 2)] ''appendtext'') \<and>
   typeof (js_add (js_or (obj_get [(''prependtext'', Num 1), (''appendtext'', Num 2)] ''prependtext'') (Str ''''))
                  (js_or (obj_get [(''prependtext'', Num 1), (''appendtext'', Num 2)] ''appendtext'') (Str ''''))) = ''number'' \<and>
   edit_checksum fixed_md5 [(''prependtext'', Num 1), (''appendtext'', Num 2)] = Inl (TypeError ''data'')"
  using edit_checksum_arg_type [of "[(''prependtext'', Num 1), (''appendtext'', Num 2)]" fixed_md5]
  by (simp add: obj_get_def)

end
