(* ===== verification/Queries.thy ===== *)
theory Queries
  imports Request
begin

text \<open>
  The two query consumers of \<open>src/lib/index.js\<close>, thin parameter mappings
  over \<open>_query\<close>: \<open>categorymembers\<close> builds the \<open>list=categorymembers\<close>
  options (title prefixed by \<open>Category:\<close>, limit 50, every caller option
  renamed with a \<open>cm\<close> prefix, \<open>cmcontinue\<close> dropped when undefined) and
  hands the caller's callback to the query; \<open>getArticleContents\<close> queries the
  revision content of a title and its continuation takes \<open>revisions[0]['*']\<close>
  of the last page of the answer, the empty string when there is no data.
\<close>

definition cm_options :: "jsval \<Rightarrow> jsval \<Rightarrow> jsobj" where
  "cm_options category q =
     (let cmoptions = [(''list'', Str ''categorymembers''), (''cmtitle'', Str (''Category:'' @ to_str category)),
                       (''cmlimit'', Num 50)];
          cmoptions1 = foldl (\<lambda>opts option. AList.update (''cm'' @ option) (prop_val q option) opts)
                         cmoptions (js_keys q)
      in if obj_get cmoptions1 ''cmcontinue'' = Undefined
         then AList.delete ''cmcontinue'' cmoptions1 else cmoptions1)"

definition categorymembers :: "jsval \<Rightarrow> jsval \<Rightarrow> cont \<Rightarrow> action" where
  "categorymembers category q callback = query (cm_options category q) callback"

definition contents_received :: "cont \<Rightarrow> cbargs \<Rightarrow> action" where
  "contents_received callback args s =
     (case args of (err, data, ahr) \<Rightarrow>
        if truthy data then
          (case sbind (get_prop data ''query'') (\<lambda>q. get_prop q ''pages'') of
             Inl e \<Rightarrow> (s, Thrown e)
           | Inr pages \<Rightarrow>
               (case for_in_assign
                       (\<lambda>page. sbind (get_prop pages page) (\<lambda>p. sbind (get_prop p ''revisions'')
                                 (\<lambda>revs. sbind (get_prop revs ''0'') (\<lambda>rev0. get_prop rev0 ''*''))))
                       (Str '''') (js_keys pages) of
                  Inl e \<Rightarrow> (s, Thrown e)
                | Inr contents \<Rightarrow> call_cont callback (err, contents, ahr) s))
        else call_cont callback (err, Str '''', ahr) s)"

definition getArticleContents :: "jsval \<Rightarrow> cont \<Rightarrow> action" where
  "getArticleContents article callback =
     query [(''prop'', Str ''revisions''), (''rvprop'', Str ''content''), (''titles'', article)]
       (Closure (contents_received callback))"


subsection \<open>Behaviour\<close>

lemma cm_options_map:
  "map_of (cm_options c (Obj ob)) =
     (let m = map_of [(''list'', Str ''categorymembers''), (''cmtitle'', Str (''Category:'' @ to_str c)),
                      (''cmlimit'', Num 50)]
              ++ map_of (map (\<lambda>k. (''cm'' @ k, obj_get ob k)) (obj_keys ob))
      in if obj_get ob ''continue'' = Undefined then m(''cmcontinue'' := None) else m)"
proof -
  let ?base = "[(''list'', Str ''categorymembers''), (''cmtitle'', Str (''Category:'' @ to_str c)), (''cmlimit'', Num 50)]"
  let ?M = "map_of (map (\<lambda>k. (''cm'' @ k, obj_get ob k)) (obj_keys ob))"
  let ?o1 = "foldl (\<lambda>opts option. AList.update (''cm'' @ option) (prop_val (Obj ob) option) opts) ?base (obj_keys ob)"
  have d: "distinct (map fst (map (\<lambda>k. (''cm'' @ k, obj_get ob k)) (obj_keys ob)))"
    using distinct_obj_keys [of ob] by (simp add: distinct_map inj_on_def)
  have m: "map_of ?o1 = map_of ?base ++ ?M"
    unfolding map_of_foldl_update using map_of_rev_distinct [OF d] by (simp add: rev_map[symmetric])
  have mc: "?M ''cmcontinue'' = (if ''continue'' \<in> set (obj_keys ob) then Some (obj_get ob ''continue'') else None)"
    using map_of_map_prefix [of "''cm''" "obj_get ob" "obj_keys ob" "''continue''"] by simp
  have "obj_get ?o1 ''cmcontinue'' = (case (map_of ?base ++ ?M) ''cmcontinue'' of None \<Rightarrow> Undefined | Some v \<Rightarrow> v)"
    by (simp only: obj_get_def m)
  also have "\<dots> = obj_get ob ''continue''"
    using mc set_obj_keys [of "''continue''" ob]
    by (auto simp: map_add_def obj_get_def split: option.splits)
  finally have cont: "obj_get ?o1 ''cmcontinue'' = obj_get ob ''continue''" .
  show ?thesis
    unfolding cm_options_def Let_def js_keys.simps cont
    by (cases "obj_get ob ''continue'' = Undefined") (simp_all only: if_True if_False delete_conv' m simp_thms)
qed

text \<open>C23: \<open>categorymembers\<close> sends one GET query whose parameters are
  \<open>list=categorymembers\<close>, \<open>cmtitle=Category:<name>\<close> and \<open>cmlimit=50\<close>,
  overridden by every caller option \<open>o\<close> renamed \<open>cmo\<close>, without
  \<open>cmcontinue\<close> when the caller's \<open>continue\<close> is undefined, plus
  \<open>action=query\<close> and \<open>format=json\<close>.\<close>

theorem categorymembers_query:
  assumes "typeof f = ''function''"
  shows "\<exists>req k. categorymembers c (Obj ob) (User f) s = (s, Awaiting req k) \<and> req_method req = ''GET'' \<and>
           map_of (req_query req) =
             (let m = map_of [(''list'', Str ''categorymembers''), (''cmtitle'', Str (''Category:'' @ to_str c)),
                              (''cmlimit'', Num 50)]
                      ++ map_of (map (\<lambda>k. (''cm'' @ k, obj_get ob k)) (obj_keys ob))
              in if obj_get ob ''continue'' = Undefined then m(''cmcontinue'' := None) else m)
                   (''action'' \<mapsto> Str ''query'', ''format'' \<mapsto> Str ''json'')"
proof -
  have "\<exists>req k. categorymembers c (Obj ob) (User f) s = (s, Awaiting req k) \<and> req_method req = ''GET'' \<and>
          map_of (req_query req) = (map_of (cm_options c (Obj ob)))(''action'' \<mapsto> Str ''query'', ''format'' \<mapsto> Str ''json'')"
    using assms by (simp add: categorymembers_def query_def get_def request_def update_conv')
  then show ?thesis by (simp only: cm_options_map)
qed

text \<open>C24: \<open>getArticleContents\<close> queries the title and hands the callback
  the contents it finds: for an answer with one page and no error, the text of
  that page's first revision; for an answer with no data (a transport failure,
  or an error the header turned into an error with no data), the empty string;
  in both cases with the error and the response handle.\<close>

theorem getArticleContents_contents:
  assumes "typeof f = ''function''"
  shows "\<exists>req k. getArticleContents t (User f) s = (s, Awaiting req k) \<and>
           map_of (req_query req) ''titles'' = Some t \<and>
           (\<forall>err pid txt revs s'. \<not> truthy err \<longrightarrow>
              k \<lparr>tr_err = err, tr_ahr = plain_ahr,
                 tr_data = Obj [(''query'', Obj [(''pages'', Obj [(pid, Obj [(''revisions'', Arr (Obj [(''*'', Str txt)] # revs))])])])]\<rparr> s'
                = (s', Invoked f (err, Str txt, plain_ahr))) \<and>
           (\<forall>err d s'. \<not> truthy d \<longrightarrow>
              k \<lparr>tr_err = err, tr_ahr = plain_ahr, tr_data = d\<rparr> s' = (s', Invoked f (err, Str '''', plain_ahr)))"
  using assms
  by (simp add: getArticleContents_def query_def get_def request_def response_handler_plain
                contents_received_def js_eval del: index_key_def)


subsection \<open>Witnesses\<close>

theorem categorymembers_query_witness:
  "typeof (Fn 0) = ''function'' \<and>
   (\<exists>req k. categorymembers (Str ''Cats'') (Obj [(''limit'', Num 500), (''continue'', Undefined)]) (User (Fn 0))
               example_session = (example_session, Awaiting req k) \<and> req_method req = ''GET'' \<and>
      map_of (req_query req) =
        map_of [(''list'', Str ''categorymembers''), (''cmtitle'', Str ''Category:Cats''), (''cmlimit'', Num 500),
                (''action'', Str ''query''), (''format'', Str ''json'')])"
proof -
  have "\<exists>req k. categorymembers (Str ''Cats'') (Obj [(''limit'', Num 500), (''continue'', Undefined)]) (User (Fn 0))
               example_session = (example_session, Awaiting req k) \<and> req_method req = ''GET'' \<and>
      map_of (req_query req) =
        (let m = map_of [(''list'', Str ''categorymembers''), (''cmtitle'', Str (''Category:'' @ to_str (Str ''Cats''))),
                         (''cmlimit'', Num 50)]
                 ++ map_of (map (\<lambda>k. (''cm'' @ k, obj_get [(''limit'', Num 500), (''continue'', Undefined)] k))
                              (obj_keys [(''limit'', Num 500), (''continue'', Undefined)]))
         in if obj_get [(''limit'', Num 500), (''continue'', Undefined)] ''continue'' = Undefined
            then m(''cmcontinue'' := None) else m)
          (''action'' \<mapsto> Str ''query'', ''format'' \<mapsto> Str ''json'')"
    by (rule categorymembers_query) simp
  moreover have "(let m = map_of [(''list'', Str ''categorymembers''), (''cmtitle'', Str (''Category:'' @ to_str (Str ''Cats''))),
                         (''cmlimit'', Num 50)]
                 ++ map_of (map (\<lambda>k. (''cm'' @ k, obj_get [(''limit'', Num 500), (''continue'', Undefined)] k))
                              (obj_keys [(''limit'', Num 500), (''continue'', Undefined)]))
         in if obj_get [(''limit'', Num 500), (''continue'', Undefined)] ''continue'' = Undefined
            then m(''cmcontinue'' := None) else m)
          (''action'' \<mapsto> Str ''query'', ''format'' \<mapsto> Str ''json'') =
        map_of [(''list'', Str ''categorymembers''), (''cmtitle'', Str ''Category:Cats''), (''cmlimit'', Num 500),
                (''action'', Str ''query''), (''format'', Str ''json'')]"
    by (auto simp: js_eval fun_eq_iff map_add_def)
  ultimately show ?thesis by simp
qed

theorem getArticleContents_contents_witness:
  "typeof (Fn 0) = ''function'' \<and>
   (\<exists>req k. getArticleContents (Str ''Sandbox'') (User (Fn 0)) example_session = (example_session, Awaiting req k) \<and>
      map_of (req_query req) ''titles'' = Some (Str ''Sandbox'') \<and>
      k \<lparr>tr_err = Undefined, tr_ahr = plain_ahr,
         tr_data = Obj [(''query'', Obj [(''pages'', Obj [(''7'', Obj [(''revisions'', Arr [Obj [(''*'', Str ''Hello'')]])])])])]\<rparr>
        example_session
        = (example_session, Invoked (Fn 0) (Undefined, Str ''Hello'', plain_ahr)) \<and>
      k \<lparr>tr_err = Str ''ECONNRESET'', tr_ahr = plain_ahr, tr_data = Undefined\<rparr> example_session
        = (example_session, Invoked (Fn 0) (Str ''ECONNRESET'', Str '''', plain_ahr)))"
proof -
  obtain req k where "getArticleContents (Str ''Sandbox'') (User (Fn 0)) example_session = (example_session, Awaiting req k)"
    and "map_of (req_query req) ''titles'' = Some (Str ''Sandbox'')"
    and "\<forall>err pid txt revs s'. \<not> truthy err \<longrightarrow>
              k \<lparr>tr_err = err, tr_ahr = plain_ahr,
                 tr_data = Obj [(''query'', Obj [(''pages'', Obj [(pid, Obj [(''revisions'', Arr (Obj [(''*'', Str txt)] # revs))])])])]\<rparr> s'
                = (s', Invoked (Fn 0) (err, Str txt, plain_ahr))"
    and "\<forall>err d s'. \<not> truthy d \<longrightarrow>
              k \<lparr>tr_err = err, tr_ahr = plain_ahr, tr_data = d\<rparr> s' = (s', Invoked (Fn 0) (err, Str '''', plain_ahr))"
    using getArticleContents_contents [of "Fn 0" "Str ''Sandbox''" example_session] by auto
  then show ?thesis by (intro conjI exI [of _ req] exI [of _ k]) simp_all
qed

end
