(* ===== verification/System.thy ===== *)
theory System
  imports Facade Queries
begin

text \<open>
  The session as a whole: any number of operations in flight at once, sharing
  one session state, with the transport answering their requests in any order.
  A call of a public operation runs its synchronous part; a delivery hands any
  pending request's result to its continuation, on the session as it is at that
  moment.  Every hand-off to the transport, callback invocation and exception is
  recorded in a trace.  Invariants of the session are proved for every
  reachable state by rule induction: an operation \<^emph>\<open>keeps\<close> a predicate when
  its synchronous part and every continuation it leaves behind, for any
  response, preserve it.
\<close>

datatype api_call =
    Categorymembers jsval jsval jsval
  | Login jsval jsval jsval
  | Edit jsval jsobj jsval
  | GetArticleContents jsval jsval
  | Logout jsval

datatype event = Sent http_req | Called jsval cbargs | Raised js_exn

record sys =
  sess :: session
  pending :: "(http_req \<times> (tresult \<Rightarrow> action)) list"
  trace :: "event list"

fun run_call :: "(string \<Rightarrow> string) \<Rightarrow> api_call \<Rightarrow> action" where
  "run_call md5 (Categorymembers c q cb) = categorymembers c q (User cb)"
| "run_call md5 (Login u p cb) = login u p (User cb)"
| "run_call md5 (Edit t b cb) = edit md5 t b (User cb)"
| "run_call md5 (GetArticleContents a cb) = getArticleContents a (User cb)"
| "run_call md5 (Logout cb) = logout (User cb)"

definition record_outcome :: "sys \<Rightarrow> session \<times> outcome \<Rightarrow> sys" where
  "record_outcome y r =
     (case r of
        (s', Awaiting req k) \<Rightarrow> y\<lparr>sess := s', pending := pending y @ [(req, k)], trace := trace y @ [Sent req]\<rparr>
      | (s', Invoked f a) \<Rightarrow> y\<lparr>sess := s', trace := trace y @ [Called f a]\<rparr>
      | (s', Thrown e) \<Rightarrow> y\<lparr>sess := s', trace := trace y @ [Raised e]\<rparr>)"

definition remove_at :: "nat \<Rightarrow> 'a list \<Rightarrow> 'a list" where
  "remove_at i xs = take i xs @ drop (Suc i) xs"

inductive sys_step :: "(string \<Rightarrow> string) \<Rightarrow> sys \<Rightarrow> sys \<Rightarrow> bool" for md5 where
  call: "sys_step md5 y (record_outcome y (run_call md5 c (sess y)))"
| deliver: "i < length (pending y) \<Longrightarrow> pending y ! i = (req, k) \<Longrightarrow>
    sys_step md5 y (record_outcome (y\<lparr>pending := remove_at i (pending y)\<rparr>) (k r (sess y)))"

inductive reachable :: "(string \<Rightarrow> string) \<Rightarrow> sys \<Rightarrow> bool" for md5 where
  init: "MediaWikiApi h = Inr s \<Longrightarrow> reachable md5 \<lparr>sess = s, pending = [], trace = []\<rparr>"
| step: "reachable md5 y \<Longrightarrow> sys_step md5 y y' \<Longrightarrow> reachable md5 y'"

subsection \<open>Predicates kept by operations\<close>

text \<open>\<open>keeps P Q out\<close>: every request the outcome hands out satisfies
  \<open>Q\<close>, and every continuation, run on a session satisfying \<open>P\<close> with any
  response, yields a session satisfying \<open>P\<close> and again such an outcome.\<close>

inductive keeps :: "(session \<Rightarrow> bool) \<Rightarrow> (http_req \<Rightarrow> bool) \<Rightarrow> outcome \<Rightarrow> bool" for P Q where
  invoked: "keeps P Q (Invoked f a)"
| thrown: "keeps P Q (Thrown e)"
| awaiting: "Q req \<Longrightarrow> (\<And>r s. P s \<Longrightarrow> P (fst (k r s)) \<and> keeps P Q (snd (k r s))) \<Longrightarrow>
    keeps P Q (Awaiting req k)"

definition preserves :: "(session \<Rightarrow> bool) \<Rightarrow> (http_req \<Rightarrow> bool) \<Rightarrow> action \<Rightarrow> bool" where
  "preserves P Q a \<longleftrightarrow> (\<forall>s. P s \<longrightarrow> P (fst (a s)) \<and> keeps P Q (snd (a s)))"

definition cont_ok :: "(session \<Rightarrow> bool) \<Rightarrow> (http_req \<Rightarrow> bool) \<Rightarrow> cont \<Rightarrow> bool" where
  "cont_ok P Q cb \<longleftrightarrow> (case cb of User f \<Rightarrow> True | Closure c \<Rightarrow> \<forall>a. preserves P Q (c a))"

definition sys_inv :: "(session \<Rightarrow> bool) \<Rightarrow> (http_req \<Rightarrow> bool) \<Rightarrow> sys \<Rightarrow> bool" where
  "sys_inv P Q y \<longleftrightarrow>
     P (sess y) \<and> (\<forall>p\<in>set (pending y). keeps P Q (Awaiting (fst p) (snd p))) \<and>
     (\<forall>req. Sent req \<in> set (trace y) \<longrightarrow> Q req)"

text \<open>The session updates the library performs, each as a closure condition on
  a predicate: caching a token (\<open>_getToken\<close>), storing the prefix and the
  session cookie (login round one), marking the session logged in with the
  user cookies (login round two), and the local logout.\<close>

definition session_updates_ok :: "(session \<Rightarrow> bool) \<Rightarrow> bool" where
  "session_updates_ok P \<longleftrightarrow>
     (\<forall>s t. P s \<longrightarrow> P (s\<lparr>tokens := t\<rparr>)) \<and>
     (\<forall>s pfx v. P s \<longrightarrow> P (s\<lparr>cookies := cookie_set ''_session'' v ((cookies s)\<lparr>prefix := pfx\<rparr>)\<rparr>)) \<and>
     (\<forall>s u i t. P s \<longrightarrow> P (s\<lparr>loggedIn := True, cookies := cookie_set ''Token'' t (cookie_set ''UserID'' i
                                   (cookie_set ''UserName'' u (cookies s)))\<rparr>)) \<and>
     (\<forall>s. P s \<longrightarrow> P (s\<lparr>loggedIn := False, cookies := cookie_delete ''_session'' (cookie_delete ''Token''
                         (cookie_delete ''UserID'' (cookie_delete ''UserName'' (cookies s))))\<rparr>))"

definition dispatch_ok :: "(session \<Rightarrow> bool) \<Rightarrow> (http_req \<Rightarrow> bool) \<Rightarrow> bool" where
  "dispatch_ok P Q \<longleftrightarrow> (\<forall>s m q b. P s \<longrightarrow> Q (build_req s m (AList.update ''format'' (Str ''json'') q) b))"

text \<open>The session invariant of the login state: a session marked logged in
  carries the user cookies \<open>UserName\<close>, \<open>UserID\<close> and \<open>Token\<close>.\<close>

definition logged_in_cookies :: "session \<Rightarrow> bool" where
  "logged_in_cookies s \<longleftrightarrow>
     (loggedIn s \<longrightarrow> {''UserName'', ''UserID'', ''Token''} \<subseteq> set (map fst (cookie_map (cookies s))))"

text \<open>The cookie jar only ever holds the session and user cookies, each once.\<close>

definition jar_ok :: "session \<Rightarrow> bool" where
  "jar_ok s \<longleftrightarrow>
     set (map fst (cookie_map (cookies s))) \<subseteq> {''_session'', ''UserName'', ''UserID'', ''Token''} \<and>
     distinct (map fst (cookie_map (cookies s)))"

text \<open>A request aimed at host \<open>h\<close>: the API path on port 80, JSON format.\<close>

definition req_targets :: "jsval \<Rightarrow> http_req \<Rightarrow> bool" where
  "req_targets h req \<longleftrightarrow>
     hostname req = h \<and> pathname req = ''/w/api.php'' \<and> port req = 80 \<and>
     map_of (req_query req) ''format'' = Some (Str ''json'')"

text \<open>The requests handed to the transport, in order.\<close>

definition sent_requests :: "event list \<Rightarrow> http_req list" where
  "sent_requests ev = concat (map (\<lambda>e. case e of Sent r \<Rightarrow> [r] | _ \<Rightarrow> []) ev)"

text \<open>The starting point of the scenarios, \<open>new MediaWikiApi('example.org')\<close>
  with nothing in flight, and a login answer carrying the payload \<open>lg\<close>.\<close>

abbreviation init_sys :: sys where
  "init_sys \<equiv> \<lparr>sess = example_session, pending = [], trace = []\<rparr>"

abbreviation login_answer :: "jsobj \<Rightarrow> tresult" where
  "login_answer lg \<equiv> \<lparr>tr_err = Undefined, tr_ahr = plain_ahr, tr_data = Obj [(''login'', Obj lg)]\<rparr>"

text \<open>An answer to the edit-token query carrying the token \<open>tok\<close>.\<close>

abbreviation edit_token_answer :: "string \<Rightarrow> tresult" where
  "edit_token_answer tok \<equiv> \<lparr>tr_err = Undefined, tr_ahr = plain_ahr, tr_data = token_answer ''edit'' ''1'' (Str tok)\<rparr>"

subsection \<open>The generic invariant argument\<close>

inductive_cases keeps_AwaitingE: "keeps P Q (Awaiting req k)"

lemma keeps_Awaiting_iff:
  "keeps P Q (Awaiting req k) \<longleftrightarrow> Q req \<and> (\<forall>r s. P s \<longrightarrow> P (fst (k r s)) \<and> keeps P Q (snd (k r s)))"
  by (auto elim: keeps_AwaitingE intro: keeps.awaiting)

lemma record_outcome_inv:
  assumes "P (fst r)" and "keeps P Q (snd r)" and "\<forall>p\<in>set (pending y). keeps P Q (Awaiting (fst p) (snd p))"
    and "\<forall>req. Sent req \<in> set (trace y) \<longrightarrow> Q req"
  shows "sys_inv P Q (record_outcome y r)"
  using assms by (auto simp: record_outcome_def sys_inv_def keeps_Awaiting_iff split: prod.splits outcome.splits)

lemma set_remove_at: "set (remove_at i xs) \<subseteq> set xs"
  by (auto simp: remove_at_def dest: in_set_takeD in_set_dropD)

lemma sys_step_inv:
  assumes "sys_step md5 y y'" and "sys_inv P Q y" and "\<forall>c. preserves P Q (run_call md5 c)"
  shows "sys_inv P Q y'"
  using assms
proof (induction rule: sys_step.induct)
  case (call y c)
  then show ?case
    by (intro record_outcome_inv) (auto simp: sys_inv_def preserves_def)
next
  case (deliver i y req k r)
  then have "(req, k) \<in> set (pending y)" by (metis nth_mem)
  with deliver have "keeps P Q (Awaiting req k)" and "P (sess y)"
    by (auto simp: sys_inv_def)
  then have "P (fst (k r (sess y))) \<and> keeps P Q (snd (k r (sess y)))"
    by (simp add: keeps_Awaiting_iff)
  with deliver.prems show ?case
    by (intro record_outcome_inv) (auto simp: sys_inv_def dest: subsetD [OF set_remove_at])
qed

lemma reachable_inv:
  assumes "reachable md5 y"
    and "\<And>h s. MediaWikiApi h = Inr s \<Longrightarrow> P s" and "\<forall>c. preserves P Q (run_call md5 c)"
  shows "sys_inv P Q y"
  using assms(1)
proof (induction rule: reachable.induct)
  case (init h s)
  then show ?case using assms(2) by (simp add: sys_inv_def)
next
  case (step y y')
  then show ?case using assms(3) by (blast intro: sys_step_inv)
qed

subsection \<open>Dispatch keeps any predicate its continuations keep\<close>

lemma call_cont_keeps:
  assumes "cont_ok P Q cb" and "P s"
  shows "P (fst (call_cont cb a s)) \<and> keeps P Q (snd (call_cont cb a s))"
proof (cases cb)
  case (User f)
  with assms(2) show ?thesis by (auto intro: keeps.intros)
next
  case (Closure c)
  with assms(1) have "preserves P Q (c a)" unfolding cont_ok_def by simp (metis prod.collapse)
  with assms(2) Closure show ?thesis by (simp add: preserves_def)
qed

lemma response_handler_keeps:
  "cont_ok P Q cb \<Longrightarrow> P s \<Longrightarrow> P (fst (response_handler cb r s)) \<and> keeps P Q (snd (response_handler cb r s))"
  unfolding response_handler_def
  by (auto simp: call_cont_keeps intro: keeps.intros split: sum.splits)

text \<open>A request keeps \<open>P\<close> and \<open>Q\<close> when its callback does and every request
  built from a \<open>P\<close>-session satisfies \<open>Q\<close>.\<close>

lemma request_preserves:
  "cont_ok P Q cb \<Longrightarrow> (\<And>s. P s \<Longrightarrow> Q (build_req s m (AList.update ''format'' (Str ''json'') q) b)) \<Longrightarrow>
   preserves P Q (request q cb m b)"
  by (auto simp: preserves_def request_def keeps_Awaiting_iff response_handler_keeps intro: keeps.intros)

lemma cont_ok_User [simp]: "cont_ok P Q (User f)"
  by (simp add: cont_ok_def)

lemma dispatch_preserves:
  "cont_ok P Q cb \<Longrightarrow> dispatch_ok P Q \<Longrightarrow> preserves P Q (request q cb m b)"
  by (rule request_preserves) (auto simp: dispatch_ok_def)

lemma query_preserves: "cont_ok P Q cb \<Longrightarrow> dispatch_ok P Q \<Longrightarrow> preserves P Q (query q cb)"
  by (simp add: query_def get_def dispatch_preserves)

lemma post_preserves: "cont_ok P Q cb \<Longrightarrow> dispatch_ok P Q \<Longrightarrow> preserves P Q (post q b cb)"
  by (simp add: post_def dispatch_preserves)

lemma get_preserves: "cont_ok P Q cb \<Longrightarrow> dispatch_ok P Q \<Longrightarrow> preserves P Q (get q cb)"
  by (simp add: get_def dispatch_preserves)

lemma cont_ok_Closure: "(\<And>a. preserves P Q (c a)) \<Longrightarrow> cont_ok P Q (Closure c)"
  by (simp add: cont_ok_def)

subsection \<open>Every operation keeps every predicate closed under the session updates\<close>

lemma getToken_preserves:
  assumes "cont_ok P Q cb" and "dispatch_ok P Q" and "session_updates_ok P"
  shows "preserves P Q (getToken ty cb)"
proof -
  have tok: "preserves P Q (token_received ty cb a)" for a
    using assms(1,3)
    by (auto simp: preserves_def token_received_def session_updates_ok_def call_cont_keeps
             intro: keeps.intros split: prod.splits sum.splits)
  have "preserves P Q (query [(''prop'', Str ''info''), (''intoken'', Str ty), (''titles'', Str ''Main Page'')]
                         (Closure (token_received ty cb)))"
    using assms(2) by (intro query_preserves cont_ok_Closure tok)
  then show ?thesis
    using assms(1) by (auto simp: preserves_def getToken_def call_cont_keeps)
qed

lemma edit_preserves:
  assumes "cont_ok P Q cb" and "dispatch_ok P Q" and "session_updates_ok P"
  shows "preserves P Q (edit md5 t b cb)"
proof -
  have "preserves P Q (getToken ''edit'' (Closure (edit_with_token b' cb)))" for b'
    using assms
    by (intro getToken_preserves cont_ok_Closure)
       (auto simp: edit_with_token_def post_preserves split: prod.splits)
  then show ?thesis
    by (auto simp: preserves_def edit_def intro: keeps.intros split: sum.splits)
qed

lemma login_preserves:
  assumes "cont_ok P Q cb" and "dispatch_ok P Q" and "session_updates_ok P"
  shows "preserves P Q (login u p cb)"
proof -
  have r2: "preserves P Q (login_round2 cb a)" for a
    using assms(1,3)
    by (auto simp: preserves_def login_round2_def session_updates_ok_def call_cont_keeps intro: keeps.intros
             split: prod.splits sum.splits)
  have r1: "preserves P Q (login_round1 u p cb a)" for a
  proof -
    have post2: "preserves P Q (post q (Obj []) (Closure (login_round2 cb)))" for q
      using assms(2) by (intro post_preserves cont_ok_Closure r2)
    show ?thesis
      using assms(1,3) post2
      by (auto simp: preserves_def login_round1_def session_updates_ok_def Let_def call_cont_keeps
               intro: keeps.intros split: prod.splits sum.splits)
  qed
  show ?thesis
    unfolding login_def using assms(2) by (intro post_preserves cont_ok_Closure r1)
qed

lemma logout_preserves:
  assumes "cont_ok P Q cb" and "dispatch_ok P Q" and "session_updates_ok P"
  shows "preserves P Q (logout cb)"
proof -
  have "preserves P Q (get [(''action'', Str ''logout'')] cb)"
    using assms(1,2) by (simp add: get_preserves)
  with assms(3) show ?thesis
    by (auto simp: preserves_def logout_def session_updates_ok_def)
qed

lemma categorymembers_preserves:
  "cont_ok P Q cb \<Longrightarrow> dispatch_ok P Q \<Longrightarrow> preserves P Q (categorymembers c q cb)"
  by (simp add: categorymembers_def query_preserves)

lemma getArticleContents_preserves:
  "cont_ok P Q cb \<Longrightarrow> dispatch_ok P Q \<Longrightarrow> preserves P Q (getArticleContents a cb)"
  unfolding getArticleContents_def
  by (intro query_preserves cont_ok_Closure)
     (auto simp: preserves_def contents_received_def call_cont_keeps intro: keeps.intros
           split: prod.splits sum.splits)

lemma run_call_preserves:
  "dispatch_ok P Q \<Longrightarrow> session_updates_ok P \<Longrightarrow> preserves P Q (run_call md5 c)"
  by (cases c)
     (simp_all add: categorymembers_preserves login_preserves edit_preserves getArticleContents_preserves
                    logout_preserves)

lemma reachable_sys_inv:
  "reachable md5 y \<Longrightarrow> (\<And>h s. MediaWikiApi h = Inr s \<Longrightarrow> P s) \<Longrightarrow> dispatch_ok P Q \<Longrightarrow>
   session_updates_ok P \<Longrightarrow> sys_inv P Q y"
  by (rule reachable_inv) (auto intro: run_call_preserves)

subsection \<open>The session invariants\<close>

lemma logged_in_cookies_updates: "session_updates_ok logged_in_cookies"
  by (auto simp: session_updates_ok_def logged_in_cookies_def cookie_set_def cookie_delete_def)

lemma dispatch_ok_True: "dispatch_ok P (\<lambda>_. True)"
  by (simp add: dispatch_ok_def)

lemma MediaWikiApi_Inr: "MediaWikiApi h = Inr s \<Longrightarrow>
   s = \<lparr>site = h, api = ''/w/api.php'', isBot = Bool True, loggedIn = False,
        cookies = \<lparr>prefix = Str '''', cookie_map = []\<rparr>, tokens = []\<rparr>"
  by (auto simp: MediaWikiApi_def split: if_splits)

text \<open>C27: in every state reachable by any interleaving of calls and responses,
  a session marked logged in carries the \<open>UserName\<close>, \<open>UserID\<close> and
  \<open>Token\<close> cookies.\<close>

theorem reachable_logged_in_cookies:
  assumes "reachable md5 y"
  shows "logged_in_cookies (sess y)"
proof -
  have "sys_inv logged_in_cookies (\<lambda>_. True) y"
    using assms
    by (rule reachable_sys_inv)
       (auto simp: logged_in_cookies_updates dispatch_ok_True logged_in_cookies_def dest: MediaWikiApi_Inr)
  then show ?thesis by (simp add: sys_inv_def)
qed

lemma jar_ok_updates: "session_updates_ok jar_ok"
  by (auto simp: session_updates_ok_def jar_ok_def cookie_set_def cookie_delete_def distinct_update
                 distinct_delete)

text \<open>C28: in every reachable state the cookie jar holds only the
  \<open>_session\<close>, \<open>UserName\<close>, \<open>UserID\<close> and \<open>Token\<close> cookies, each at most
  once, so the \<open>Cookie\<close> header names each at most once.\<close>

theorem reachable_jar_ok:
  assumes "reachable md5 y"
  shows "jar_ok (sess y)"
proof -
  have "sys_inv jar_ok (\<lambda>_. True) y"
    using assms
    by (rule reachable_sys_inv)
       (auto simp: jar_ok_updates dispatch_ok_True jar_ok_def dest: MediaWikiApi_Inr)
  then show ?thesis by (simp add: sys_inv_def)
qed


lemma site_updates_ok: "session_updates_ok (\<lambda>s. site s = h \<and> api s = a)"
  by (simp add: session_updates_ok_def)

lemma site_dispatch_ok:
  "dispatch_ok (\<lambda>s. site s = h \<and> api s = ''/w/api.php'') (req_targets h)"
  by (simp add: dispatch_ok_def req_targets_def)

lemma reachable_site:
  assumes "reachable md5 y"
  shows "sys_inv (\<lambda>s. site s = site (sess y) \<and> api s = ''/w/api.php'') (req_targets (site (sess y))) y"
  using assms
proof (induction rule: reachable.induct)
  case (init h s)
  then show ?case by (auto simp: sys_inv_def dest: MediaWikiApi_Inr)
next
  case (step y y')
  then have "sys_inv (\<lambda>s. site s = site (sess y) \<and> api s = ''/w/api.php'') (req_targets (site (sess y))) y'"
    by (blast intro: sys_step_inv run_call_preserves site_updates_ok site_dispatch_ok)
  then show ?case by (simp add: sys_inv_def)
qed

text \<open>C29: every request any reachable state has handed to the transport is
  aimed at the session's own host, on port 80, at \<open>/w/api.php\<close>, with
  \<open>format=json\<close>: no operation, continuation or interleaving redirects one.\<close>

theorem reachable_requests_target_site:
  assumes "reachable md5 y" and "Sent req \<in> set (trace y)"
  shows "req_targets (site (sess y)) req"
  using reachable_site [OF assms(1)] assms(2) by (simp add: sys_inv_def)

subsection \<open>Reachable scenarios\<close>

lemma reachable_init_example: "reachable md5 init_sys"
  by (rule reachable.init [of "Str ''example.org''"]) (simp add: MediaWikiApi_def)

lemma sent_requests_append [simp]: "sent_requests (xs @ ys) = sent_requests xs @ sent_requests ys"
  by (simp add: sent_requests_def)

lemma sent_requests_simps [simp]:
  "sent_requests [] = []" "sent_requests (Sent r # ev) = r # sent_requests ev"
  "sent_requests (Called f a # ev) = sent_requests ev" "sent_requests (Raised x # ev) = sent_requests ev"
  by (simp_all add: sent_requests_def)

lemma sys_step_first:
  "pending y = (req, k) # ps \<Longrightarrow> sys_step md5 y (record_outcome (y\<lparr>pending := ps\<rparr>) (k r (sess y)))"
  using sys_step.deliver [of 0 y req k md5 r] by (simp add: remove_at_def)

text \<open>The login handshake run to completion from \<open>new MediaWikiApi('example.org')\<close>:
  the call, then round one's and round two's answers delivered.\<close>

lemma login_handshake_run:
  "\<exists>y1 y2 y3. sys_step md5 init_sys y1 \<and> sys_step md5 y1 y2 \<and> sys_step md5 y2 y3 \<and>
     loggedIn (sess y3) \<and> prefix (cookies (sess y3)) = Str ''x'' \<and>
     cookie_map (cookies (sess y3)) =
       [(''_session'', Str ''s1''), (''UserName'', Str ''u''), (''UserID'', Str ''1''), (''Token'', Str ''final'')] \<and>
     pending y3 = [] \<and>
     map req_query (sent_requests (trace y3)) =
       [[(''action'', Str ''login''), (''lgname'', Str ''u''), (''lgpassword'', Str ''p''), (''format'', Str ''json'')],
        [(''action'', Str ''login''), (''lgname'', Str ''u''), (''lgpassword'', Str ''p''), (''lgtoken'', Str ''t1''),
         (''format'', Str ''json'')]] \<and>
     last (trace y3) = Called (Fn 0) (Undefined, Obj [(''login'', Obj round2_login)], Undefined)"
proof -
  define y1 where "y1 = record_outcome init_sys (run_call md5 (Login (Str ''u'') (Str ''p'') (Fn 0)) (sess init_sys))"
  have s1: "sys_step md5 init_sys y1"
    unfolding y1_def by (rule sys_step.call)
  obtain req1 where p1: "pending y1 = [(req1, response_handler (Closure (login_round1 (Str ''u'') (Str ''p'') (User (Fn 0)))))]"
    by (simp add: y1_def record_outcome_def login_def post_def request_def)
  define y2 where "y2 = record_outcome (y1\<lparr>pending := []\<rparr>)
     (response_handler (Closure (login_round1 (Str ''u'') (Str ''p'') (User (Fn 0)))) (login_answer round1_login) (sess y1))"
  have s2: "sys_step md5 y1 y2"
    unfolding y2_def by (rule sys_step_first [OF p1])
  obtain req2 where p2: "pending y2 = [(req2, response_handler (Closure (login_round2 (User (Fn 0)))))]"
    by (simp add: y2_def record_outcome_def response_handler_plain login_round1_def post_def request_def js_eval)
  define y3 where "y3 = record_outcome (y2\<lparr>pending := []\<rparr>)
     (response_handler (Closure (login_round2 (User (Fn 0)))) (login_answer round2_login) (sess y2))"
  have s3: "sys_step md5 y2 y3"
    unfolding y3_def by (rule sys_step_first [OF p2])
  have "loggedIn (sess y3) \<and> prefix (cookies (sess y3)) = Str ''x'' \<and>
     cookie_map (cookies (sess y3)) =
       [(''_session'', Str ''s1''), (''UserName'', Str ''u''), (''UserID'', Str ''1''), (''Token'', Str ''final'')] \<and>
     pending y3 = [] \<and>
     map req_query (sent_requests (trace y3)) =
       [[(''action'', Str ''login''), (''lgname'', Str ''u''), (''lgpassword'', Str ''p''), (''format'', Str ''json'')],
        [(''action'', Str ''login''), (''lgname'', Str ''u''), (''lgpassword'', Str ''p''), (''lgtoken'', Str ''t1''),
         (''format'', Str ''json'')]] \<and>
     last (trace y3) = Called (Fn 0) (Undefined, Obj [(''login'', Obj round2_login)], Undefined)"
    by (simp add: y3_def y2_def y1_def record_outcome_def response_handler_plain login_round1_def login_round2_def
                  login_def post_def request_def cookie_set_def js_eval)
  with s1 s2 s3 show ?thesis
    by (intro exI [of _ y1] exI [of _ y2] exI [of _ y3]) (simp only: simp_thms)
qed

lemma login_scenario_reachable:
  "\<exists>y. reachable md5 y \<and> loggedIn (sess y) \<and> prefix (cookies (sess y)) = Str ''x'' \<and>
       cookie_map (cookies (sess y)) =
         [(''_session'', Str ''s1''), (''UserName'', Str ''u''), (''UserID'', Str ''1''), (''Token'', Str ''final'')]"
  using login_handshake_run [of md5] by (blast intro: reachable.step reachable_init_example)

lemma sys_step_deliver_at:
  "i < length (pending y) \<Longrightarrow>
   sys_step md5 y (record_outcome (y\<lparr>pending := remove_at i (pending y)\<rparr>) (snd (pending y ! i) r (sess y)))"
  by (rule sys_step.deliver [where req = "fst (pending y ! i)"]) auto

subsection \<open>The login scenario of the specification\<close>

text \<open>C34: the end-to-end login of the specification: from
  \<open>new MediaWikiApi('example.org')\<close>, \<open>login('u', 'p', cb)\<close> with round one
  answering \<open>{cookieprefix: 'x', sessionid: 's1', token: 't1'}\<close> and round two
  \<open>{lgusername: 'u', lguserid: '1', lgtoken: 'final'}\<close> takes three steps and
  ends logged in, with nothing pending, the two rounds sent in order, the
  callback called last, and the jar holding \<open>_session=s1\<close>, \<open>UserName=u\<close>,
  \<open>UserID=1\<close>, \<open>Token=final\<close> under prefix \<open>x\<close>.  The \<open>Cookie\<close> header
  rendered from it prefixes \<open>_session\<close> as well: the session cookie is not
  independent of the prefix.\<close>

theorem login_end_to_end:
  "\<exists>y1 y2 y3. sys_step md5 init_sys y1 \<and> sys_step md5 y1 y2 \<and> sys_step md5 y2 y3 \<and>
     loggedIn (sess y3) \<and> pending y3 = [] \<and>
     map req_query (sent_requests (trace y3)) =
       [[(''action'', Str ''login''), (''lgname'', Str ''u''), (''lgpassword'', Str ''p''), (''format'', Str ''json'')],
        [(''action'', Str ''login''), (''lgname'', Str ''u''), (''lgpassword'', Str ''p''), (''lgtoken'', Str ''t1''),
         (''format'', Str ''json'')]] \<and>
     last (trace y3) = Called (Fn 0) (Undefined, Obj [(''login'', Obj round2_login)], Undefined) \<and>
     map_of (cookie_map (cookies (sess y3))) =
       [''_session'' \<mapsto> Str ''s1'', ''UserName'' \<mapsto> Str ''u'', ''UserID'' \<mapsto> Str ''1'', ''Token'' \<mapsto> Str ''final''] \<and>
     parse (cookies (sess y3)) = ''x_session=s1; xUserName=u; xUserID=1; xToken=final''"
proof -
  obtain y1 y2 y3 where run: "sys_step md5 init_sys y1" "sys_step md5 y1 y2" "sys_step md5 y2 y3"
    "loggedIn (sess y3)" "prefix (cookies (sess y3)) = Str ''x''"
    "cookie_map (cookies (sess y3)) =
       [(''_session'', Str ''s1''), (''UserName'', Str ''u''), (''UserID'', Str ''1''), (''Token'', Str ''final'')]"
    "pending y3 = []"
    "map req_query (sent_requests (trace y3)) =
       [[(''action'', Str ''login''), (''lgname'', Str ''u''), (''lgpassword'', Str ''p''), (''format'', Str ''json'')],
        [(''action'', Str ''login''), (''lgname'', Str ''u''), (''lgpassword'', Str ''p''), (''lgtoken'', Str ''t1''),
         (''format'', Str ''json'')]]"
    "last (trace y3) = Called (Fn 0) (Undefined, Obj [(''login'', Obj round2_login)], Undefined)"
    using login_handshake_run [of md5] by (elim exE conjE) (rule that, assumption+)
  have "map_of (cookie_map (cookies (sess y3))) =
       [''_session'' \<mapsto> Str ''s1'', ''UserName'' \<mapsto> Str ''u'', ''UserID'' \<mapsto> Str ''1'', ''Token'' \<mapsto> Str ''final'']"
    using run(6) by (simp add: fun_eq_iff)
  moreover have "parse (cookies (sess y3)) = ''x_session=s1; xUserName=u; xUserID=1; xToken=final''"
    using run(5,6) by (simp add: parse_def js_eval)
  ultimately show ?thesis
    using run by (intro exI [of _ y1] exI [of _ y2] exI [of _ y3]) (simp only: simp_thms)
qed

subsection \<open>Two token queries in flight\<close>

text \<open>C25: the token cache does not keep a token once it is set: with two edits
  started before the edit token is cached, both send the token query, and the
  later answer overwrites the token the earlier one cached (\<open>T1\<close> becomes
  \<open>T2\<close>), contrary to the specification's \<open>get(type)\<close> after
  \<open>set(type, T)\<close> returning \<open>T\<close> for every later call.\<close>

theorem token_cache_overwritten:
  "\<exists>y y'. reachable md5 y \<and> sys_step md5 y y' \<and>
     obj_get (tokens (sess y)) ''edit'' = Str ''T1'' \<and> obj_get (tokens (sess y')) ''edit'' = Str ''T2'' \<and>
     length (filter (\<lambda>r. req_query r = [(''prop'', Str ''info''), (''intoken'', Str ''edit''), (''titles'', Str ''Main Page''),
                                        (''action'', Str ''query''), (''format'', Str ''json'')])
                    (sent_requests (trace y'))) = 2"
proof -
  define y1 where "y1 = record_outcome init_sys (run_call md5 (Edit (Str ''A'') [(''text'', Str ''x'')] (Fn 1)) (sess init_sys))"
  define y2 where "y2 = record_outcome y1 (run_call md5 (Edit (Str ''B'') [(''text'', Str ''y'')] (Fn 2)) (sess y1))"
  define y3 where "y3 = record_outcome (y2\<lparr>pending := remove_at 0 (pending y2)\<rparr>)
                          (snd (pending y2 ! 0) (edit_token_answer ''T1'') (sess y2))"
  define y4 where "y4 = record_outcome (y3\<lparr>pending := remove_at 0 (pending y3)\<rparr>)
                          (snd (pending y3 ! 0) (edit_token_answer ''T2'') (sess y3))"
  have r2: "reachable md5 y2"
    unfolding y2_def y1_def by (blast intro: reachable.step reachable_init_example sys_step.call)
  have l2: "0 < length (pending y2)" unfolding y2_def y1_def by code_simp
  have r3: "reachable md5 y3" unfolding y3_def using r2 sys_step_deliver_at [OF l2] by (rule reachable.step)
  have l3: "0 < length (pending y3)" unfolding y3_def y2_def y1_def by code_simp
  have s4: "sys_step md5 y3 y4" unfolding y4_def using l3 by (rule sys_step_deliver_at)
  have t3: "obj_get (tokens (sess y3)) ''edit'' = Str ''T1''" unfolding y3_def y2_def y1_def by code_simp
  have t4: "obj_get (tokens (sess y4)) ''edit'' = Str ''T2''" unfolding y4_def y3_def y2_def y1_def by code_simp
  have q: "length (filter (\<lambda>r. req_query r = [(''prop'', Str ''info''), (''intoken'', Str ''edit''), (''titles'', Str ''Main Page''),
                                        (''action'', Str ''query''), (''format'', Str ''json'')])
                    (sent_requests (trace y4))) = 2"
    unfolding y4_def y3_def y2_def y1_def by code_simp
  show ?thesis by (intro exI [of _ y3] exI [of _ y4] conjI r3 s4 t3 t4 q)
qed


subsection \<open>Witnesses\<close>

theorem reachable_logged_in_cookies_witness:
  "\<exists>y. reachable fixed_md5 y \<and> loggedIn (sess y) \<and> logged_in_cookies (sess y)"
  using login_scenario_reachable reachable_logged_in_cookies by blast

theorem reachable_jar_ok_witness:
  "\<exists>y. reachable fixed_md5 y \<and> cookie_map (cookies (sess y)) \<noteq> [] \<and> jar_ok (sess y)"
  using login_scenario_reachable reachable_jar_ok by fastforce

theorem reachable_requests_target_site_witness:
  "reachable fixed_md5 (record_outcome init_sys (run_call fixed_md5 (Logout (Fn 0)) (sess init_sys))) \<and>
   (\<exists>req. Sent req \<in> set (trace (record_outcome init_sys (run_call fixed_md5 (Logout (Fn 0)) (sess init_sys)))) \<and>
      req_targets (site (sess (record_outcome init_sys (run_call fixed_md5 (Logout (Fn 0)) (sess init_sys))))) req)"
proof -
  let ?y = "record_outcome init_sys (run_call fixed_md5 (Logout (Fn 0)) (sess init_sys))"
  have r: "reachable fixed_md5 ?y"
    by (rule reachable.step [OF reachable_init_example sys_step.call])
  have "\<exists>req. Sent req \<in> set (trace ?y)"
    by (simp add: record_outcome_def logout_def get_def request_def)
  then obtain req where "Sent req \<in> set (trace ?y)" by blast
  with r show ?thesis using reachable_requests_target_site [OF r] by blast
qed

end
