(* ===== verification/Liveness.thy ===== *)
theory Liveness
  imports System
begin

text \<open>
  Progress and callback discipline of the operations of
  \<open>src/lib/index.js\<close>.  \<open>ends f n out\<close> says that an outcome ends after at
  most \<open>n\<close> more answers, whatever the transport answers, either by calling
  the caller function \<open>f\<close> or by an exception, and calls no other caller
  function on the way; \<open>settles n out\<close> forgets which function is called.
  Every public operation ends in its own callback within two answers (the
  token fetch before an edit, the two login rounds); from every reachable
  state, delivering the pending requests in order empties the queue after at
  most twice as many deliveries as there are pending requests.
\<close>

inductive ends :: "jsval \<Rightarrow> nat \<Rightarrow> outcome \<Rightarrow> bool" for f where
  invoked: "ends f n (Invoked f a)"
| thrown: "ends f n (Thrown e)"
| awaiting: "(\<And>r s. ends f n (snd (k r s))) \<Longrightarrow> ends f (Suc n) (Awaiting req k)"

inductive settles :: "nat \<Rightarrow> outcome \<Rightarrow> bool" where
  invoked: "settles n (Invoked f a)"
| thrown: "settles n (Thrown e)"
| awaiting: "(\<And>r s. settles n (snd (k r s))) \<Longrightarrow> settles (Suc n) (Awaiting req k)"

text \<open>A callback ends in \<open>f\<close> within \<open>n\<close> when it is \<open>f\<close> itself or a closure
  whose every run does.\<close>

definition cont_ends :: "jsval \<Rightarrow> nat \<Rightarrow> cont \<Rightarrow> bool" where
  "cont_ends f n cb \<longleftrightarrow> (case cb of User g \<Rightarrow> g = f | Closure c \<Rightarrow> \<forall>a s. ends f n (snd (c a s)))"

text \<open>The callback the caller hands to a public operation.\<close>

fun api_callback :: "api_call \<Rightarrow> jsval" where
  "api_callback (Categorymembers c q cb) = cb"
| "api_callback (Login u p cb) = cb"
| "api_callback (Edit t b cb) = cb"
| "api_callback (GetArticleContents a cb) = cb"
| "api_callback (Logout cb) = cb"

text \<open>The transport answering the oldest pending request with \<open>resp\<close>, a
  server's answer to each request.\<close>

inductive deliver_step :: "(http_req \<Rightarrow> tresult) \<Rightarrow> sys \<Rightarrow> sys \<Rightarrow> bool" for resp where
  "pending y = (req, k) # ps \<Longrightarrow>
   deliver_step resp y (record_outcome (y\<lparr>pending := ps\<rparr>) (k (resp req) (sess y)))"

subsection \<open>Ending of outcomes\<close>

inductive_cases settles_AwaitingE: "settles n (Awaiting req k)"

lemma settles_Awaiting_iff:
  "settles n (Awaiting req k) \<longleftrightarrow> (\<exists>m. n = Suc m \<and> (\<forall>r s. settles m (snd (k r s))))"
  by (auto elim: settles_AwaitingE intro: settles.awaiting)

lemma settles_mono: "settles n out \<Longrightarrow> n \<le> m \<Longrightarrow> settles m out"
proof (induction arbitrary: m rule: settles.induct)
  case (awaiting n k req)
  then obtain m' where "m = Suc m'" and "n \<le> m'" by (cases m) auto
  with awaiting show ?case by (auto intro: settles.intros)
qed (auto intro: settles.intros)

lemma ends_settles: "ends f n out \<Longrightarrow> settles n out"
  by (induction rule: ends.induct) (auto intro: settles.intros)

lemma ends_mono: "ends f n out \<Longrightarrow> n \<le> m \<Longrightarrow> ends f m out"
proof (induction arbitrary: m rule: ends.induct)
  case (awaiting n k req)
  then obtain m' where "m = Suc m'" and "n \<le> m'" by (cases m) auto
  with awaiting show ?case by (auto intro: ends.intros)
qed (auto intro: ends.intros)

lemma cont_ends_User [simp]: "cont_ends f n (User g) \<longleftrightarrow> g = f"
  by (simp add: cont_ends_def)

lemma cont_ends_Closure: "(\<And>a s. ends f n (snd (c a s))) \<Longrightarrow> cont_ends f n (Closure c)"
  by (simp add: cont_ends_def)

lemma call_cont_ends: "cont_ends f n cb \<Longrightarrow> ends f n (snd (call_cont cb a s))"
  by (cases cb) (auto simp: cont_ends_def simp del: split_paired_All intro: ends.intros)

lemma response_handler_ends: "cont_ends f n cb \<Longrightarrow> ends f n (snd (response_handler cb r s))"
  unfolding response_handler_def
  by (auto simp: call_cont_ends intro: ends.intros split: sum.splits)

lemma request_ends: "cont_ends f n cb \<Longrightarrow> ends f (Suc n) (snd (request q cb m b s))"
  by (auto simp: request_def response_handler_ends intro: ends.intros)

lemma query_ends: "cont_ends f n cb \<Longrightarrow> ends f (Suc n) (snd (query q cb s))"
  by (simp add: query_def get_def request_ends)

lemma post_ends: "cont_ends f n cb \<Longrightarrow> ends f (Suc n) (snd (post q b cb s))"
  by (simp add: post_def request_ends)

lemma get_ends: "cont_ends f n cb \<Longrightarrow> ends f (Suc n) (snd (get q cb s))"
  by (simp add: get_def request_ends)

subsection \<open>Every operation ends in its own callback within two answers\<close>

lemma getToken_ends:
  assumes "cont_ends f n cb"
  shows "ends f (Suc n) (snd (getToken t cb s))"
proof -
  have "cont_ends f n (Closure (token_received t cb))"
    using assms
    by (intro cont_ends_Closure)
       (auto simp: token_received_def call_cont_ends intro: ends.intros split: prod.splits sum.splits)
  then show ?thesis
    using assms by (auto simp: getToken_def query_ends intro: ends_mono [OF call_cont_ends])
qed

lemma edit_ends: "cont_ends f n cb \<Longrightarrow> ends f (Suc (Suc n)) (snd (edit md5 t b cb s))"
  unfolding edit_def
  by (auto simp: edit_with_token_def post_ends intro!: getToken_ends cont_ends_Closure
           intro: ends.intros split: sum.splits prod.splits)

lemma login_ends:
  assumes "cont_ends f n cb"
  shows "ends f (Suc (Suc n)) (snd (login u p cb s))"
proof -
  have r2: "cont_ends f n (Closure (login_round2 cb))"
    using assms
    by (intro cont_ends_Closure)
       (auto simp: login_round2_def call_cont_ends intro: ends.intros split: prod.splits sum.splits)
  have "cont_ends f (Suc n) (Closure (login_round1 u p cb))"
    using assms r2 ends_mono [OF call_cont_ends [OF assms]]
    by (intro cont_ends_Closure)
       (auto simp: login_round1_def Let_def post_ends intro: ends.intros split: prod.splits sum.splits)
  then show ?thesis by (simp add: login_def post_ends)
qed

lemma logout_ends: "cont_ends f n cb \<Longrightarrow> ends f (Suc n) (snd (logout cb s))"
  by (simp add: logout_def get_ends)

lemma categorymembers_ends: "cont_ends f n cb \<Longrightarrow> ends f (Suc n) (snd (categorymembers c q cb s))"
  by (simp add: categorymembers_def query_ends)

lemma getArticleContents_ends: "cont_ends f n cb \<Longrightarrow> ends f (Suc n) (snd (getArticleContents a cb s))"
  unfolding getArticleContents_def
  by (intro query_ends cont_ends_Closure)
     (auto simp: contents_received_def call_cont_ends intro: ends.intros split: prod.splits sum.splits)

lemma run_call_ends_own: "ends (api_callback c) 2 (snd (run_call md5 c s))"
proof (cases c)
  case (Categorymembers x q cb)
  then show ?thesis by (auto intro: ends_mono [OF categorymembers_ends [of cb 0 "User cb"]])
next
  case (GetArticleContents a cb)
  then show ?thesis by (auto intro: ends_mono [OF getArticleContents_ends [of cb 0 "User cb"]])
next
  case (Logout cb)
  then show ?thesis by (auto intro: ends_mono [OF logout_ends [of cb 0 "User cb"]])
qed (simp_all add: numeral_2_eq_2 edit_ends login_ends)

lemma run_call_settles: "settles 2 (snd (run_call md5 c s))"
  by (rule ends_settles [OF run_call_ends_own])

text \<open>C36: each public operation, on any session and whatever the transport
  answers, ends by calling its own callback or by an exception, and calls no
  other caller function on the way: within two answers for \<open>login\<close> and
  \<open>edit\<close>, within one for \<open>logout\<close>, \<open>getArticleContents\<close> and
  \<open>categorymembers\<close>.  As an outcome calls at most one function, the
  callback is called at most once.\<close>

theorem operations_end_in_own_callback:
  "ends f 2 (snd (login u p (User f) s)) \<and> ends f 2 (snd (edit md5 t b (User f) s)) \<and>
   ends f 1 (snd (logout (User f) s)) \<and> ends f 1 (snd (getArticleContents a (User f) s)) \<and>
   ends f 1 (snd (categorymembers c q (User f) s))"
  using login_ends [of f 0 "User f"] edit_ends [of f 0 "User f"] logout_ends [of f 0 "User f"]
        getArticleContents_ends [of f 0 "User f"] categorymembers_ends [of f 0 "User f"]
  by (simp add: numeral_2_eq_2)

subsection \<open>Draining the pending requests\<close>

lemma record_outcome_pending:
  "pending (record_outcome y (s, out)) =
     pending y @ (case out of Awaiting req k \<Rightarrow> [(req, k)] | _ \<Rightarrow> [])"
  by (simp add: record_outcome_def split: outcome.splits)

lemma record_outcome_sess [simp]: "sess (record_outcome y (s, out)) = s"
  by (simp add: record_outcome_def split: outcome.splits)

lemma reachable_pending_settle:
  "reachable md5 y \<Longrightarrow> p \<in> set (pending y) \<Longrightarrow> settles 2 (Awaiting (fst p) (snd p))"
proof (induction arbitrary: p rule: reachable.induct)
  case (init h s)
  then show ?case by simp
next
  case (step y y')
  from step.hyps(2) step.IH step.prems show ?case
  proof (induction rule: sys_step.induct)
    case (call y c)
    then show ?case
      using run_call_settles [of md5 c "sess y"]
      by (auto simp: record_outcome_def split: prod.splits outcome.splits)
  next
    case (deliver i y req k r)
    then have "settles 2 (Awaiting req k)" by (metis nth_mem fst_conv snd_conv)
    then have "settles 2 (snd (k r (sess y)))"
      by (auto simp: settles_Awaiting_iff numeral_2_eq_2 intro: settles_mono)
    with deliver show ?case
      by (auto simp: record_outcome_def split: prod.splits outcome.splits dest: subsetD [OF set_remove_at])
  qed
qed

lemma deliver_step_sys_step: "deliver_step resp y y' \<Longrightarrow> sys_step md5 y y'"
proof (induction rule: deliver_step.induct)
  case (1 y req k ps)
  then show ?case
    using sys_step.deliver [of 0 y req k md5 "resp req"] by (simp add: remove_at_def)
qed

lemma deliver_steps_reachable:
  assumes "(deliver_step resp ^^ m) y y'" and "reachable md5 y"
  shows "reachable md5 y'"
proof -
  have "(deliver_step resp)\<^sup>*\<^sup>* y y'" using assms(1) by (rule relpowp_imp_rtranclp)
  then show ?thesis using assms(2) by induction (auto intro: reachable.step deliver_step_sys_step)
qed

lemma drain:
  "list_all2 (\<lambda>d p. settles d (Awaiting (fst p) (snd p))) ds (pending y) \<Longrightarrow>
   \<exists>m y'. (deliver_step resp ^^ m) y y' \<and> m \<le> sum_list ds \<and> pending y' = []"
proof (induction "sum_list ds" arbitrary: ds y rule: less_induct)
  case less
  show ?case
  proof (cases "pending y")
    case Nil
    then show ?thesis by (intro exI [of _ 0]) auto
  next
    case (Cons p ps)
    obtain req k where p: "p = (req, k)" by (cases p)
    from less.prems Cons p obtain d ds' where ds: "ds = d # ds'" and hd: "settles d (Awaiting req k)"
      and tl: "list_all2 (\<lambda>d p. settles d (Awaiting (fst p) (snd p))) ds' ps"
      by (auto simp: list_all2_Cons2)
    from hd obtain d' where d: "d = Suc d'" and k: "\<And>r s. settles d' (snd (k r s))"
      by (auto simp: settles_Awaiting_iff)
    obtain s1 out where r: "k (resp req) (sess y) = (s1, out)" by (cases "k (resp req) (sess y)")
    define y1 where "y1 = record_outcome (y\<lparr>pending := ps\<rparr>) (s1, out)"
    have step: "deliver_step resp y y1"
      unfolding y1_def using deliver_step.intros [of y req k ps resp] Cons p r by simp
    have "\<exists>ds1. list_all2 (\<lambda>d p. settles d (Awaiting (fst p) (snd p))) ds1 (pending y1) \<and>
                sum_list ds1 < sum_list ds"
    proof (cases out)
      case (Awaiting req' k')
      have "settles d' (Awaiting req' k')" using k [of "resp req" "sess y"] r Awaiting by simp
      with tl have "list_all2 (\<lambda>d p. settles d (Awaiting (fst p) (snd p))) (ds' @ [d']) (pending y1)"
        by (simp add: y1_def record_outcome_pending Awaiting list_all2_appendI)
      then show ?thesis using ds d by (intro exI [of _ "ds' @ [d']"]) simp
    qed (use tl ds d in \<open>auto simp: y1_def record_outcome_pending\<close>)
    then obtain ds1 where all1: "list_all2 (\<lambda>d p. settles d (Awaiting (fst p) (snd p))) ds1 (pending y1)"
      and lt: "sum_list ds1 < sum_list ds" by blast
    from less.hyps [OF lt all1] obtain m y' where m: "(deliver_step resp ^^ m) y1 y'" and "m \<le> sum_list ds1"
      and "pending y' = []" by blast
    moreover have "(deliver_step resp ^^ Suc m) y y'" using step m by (rule relpowp_Suc_I2)
    ultimately show ?thesis using lt by (intro exI [of _ "Suc m"] exI [of _ y']) simp
  qed
qed


lemma pending_all2_replicate:
  "reachable md5 y \<Longrightarrow>
   list_all2 (\<lambda>d p. settles d (Awaiting (fst p) (snd p))) (replicate (length (pending y)) 2) (pending y)"
  by (rule list_all2_all_nthI) (auto intro: reachable_pending_settle)

subsection \<open>Progress\<close>

text \<open>C30: from every reachable state, whatever the server answers, delivering
  the oldest pending request again and again empties the queue after at most
  twice as many deliveries as there are pending requests, through reachable
  states only: no interleaving of the operations leaves a chain of requests
  that never ends.\<close>

theorem reachable_drains:
  assumes "reachable md5 y"
  shows "\<exists>m y'. (deliver_step resp ^^ m) y y' \<and> m \<le> 2 * length (pending y) \<and> pending y' = [] \<and>
                reachable md5 y'"
proof -
  obtain m y' where steps: "(deliver_step resp ^^ m) y y'"
    and "m \<le> sum_list (replicate (length (pending y)) (2::nat))" and "pending y' = []"
    using drain [OF pending_all2_replicate [OF assms]] by blast
  moreover have "reachable md5 y'" using steps assms by (rule deliver_steps_reachable)
  ultimately show ?thesis by (auto simp: sum_list_replicate mult.commute)
qed

subsection \<open>Witnesses\<close>

theorem reachable_drains_witness:
  "reachable fixed_md5 (record_outcome init_sys (run_call fixed_md5 (Login (Str ''u'') (Str ''p'') (Fn 0)) (sess init_sys))) \<and>
   length (pending (record_outcome init_sys (run_call fixed_md5 (Login (Str ''u'') (Str ''p'') (Fn 0)) (sess init_sys)))) = 1 \<and>
   (\<exists>m y'. (deliver_step (\<lambda>_. login_answer round1_login) ^^ m)
              (record_outcome init_sys (run_call fixed_md5 (Login (Str ''u'') (Str ''p'') (Fn 0)) (sess init_sys))) y' \<and>
           m \<le> 2 * 1 \<and> pending y' = [] \<and> reachable fixed_md5 y')"
proof -
  let ?y = "record_outcome init_sys (run_call fixed_md5 (Login (Str ''u'') (Str ''p'') (Fn 0)) (sess init_sys))"
  have r: "reachable fixed_md5 ?y"
    by (rule reachable.step [OF reachable_init_example sys_step.call])
  have l: "length (pending ?y) = 1"
    by (simp add: record_outcome_def login_def post_def request_def)
  show ?thesis
    using r l reachable_drains [OF r, of "\<lambda>_. login_answer round1_login"] by simp
qed

end
