(* ===== verification/Script.thy ===== *)
theory Script
  imports System
begin

text \<open>
  The example script \<open>src/lib/login.js\<close>: it constructs a session for
  \<open>dnd-wiki.org\<close>, logs in, and from the login callback reads the page
  \<open>User:Havvy/Botground\<close>, from whose callback it appends \<open>\nsuccess\<close> to
  that page with \<open>edit\<close>; every callback logs the error and stops when there is
  one.  Independently, a timer calls \<open>logout\<close> with an empty callback.

  The script's four functions are caller functions of the library, the handles
  \<open>Fn 1\<close> (login callback), \<open>Fn 2\<close> (contents callback), \<open>Fn 3\<close> (edit
  callback) and \<open>Fn 4\<close> (logout callback).  Their bodies are
  \<open>script_body\<close>: a list of effects, a line written by \<open>console.log\<close> or a
  call of a library operation on the same session.  A run of the script is the
  concurrent system of \<open>System\<close> driven by these bodies: the transport answers
  any pending request at any time, and when the answer ends in a call of one of
  the script's functions its body runs at once; the timer fires once, at any
  point.  No library operation calls its callback synchronously
  (\<open>run_call_never_invokes\<close>), so a body's calls cannot re-enter the script.
\<close>

datatype script_effect = Log jsval | Call api_call

record script =
  world :: sys
  log :: "jsval list"
  timer_fired :: bool

definition dnd_page :: jsval where
  "dnd_page = Str ''User:Havvy/Botground''"

definition dnd_edit_fields :: jsobj where
  "dnd_edit_fields =
     [(''appendtext'', Str (CHR 0x0A # ''success'')), (''summary'', Str ''Testing API Wrapper''),
      (''minor'', Str ''true'')]"

text \<open>The bodies of the script's callbacks, on their arguments \<open>(err, data, ahr)\<close>.\<close>

definition script_body :: "nat \<Rightarrow> cbargs \<Rightarrow> script_effect list" where
  "script_body n args =
     (case args of (err, data, ahr) \<Rightarrow>
        if n = 1 then (if truthy err then [Log err] else [Call (GetArticleContents dnd_page (Fn 2))])
        else if n = 2 then (if truthy err then [Log err] else [Call (Edit dnd_page dnd_edit_fields (Fn 3))])
        else if n = 3 then (if truthy err then [Log ahr, Log err] else [Log data])
        else [])"

fun apply_effect :: "(string \<Rightarrow> string) \<Rightarrow> script \<Rightarrow> script_effect \<Rightarrow> script" where
  "apply_effect md5 st (Log v) = st\<lparr>log := log st @ [v]\<rparr>"
| "apply_effect md5 st (Call c) = st\<lparr>world := record_outcome (world st) (run_call md5 c (sess (world st)))\<rparr>"

definition run_effects :: "(string \<Rightarrow> string) \<Rightarrow> script \<Rightarrow> script_effect list \<Rightarrow> script" where
  "run_effects md5 st es = foldl (apply_effect md5) st es"

text \<open>The transport answering the \<open>i\<close>-th pending request with \<open>r\<close>; when the
  continuation ends in a call of a script function, its body runs.\<close>

definition script_deliver :: "(string \<Rightarrow> string) \<Rightarrow> script \<Rightarrow> nat \<Rightarrow> tresult \<Rightarrow> script" where
  "script_deliver md5 st i r =
     (case pending (world st) ! i of (req, k) \<Rightarrow>
        let res = k r (sess (world st));
            st1 = st\<lparr>world := record_outcome ((world st)\<lparr>pending := remove_at i (pending (world st))\<rparr>) res\<rparr>
        in (case snd res of Invoked (Fn n) a \<Rightarrow> run_effects md5 st1 (script_body n a) | _ \<Rightarrow> st1))"

text \<open>The script's top level: the constructor, then \<open>login\<close>.\<close>

definition login_js :: "(string \<Rightarrow> string) \<Rightarrow> js_exn + script" where
  "login_js md5 =
     (case MediaWikiApi (Str ''dnd-wiki.org'') of
        Inl e \<Rightarrow> Inl e
      | Inr s \<Rightarrow> Inr (run_effects md5 \<lparr>world = \<lparr>sess = s, pending = [], trace = []\<rparr>, log = [], timer_fired = False\<rparr>
                       [Call (Login (Str ''havvy_bot'') (Str ''lulzsec found me out'') (Fn 1))]))"

inductive script_step :: "(string \<Rightarrow> string) \<Rightarrow> script \<Rightarrow> script \<Rightarrow> bool" for md5 where
  deliver: "i < length (pending (world st)) \<Longrightarrow> script_step md5 st (script_deliver md5 st i r)"
| timer: "\<not> timer_fired st \<Longrightarrow>
    script_step md5 st (run_effects md5 (st\<lparr>timer_fired := True\<rparr>) [Call (Logout (Fn 4))])"

inductive script_reachable :: "(string \<Rightarrow> string) \<Rightarrow> script \<Rightarrow> bool" for md5 where
  start: "login_js md5 = Inr st \<Longrightarrow> script_reachable md5 st"
| step: "script_reachable md5 st \<Longrightarrow> script_step md5 st st' \<Longrightarrow> script_reachable md5 st'"

text \<open>The transport answering the oldest pending request with each of \<open>rs\<close> in turn.\<close>

definition script_run :: "(string \<Rightarrow> string) \<Rightarrow> script \<Rightarrow> tresult list \<Rightarrow> script" where
  "script_run md5 st rs = foldl (\<lambda>st r. script_deliver md5 st 0 r) st rs"

text \<open>A server that accepts everything: both login rounds, the page's content,
  an edit token, and a successful edit.\<close>

abbreviation contents_answer :: tresult where
  "contents_answer \<equiv> \<lparr>tr_err = Undefined, tr_ahr = plain_ahr,
     tr_data = Obj [(''query'', Obj [(''pages'', Obj [(''7'', Obj [(''revisions'', Arr [Obj [(''*'', Str ''Hello'')]])])])])]\<rparr>"

abbreviation edit_answer :: tresult where
  "edit_answer \<equiv> \<lparr>tr_err = Undefined, tr_ahr = plain_ahr, tr_data = Obj [(''edit'', Obj [(''result'', Str ''Success'')])]\<rparr>"

abbreviation happy_answers :: "tresult list" where
  "happy_answers \<equiv>
     [login_answer round1_login, login_answer round2_login, contents_answer,
      \<lparr>tr_err = Undefined, tr_ahr = plain_ahr, tr_data = token_answer ''edit'' ''1'' (Str ''ab+'')\<rparr>, edit_answer]"

text \<open>The session \<open>login.js\<close> constructs and its state after the
  \<open>login\<close> call: the round-one POST pending, nothing logged, the timer not fired.\<close>

abbreviation dnd_session :: session where
  "dnd_session \<equiv> \<lparr>site = Str ''dnd-wiki.org'', api = ''/w/api.php'', isBot = Bool True,
       loggedIn = False, cookies = \<lparr>prefix = Str '''', cookie_map = []\<rparr>, tokens = []\<rparr>"

abbreviation login1_query :: jsobj where
  "login1_query \<equiv> [(''action'', Str ''login''), (''lgname'', Str ''havvy_bot''),
     (''lgpassword'', Str ''lulzsec found me out''), (''format'', Str ''json'')]"

abbreviation js_start :: script where
  "js_start \<equiv> \<lparr>world = \<lparr>sess = dnd_session,
     pending = [(build_req dnd_session ''POST'' login1_query (Obj []),
       response_handler (Closure (login_round1 (Str ''havvy_bot'') (Str ''lulzsec found me out'') (User (Fn 1)))))],
     trace = [Sent (build_req dnd_session ''POST'' login1_query (Obj []))]\<rparr>,
     log = [], timer_fired = False\<rparr>"

abbreviation logout_query :: jsobj where
  "logout_query \<equiv> [(''action'', Str ''logout''), (''format'', Str ''json'')]"

subsection \<open>No operation calls back synchronously\<close>

lemma request_not_invoked: "snd (request q cb m b s) \<noteq> Invoked f a"
  by (simp add: request_def)

lemma getToken_not_invoked:
  "(\<And>a s. snd (call_cont cb a s) \<noteq> Invoked f args) \<Longrightarrow> snd (getToken t cb s) \<noteq> Invoked f args"
  by (simp add: getToken_def query_def get_def request_not_invoked)

lemma run_call_never_invokes: "snd (run_call md5 c s) \<noteq> Invoked f a"
proof (cases c)
  case (Edit t b cb)
  have "snd (call_cont (Closure (edit_with_token b' (User cb))) x s') \<noteq> Invoked f a" for b' x s'
    by (cases x) (simp add: edit_with_token_def post_def request_not_invoked)
  with Edit show ?thesis
    by (auto simp: edit_def getToken_not_invoked split: sum.splits)
qed (simp_all add: categorymembers_def query_def get_def post_def login_def logout_def getArticleContents_def
                   request_not_invoked)


subsection \<open>The script is a client of the concurrent session\<close>






lemma script_run_snoc: "script_run md5 st (rs @ [r]) = script_deliver md5 (script_run md5 st rs) 0 r"
  by (simp add: script_run_def)

lemma script_reachable_deliver_first:
  "script_reachable md5 st \<Longrightarrow> pending (world st) \<noteq> [] \<Longrightarrow> script_reachable md5 (script_deliver md5 st 0 r)"
  by (auto intro: script_reachable.step script_step.deliver)

lemma script_run_reachable:
  assumes "script_reachable md5 st"
    and "list_all (\<lambda>i. pending (world (script_run md5 st (take i rs))) \<noteq> []) [0..<length rs]"
  shows "script_reachable md5 (script_run md5 st rs)"
  using assms
proof (induction rs rule: rev_induct)
  case Nil
  then show ?case by (simp add: script_run_def)
next
  case (snoc r rs)
  have "script_reachable md5 (script_run md5 st rs)"
  proof (rule snoc.IH [OF snoc.prems(1)])
    show "list_all (\<lambda>i. pending (world (script_run md5 st (take i rs))) \<noteq> []) [0..<length rs]"
      using snoc.prems(2) by (simp add: list_all_iff)
  qed
  moreover have "pending (world (script_run md5 st rs)) \<noteq> []"
    using snoc.prems(2) by (simp add: list_all_iff)
  ultimately show ?case by (simp add: script_run_snoc script_reachable_deliver_first)
qed

lemma login_js_start: "login_js md5 = Inr js_start"
  by (simp add: login_js_def MediaWikiApi_def run_effects_def login_def post_def request_def record_outcome_def)

lemma response_handler_User_ends:
  "typeof f = ''function'' \<Longrightarrow>
   (\<exists>a. response_handler (User f) r s = (s, Invoked f a)) \<or> (\<exists>e. response_handler (User f) r s = (s, Thrown e))"
  by (auto simp: response_handler_def split: sum.splits)

lemma script_deliver_to_User:
  assumes "pending (world st) = [(req, response_handler (User (Fn n)))]" and "n \<notin> {1, 2, 3}"
  shows "\<exists>ev. sent_requests [ev] = [] \<and> script_deliver md5 st 0 r =
           st\<lparr>world := (world st)\<lparr>pending := [], trace := trace (world st) @ [ev]\<rparr>\<rparr>"
proof -
  have "typeof (Fn n) = ''function''" by simp
  from response_handler_User_ends [OF this, of r "sess (world st)"]
  show ?thesis
  proof (elim disjE exE)
    fix a assume "response_handler (User (Fn n)) r (sess (world st)) = (sess (world st), Invoked (Fn n) a)"
    with assms show ?thesis
      by (intro exI [of _ "Called (Fn n) a"])
         (auto simp: script_deliver_def remove_at_def record_outcome_def script_body_def run_effects_def
               split: prod.splits)
  next
    fix e assume "response_handler (User (Fn n)) r (sess (world st)) = (sess (world st), Thrown e)"
    with assms show ?thesis
      by (intro exI [of _ "Raised e"]) (auto simp: script_deliver_def remove_at_def record_outcome_def)
  qed
qed

subsection \<open>Runs of the script\<close>


text \<open>C32: against a server that accepts every step, \<open>login.js\<close> sends, in
  this order and each only after the previous answer, the two login rounds
  (the password in the URL query), the content query for
  \<open>User:Havvy/Botground\<close>, the edit-token query and the edit POST appending
  \<open>\nsuccess\<close> with the checksum, \<open>nocreate\<close>, \<open>bot\<close> and the token; the
  edit carries the session cookies, \<open>_session\<close> under the prefix as well; the
  script ends with nothing pending and the edit's answer as its only log line.\<close>

theorem login_js_happy_path:
  "\<exists>st0. login_js md5 = Inr st0 \<and>
     (let st5 = script_run md5 st0 happy_answers in
        script_reachable md5 st5 \<and> log st5 = [tr_data edit_answer] \<and> pending (world st5) = [] \<and>
        map req_query (sent_requests (trace (world st5))) =
          [[(''action'', Str ''login''), (''lgname'', Str ''havvy_bot''), (''lgpassword'', Str ''lulzsec found me out''),
            (''format'', Str ''json'')],
           [(''action'', Str ''login''), (''lgname'', Str ''havvy_bot''), (''lgpassword'', Str ''lulzsec found me out''),
            (''lgtoken'', Str ''t1''), (''format'', Str ''json'')],
           [(''prop'', Str ''revisions''), (''rvprop'', Str ''content''), (''titles'', Str ''User:Havvy/Botground''),
            (''action'', Str ''query''), (''format'', Str ''json'')],
           [(''prop'', Str ''info''), (''intoken'', Str ''edit''), (''titles'', Str ''Main Page''),
            (''action'', Str ''query''), (''format'', Str ''json'')],
           [(''action'', Str ''edit''), (''format'', Str ''json'')]] \<and>
        req_body (last (sent_requests (trace (world st5)))) =
          EncodedBody (makeQueryString
            [(''appendtext'', Str (CHR 0x0A # ''success'')), (''summary'', Str ''Testing API Wrapper''),
             (''minor'', Str ''true''), (''title'', Str ''User:Havvy/Botground''),
             (''md5'', Str (md5 (CHR 0x0A # ''success''))), (''nocreate'', Str ''true''), (''bot'', Str ''true''),
             (''token'', Str ''ab+'')]) \<and>
        hd (req_headers (last (sent_requests (trace (world st5))))) =
          (''Cookie'', ''x_session=s1; xUserName=u; xUserID=1; xToken=final''))"
proof -
  define st0 where "st0 = projr (login_js md5)"
  have l: "login_js md5 = Inr st0"
    unfolding st0_def by (simp add: login_js_def MediaWikiApi_def)
  have r: "script_reachable md5 (script_run md5 st0 happy_answers)"
  proof (rule script_run_reachable [OF script_reachable.start [OF l]])
    show "list_all (\<lambda>i. pending (world (script_run md5 st0 (take i happy_answers))) \<noteq> [])
            [0..<length happy_answers]"
      unfolding st0_def by code_simp
  qed
  have log: "log (script_run md5 st0 happy_answers) = [tr_data edit_answer]"
    unfolding st0_def by code_simp
  have p: "pending (world (script_run md5 st0 happy_answers)) = []"
    unfolding st0_def by code_simp
  have q: "map req_query (sent_requests (trace (world (script_run md5 st0 happy_answers)))) =
          [[(''action'', Str ''login''), (''lgname'', Str ''havvy_bot''), (''lgpassword'', Str ''lulzsec found me out''),
            (''format'', Str ''json'')],
           [(''action'', Str ''login''), (''lgname'', Str ''havvy_bot''), (''lgpassword'', Str ''lulzsec found me out''),
            (''lgtoken'', Str ''t1''), (''format'', Str ''json'')],
           [(''prop'', Str ''revisions''), (''rvprop'', Str ''content''), (''titles'', Str ''User:Havvy/Botground''),
            (''action'', Str ''query''), (''format'', Str ''json'')],
           [(''prop'', Str ''info''), (''intoken'', Str ''edit''), (''titles'', Str ''Main Page''),
            (''action'', Str ''query''), (''format'', Str ''json'')],
           [(''action'', Str ''edit''), (''format'', Str ''json'')]]"
    unfolding st0_def by code_simp
  have b: "req_body (last (sent_requests (trace (world (script_run md5 st0 happy_answers))))) =
          EncodedBody (makeQueryString
            [(''appendtext'', Str (CHR 0x0A # ''success'')), (''summary'', Str ''Testing API Wrapper''),
             (''minor'', Str ''true''), (''title'', Str ''User:Havvy/Botground''),
             (''md5'', Str (md5 (CHR 0x0A # ''success''))), (''nocreate'', Str ''true''), (''bot'', Str ''true''),
             (''token'', Str ''ab+'')])"
    unfolding st0_def by code_simp
  have h: "hd (req_headers (last (sent_requests (trace (world (script_run md5 st0 happy_answers)))))) =
          (''Cookie'', ''x_session=s1; xUserName=u; xUserID=1; xToken=final'')"
    unfolding st0_def by code_simp
  show ?thesis using l r log p q b h by (intro exI [of _ st0]) (simp only: Let_def simp_thms)
qed


text \<open>C33: when login round one fails, \<open>login.js\<close> logs the error and
  sends nothing more of its own: whatever happens afterwards (the timer's
  \<open>logout\<close> at any time, any answer to it), the only log line is the error,
  the session is never logged in, and the only requests ever sent are round
  one and the timer's logout.\<close>

theorem login_js_login_failure:
  assumes "truthy e"
  shows "\<exists>st0. login_js md5 = Inr st0 \<and>
     (\<forall>st'. (script_step md5)\<^sup>*\<^sup>* (script_deliver md5 st0 0 \<lparr>tr_err = e, tr_ahr = plain_ahr, tr_data = d\<rparr>) st' \<longrightarrow>
        log st' = [e] \<and> \<not> loggedIn (sess (world st')) \<and>
        map req_query (sent_requests (trace (world st'))) \<in> {[login1_query], [login1_query, logout_query]})"
proof -
  define st1 where "st1 = script_deliver md5 js_start 0 \<lparr>tr_err = e, tr_ahr = plain_ahr, tr_data = d\<rparr>"
  define st2 where "st2 = run_effects md5 (st1\<lparr>timer_fired := True\<rparr>) [Call (Logout (Fn 4))]"
  define done_st where "done_st ev = st2\<lparr>world := (world st2)\<lparr>pending := [], trace := trace (world st2) @ [ev]\<rparr>\<rparr>" for ev
  have s1: "st1 = js_start\<lparr>world := \<lparr>sess = dnd_session, pending = [],
              trace = [Sent (build_req dnd_session ''POST'' login1_query (Obj [])),
                       Called (Fn 1) (e, Undefined, plain_ahr)]\<rparr>, log := [e]\<rparr>"
    using assms
    by (simp add: st1_def script_deliver_def remove_at_def response_handler_plain login_round1_def
                  record_outcome_def script_body_def run_effects_def)
  have s2: "pending (world st2) = [(build_req dnd_session ''GET'' logout_query Undefined, response_handler (User (Fn 4)))] \<and>
            log st2 = [e] \<and> timer_fired st2 \<and> \<not> loggedIn (sess (world st2)) \<and>
            map req_query (sent_requests (trace (world st2))) = [login1_query, logout_query]"
    by (simp add: st2_def s1 run_effects_def logout_def get_def request_def record_outcome_def cookie_delete_def)
  have s3: "\<exists>ev. sent_requests [ev] = [] \<and> script_deliver md5 st2 0 r = done_st ev" for r
    unfolding done_st_def using s2 by (intro script_deliver_to_User) auto
  have inv: "st' = st1 \<or> st' = st2 \<or> (\<exists>ev. sent_requests [ev] = [] \<and> st' = done_st ev)"
    if "(script_step md5)\<^sup>*\<^sup>* st1 st'" for st'
    using that
  proof (induction rule: rtranclp_induct)
    case base
    then show ?case by simp
  next
    case (step x y)
    from step.IH show ?case
    proof (elim disjE exE conjE)
      assume "x = st1"
      with step.hyps(2) show ?thesis
        by (cases rule: script_step.cases) (auto simp: s1 st2_def)
    next
      assume "x = st2"
      with step.hyps(2) s2 s3 show ?thesis
        by (cases rule: script_step.cases) auto
    next
      fix ev assume "x = done_st ev"
      with step.hyps(2) s2 show ?thesis
        by (cases rule: script_step.cases) (auto simp: done_st_def)
    qed
  qed
  have "\<forall>st'. (script_step md5)\<^sup>*\<^sup>* (script_deliver md5 js_start 0 \<lparr>tr_err = e, tr_ahr = plain_ahr, tr_data = d\<rparr>) st' \<longrightarrow>
        log st' = [e] \<and> \<not> loggedIn (sess (world st')) \<and>
        map req_query (sent_requests (trace (world st'))) \<in> {[login1_query], [login1_query, logout_query]}"
  proof (intro allI impI)
    fix st' assume "(script_step md5)\<^sup>*\<^sup>* (script_deliver md5 js_start 0 \<lparr>tr_err = e, tr_ahr = plain_ahr, tr_data = d\<rparr>) st'"
    then have "(script_step md5)\<^sup>*\<^sup>* st1 st'" by (simp add: st1_def)
    then have "st' = st1 \<or> st' = st2 \<or> (\<exists>ev. sent_requests [ev] = [] \<and> st' = done_st ev)"
      by (rule inv)
    then show "log st' = [e] \<and> \<not> loggedIn (sess (world st')) \<and>
        map req_query (sent_requests (trace (world st'))) \<in> {[login1_query], [login1_query, logout_query]}"
      using s2 by (auto simp: s1 done_st_def)
  qed
  with login_js_start show ?thesis by blast
qed

subsection \<open>Witnesses\<close>


theorem login_js_login_failure_witness:
  "truthy (Str ''ECONNREFUSED'') \<and>
   log (script_deliver fixed_md5 js_start 0 \<lparr>tr_err = Str ''ECONNREFUSED'', tr_ahr = plain_ahr, tr_data = Undefined\<rparr>)
     = [Str ''ECONNREFUSED'']"
proof -
  obtain st0 where l: "login_js fixed_md5 = Inr st0" and all:
    "\<forall>st'. (script_step fixed_md5)\<^sup>*\<^sup>* (script_deliver fixed_md5 st0 0
              \<lparr>tr_err = Str ''ECONNREFUSED'', tr_ahr = plain_ahr, tr_data = Undefined\<rparr>) st' \<longrightarrow>
        log st' = [Str ''ECONNREFUSED''] \<and> \<not> loggedIn (sess (world st')) \<and>
        map req_query (sent_requests (trace (world st'))) \<in> {[login1_query], [login1_query, logout_query]}"
    using login_js_login_failure [of "Str ''ECONNREFUSED''" fixed_md5 Undefined] by auto
  from l have "st0 = js_start" using login_js_start by simp
  with all show ?thesis by auto
qed

end
