(* ===== verification/ScriptOrder.thy ===== *)
theory ScriptOrder
  imports Script
begin

text \<open>
  The order in which \<open>src/lib/login.js\<close> talks to the server, over every run:
  every interleaving of the answers with the timer's \<open>logout\<close>.  The script's
  own requests form one chain (login round one, round two, the content query,
  the edit-token query, the edit), each sent from the continuation of the
  previous one, so at most one of them is in flight at a time and they are
  sent in that order, whatever the answers.  The proof is an invariant of the
  runs: the continuation of every pending request is one of the six the script
  can leave (one per stage of the chain and the timer's \<open>logout\<close>).  From it
  follow the bound on the requests sent and pending, and a run in which the
  timer's \<open>logout\<close> overtakes the chain.
\<close>

abbreviation js_user :: jsval where "js_user \<equiv> Str ''havvy_bot''"
abbreviation js_pass :: jsval where "js_pass \<equiv> Str ''lulzsec found me out''"

text \<open>The continuations the script's requests wait with.\<close>

abbreviation k_login1 :: "tresult \<Rightarrow> action" where
  "k_login1 \<equiv> response_handler (Closure (login_round1 js_user js_pass (User (Fn 1))))"
abbreviation k_login2 :: "tresult \<Rightarrow> action" where
  "k_login2 \<equiv> response_handler (Closure (login_round2 (User (Fn 1))))"
abbreviation k_contents :: "tresult \<Rightarrow> action" where
  "k_contents \<equiv> response_handler (Closure (contents_received (User (Fn 2))))"
abbreviation k_token :: "jsobj \<Rightarrow> tresult \<Rightarrow> action" where
  "k_token b \<equiv> response_handler (Closure (token_received ''edit'' (Closure (edit_with_token b (User (Fn 3))))))"
abbreviation k_edit :: "tresult \<Rightarrow> action" where
  "k_edit \<equiv> response_handler (User (Fn 3))"
abbreviation k_logout :: "tresult \<Rightarrow> action" where
  "k_logout \<equiv> response_handler (User (Fn 4))"

text \<open>A query with the value of \<open>lgtoken\<close> (which the server chooses) blanked,
  and the queries of the script's own chain of requests, in order, so blanked.\<close>

definition mask_token :: "jsobj \<Rightarrow> jsobj" where
  "mask_token q = map (\<lambda>(k, v). if k = ''lgtoken'' then (k, Undefined) else (k, v)) q"

definition js_main_queries :: "jsobj list" where
  "js_main_queries =
     [login1_query,
      [(''action'', Str ''login''), (''lgname'', js_user), (''lgpassword'', js_pass), (''lgtoken'', Undefined),
       (''format'', Str ''json'')],
      [(''prop'', Str ''revisions''), (''rvprop'', Str ''content''), (''titles'', dnd_page),
       (''action'', Str ''query''), (''format'', Str ''json'')],
      [(''prop'', Str ''info''), (''intoken'', Str ''edit''), (''titles'', Str ''Main Page''),
       (''action'', Str ''query''), (''format'', Str ''json'')],
      [(''action'', Str ''edit''), (''format'', Str ''json'')]]"

text \<open>A request of the script's own chain, not the timer's \<open>logout\<close>.\<close>

definition is_main :: "http_req \<Rightarrow> bool" where
  "is_main req \<longleftrightarrow> req_query req \<noteq> logout_query"

text \<open>The stage of the chain whose continuation \<open>k\<close> is, when \<open>n\<close> requests of
  the chain have been sent.\<close>

definition stage_cont :: "nat \<Rightarrow> (tresult \<Rightarrow> action) \<Rightarrow> bool" where
  "stage_cont n k \<longleftrightarrow>
     (n = 1 \<and> k = k_login1) \<or> (n = 2 \<and> k = k_login2) \<or> (n = 3 \<and> k = k_contents) \<or>
     (n = 4 \<and> (\<exists>b. k = k_token b)) \<or> (n = 5 \<and> k = k_edit)"

text \<open>The invariant of the runs, in three parts: the chain's requests sent so
  far are a prefix of \<open>js_main_queries\<close>; every pending request is the timer's
  \<open>logout\<close> or the chain's current one, of which there is at most one; before
  the token query no edit token is cached; the timer's \<open>logout\<close> has been sent
  once if the timer fired and never otherwise.\<close>

definition main_sent :: "script \<Rightarrow> http_req list" where
  "main_sent st = filter is_main (sent_requests (trace (world st)))"

definition chain_ok :: "http_req list \<Rightarrow> bool" where
  "chain_ok ms \<longleftrightarrow> 0 < length ms \<and> length ms \<le> 5 \<and> map (mask_token \<circ> req_query) ms = take (length ms) js_main_queries"

definition logout_item :: "http_req \<times> (tresult \<Rightarrow> action) \<Rightarrow> bool" where
  "logout_item p \<longleftrightarrow> snd p = k_logout \<and> \<not> is_main (fst p)"

definition pend_ok :: "nat \<Rightarrow> (http_req \<times> (tresult \<Rightarrow> action)) list \<Rightarrow> bool" where
  "pend_ok n ps \<longleftrightarrow>
     (\<forall>p \<in> set ps. logout_item p \<or> (is_main (fst p) \<and> stage_cont n (snd p))) \<and>
     length (filter (is_main \<circ> fst) ps) \<le> 1"

definition tok_ok :: "nat \<Rightarrow> session \<Rightarrow> bool" where
  "tok_ok n s \<longleftrightarrow> (n < 4 \<longrightarrow> \<not> truthy (obj_get (tokens s) ''edit''))"

definition timer_ok :: "script \<Rightarrow> bool" where
  "timer_ok st \<longleftrightarrow>
     length (filter (\<lambda>q. \<not> is_main q) (sent_requests (trace (world st)))) = (if timer_fired st then 1 else 0) \<and>
     length (filter (\<lambda>p. \<not> is_main (fst p)) (pending (world st))) \<le> (if timer_fired st then 1 else 0)"

definition js_inv :: "script \<Rightarrow> bool" where
  "js_inv st \<longleftrightarrow>
     chain_ok (main_sent st) \<and> pend_ok (length (main_sent st)) (pending (world st)) \<and>
     tok_ok (length (main_sent st)) (sess (world st)) \<and> timer_ok st"

text \<open>What recording an outcome adds: the pending request and its event.\<close>

definition out_new :: "outcome \<Rightarrow> (http_req \<times> (tresult \<Rightarrow> action)) list" where
  "out_new out = (case out of Awaiting req k \<Rightarrow> [(req, k)] | _ \<Rightarrow> [])"

definition event_of :: "outcome \<Rightarrow> event" where
  "event_of out = (case out of Awaiting req k \<Rightarrow> Sent req | Invoked f a \<Rightarrow> Called f a | Thrown e \<Rightarrow> Raised e)"

subsection \<open>What each continuation can do\<close>

lemma response_handler_cases:
  "(\<exists>e. response_handler cb r s = (s, Thrown e)) \<or> (\<exists>a. response_handler cb r s = call_cont cb a s)"
  by (auto simp: response_handler_def split: sum.splits)


lemma call_cont_User_fn: "call_cont (User (Fn n)) a s = (s, Invoked (Fn n) a)"
  by simp

lemma response_handler_ClosureE:
  assumes "response_handler (Closure c) r s = (s', out)"
    and "\<And>e. s' = s \<Longrightarrow> out = Thrown e \<Longrightarrow> P" and "\<And>a. c a s = (s', out) \<Longrightarrow> P"
  shows P
  using response_handler_cases [of "Closure c" r s] assms by auto

lemma login_round1_out:
  assumes "login_round1 js_user js_pass (User (Fn 1)) a s = (s', out)"
  shows "tokens s' = tokens s \<and>
         ((\<exists>e. out = Thrown e) \<or> (\<exists>a. out = Invoked (Fn 1) a \<and> truthy (fst a)) \<or>
          (\<exists>req. out = Awaiting req k_login2 \<and> mask_token (req_query req) = js_main_queries ! 1))"
  using assms
  by (cases a) (auto simp: login_round1_def Let_def post_def request_def mask_token_def js_main_queries_def
                     split: if_split_asm sum.split_asm)

lemma k_login1_out:
  assumes "k_login1 r s = (s', out)"
  shows "tokens s' = tokens s \<and>
         ((\<exists>e. out = Thrown e) \<or> (\<exists>a. out = Invoked (Fn 1) a \<and> truthy (fst a)) \<or>
          (\<exists>req. out = Awaiting req k_login2 \<and> mask_token (req_query req) = js_main_queries ! 1))"
  using assms by (rule response_handler_ClosureE) (blast dest: login_round1_out)+

lemma login_round2_out:
  assumes "login_round2 (User (Fn 1)) a s = (s', out)"
  shows "tokens s' = tokens s \<and> ((\<exists>e. out = Thrown e) \<or> (\<exists>a. out = Invoked (Fn 1) a))"
  using assms by (cases a) (auto simp: login_round2_def split: if_split_asm sum.split_asm)

lemma k_login2_out:
  assumes "k_login2 r s = (s', out)"
  shows "tokens s' = tokens s \<and> ((\<exists>e. out = Thrown e) \<or> (\<exists>a. out = Invoked (Fn 1) a))"
  using assms by (rule response_handler_ClosureE) (blast dest: login_round2_out)+

lemma contents_received_out:
  assumes "contents_received (User (Fn 2)) a s = (s', out)"
  shows "s' = s \<and> ((\<exists>e. out = Thrown e) \<or> (\<exists>a. out = Invoked (Fn 2) a))"
  using assms by (cases a) (auto simp: contents_received_def split: if_split_asm sum.split_asm)

lemma k_contents_out:
  assumes "k_contents r s = (s', out)"
  shows "s' = s \<and> ((\<exists>e. out = Thrown e) \<or> (\<exists>a. out = Invoked (Fn 2) a))"
  using assms by (rule response_handler_ClosureE) (blast dest: contents_received_out)+

lemma token_received_out:
  assumes "token_received ''edit'' (Closure (edit_with_token b (User (Fn 3)))) a s = (s', out)"
  shows "(\<exists>e. out = Thrown e) \<or> (\<exists>req. out = Awaiting req k_edit \<and> mask_token (req_query req) = js_main_queries ! 4)"
  using assms
  by (cases a) (auto simp: token_received_def edit_with_token_def post_def request_def mask_token_def
                           js_main_queries_def split: if_split_asm sum.split_asm)

lemma k_token_out:
  assumes "k_token b r s = (s', out)"
  shows "(\<exists>e. out = Thrown e) \<or> (\<exists>req. out = Awaiting req k_edit \<and> mask_token (req_query req) = js_main_queries ! 4)"
  using assms by (rule response_handler_ClosureE) (blast dest: token_received_out)+

lemma k_user_out:
  assumes "response_handler (User (Fn n)) r s = (s', out)"
  shows "s' = s \<and> ((\<exists>e. out = Thrown e) \<or> (\<exists>a. out = Invoked (Fn n) a))"
  using response_handler_cases [of "User (Fn n)" r s] assms by auto


subsection \<open>Recording and effects\<close>

lemma record_outcome_eq:
  "record_outcome y (s, out) = y\<lparr>sess := s, pending := pending y @ out_new out, trace := trace y @ [event_of out]\<rparr>"
  by (simp add: record_outcome_def out_new_def event_of_def split: outcome.splits)

lemma sent_event_of [simp]: "sent_requests [event_of out] = map fst (out_new out)"
  by (simp add: event_of_def out_new_def split: outcome.splits)

lemma main_queries_not_logout:
  "mask_token q = js_main_queries ! j \<Longrightarrow> j < 5 \<Longrightarrow> q \<noteq> logout_query"
  by (auto simp: js_main_queries_def mask_token_def less_Suc_eq numeral_eq_Suc)

lemma run_call_contents:
  "\<exists>req. run_call md5 (GetArticleContents dnd_page (Fn 2)) s = (s, Awaiting req k_contents) \<and>
         mask_token (req_query req) = js_main_queries ! 2"
  by (simp add: getArticleContents_def query_def get_def request_def mask_token_def js_main_queries_def)

lemma run_call_edit:
  "\<not> truthy (obj_get (tokens s) ''edit'') \<Longrightarrow>
   \<exists>req b. run_call md5 (Edit dnd_page dnd_edit_fields (Fn 3)) s = (s, Awaiting req (k_token b)) \<and>
         mask_token (req_query req) = js_main_queries ! 3"
  by (auto simp: edit_def edit_body_def edit_checksum_def md5_call_def dnd_page_def dnd_edit_fields_def
                 getToken_def query_def get_def request_def mask_token_def js_main_queries_def Let_def js_eval)

lemma run_call_logout:
  "\<exists>req. run_call md5 (Logout (Fn 4)) s = (s\<lparr>loggedIn := False,
            cookies := cookie_delete ''_session'' (cookie_delete ''Token''
                         (cookie_delete ''UserID'' (cookie_delete ''UserName'' (cookies s))))\<rparr>, Awaiting req k_logout) \<and>
         req_query req = logout_query"
  by (simp add: logout_def get_def request_def)


subsection \<open>The invariant under the two kinds of change\<close>

lemma filter_remove_at_le: "length (filter P (remove_at i xs)) \<le> length (filter P xs)"
proof -
  have "filter P xs = filter P (take i xs) @ filter P (drop i xs)"
    by (metis append_take_drop_id filter_append)
  moreover have "length (filter P (drop (Suc i) xs)) \<le> length (filter P (drop i xs))"
    by (cases "i < length xs") (auto simp: Cons_nth_drop_Suc [symmetric])
  ultimately show ?thesis by (simp add: remove_at_def)
qed

lemma filter_remove_at_only:
  assumes "length (filter P xs) \<le> 1" and "i < length xs" and "P (xs ! i)"
  shows "filter P (remove_at i xs) = []"
proof -
  have split: "length (filter P xs) = length (filter P (take i xs)) + length (filter P (drop i xs))"
    by (metis append_take_drop_id filter_append length_append)
  have "drop i xs = xs ! i # drop (Suc i) xs"
    using assms(2) by (simp add: Cons_nth_drop_Suc)
  then have "length (filter P (drop i xs)) = Suc (length (filter P (drop (Suc i) xs)))"
    using assms(3) by simp
  with split assms(1) show ?thesis by (simp add: remove_at_def)
qed

lemma length_js_main_queries [simp]: "length js_main_queries = 5"
  by (simp add: js_main_queries_def)

lemma main_sent_append:
  "sent_requests (trace (world st')) = sent_requests (trace (world st)) @ map fst new \<Longrightarrow>
   main_sent st' = main_sent st @ filter is_main (map fst new)"
  by (simp add: main_sent_def)

lemma chain_ok_snoc:
  assumes "chain_ok ms" and "length ms < 5" and "mask_token (req_query req) = js_main_queries ! length ms"
  shows "chain_ok (ms @ [req])"
proof -
  have "take (length ms) js_main_queries @ [js_main_queries ! length ms] = take (Suc (length ms)) js_main_queries"
    using assms(2) by (simp add: take_Suc_conv_app_nth)
  with assms show ?thesis by (simp add: chain_ok_def)
qed

lemma pend_ok_logouts: "\<forall>p \<in> set ps. logout_item p \<Longrightarrow> pend_ok n ps"
  by (auto simp: pend_ok_def logout_item_def filter_empty_conv)

lemma pend_ok_sub:
  "pend_ok n ps \<Longrightarrow> set rest \<subseteq> set ps \<Longrightarrow>
   length (filter (is_main \<circ> fst) rest) \<le> length (filter (is_main \<circ> fst) ps) \<Longrightarrow>
   \<forall>p \<in> set new. logout_item p \<Longrightarrow> pend_ok n (rest @ new)"
  by (auto simp: pend_ok_def logout_item_def filter_empty_conv)

lemma pend_ok_rest_logouts:
  "pend_ok n ps \<Longrightarrow> set rest \<subseteq> set ps \<Longrightarrow> filter (is_main \<circ> fst) rest = [] \<Longrightarrow> \<forall>p \<in> set rest. logout_item p"
  by (fastforce simp: pend_ok_def logout_item_def filter_empty_conv)

lemma timer_ok_advance:
  assumes "timer_ok st" and "timer_fired st' = timer_fired st"
    and "pending (world st') = remove_at i (pending (world st)) @ new"
    and "sent_requests (trace (world st')) = sent_requests (trace (world st)) @ map fst new"
    and "\<forall>p \<in> set new. is_main (fst p)"
  shows "timer_ok st'"
proof -
  have "length (filter (\<lambda>p. \<not> is_main (fst p)) (remove_at i (pending (world st)))) \<le>
        length (filter (\<lambda>p. \<not> is_main (fst p)) (pending (world st)))" by (rule filter_remove_at_le)
  moreover have "filter (\<lambda>p. \<not> is_main (fst p)) new = []" "filter (\<lambda>q. \<not> is_main q) (map fst new) = []"
    using assms(5) by (auto simp: filter_empty_conv)
  ultimately show ?thesis using assms(1-4) by (simp add: timer_ok_def)
qed

text \<open>A change that sends none of the chain's requests and leaves it at its
  stage: some pending requests answered, timer requests added, no new token.\<close>

lemma js_inv_keep:
  assumes inv: "js_inv st"
    and pend: "pending (world st') = rest @ new" and sub: "set rest \<subseteq> set (pending (world st))"
    and cnt: "length (filter (is_main \<circ> fst) rest) \<le> length (filter (is_main \<circ> fst) (pending (world st)))"
    and new: "\<forall>p \<in> set new. logout_item p"
    and sent: "sent_requests (trace (world st')) = sent_requests (trace (world st)) @ map fst new"
    and tok: "tokens (sess (world st')) = tokens (sess (world st))" and tm: "timer_ok st'"
  shows "js_inv st'"
proof -
  have "filter is_main (map fst new) = []"
    using new by (auto simp: filter_empty_conv logout_item_def)
  then have m: "main_sent st' = main_sent st" using main_sent_append [OF sent] by simp
  show ?thesis
    using inv pend_ok_sub [OF _ sub cnt new] tm unfolding js_inv_def m pend
    by (simp add: tok_ok_def tok)
qed

text \<open>A change that sends the chain's next request (or none) and leaves no
  other request of the chain pending.\<close>

lemma js_inv_advance:
  assumes inv: "js_inv st"
    and pend: "pending (world st') = rest @ new" and sub: "set rest \<subseteq> set (pending (world st))"
    and none: "filter (is_main \<circ> fst) rest = []"
    and sent: "sent_requests (trace (world st')) = sent_requests (trace (world st)) @ map fst new"
    and new: "(new = [] \<and> tok_ok (length (main_sent st)) (sess (world st'))) \<or>
              (\<exists>req k. new = [(req, k)] \<and> is_main req \<and> stage_cont (Suc (length (main_sent st))) k \<and>
                 length (main_sent st) < 5 \<and> mask_token (req_query req) = js_main_queries ! length (main_sent st) \<and>
                 tok_ok (Suc (length (main_sent st))) (sess (world st')))"
    and tm: "timer_ok st'"
  shows "js_inv st'"
proof -
  have rest: "\<forall>p \<in> set rest. logout_item p"
    using inv sub none pend_ok_rest_logouts unfolding js_inv_def by blast
  from new show ?thesis
  proof (elim disjE exE conjE)
    assume "new = []" and t: "tok_ok (length (main_sent st)) (sess (world st'))"
    then have "main_sent st' = main_sent st" using main_sent_append [OF sent] by simp
    with inv t rest tm show ?thesis unfolding js_inv_def pend \<open>new = []\<close> by (simp add: pend_ok_logouts)
  next
    fix req k
    assume nw: "new = [(req, k)]" and m: "is_main req" and sc: "stage_cont (Suc (length (main_sent st))) k"
      and lt: "length (main_sent st) < 5" and q: "mask_token (req_query req) = js_main_queries ! length (main_sent st)"
      and t: "tok_ok (Suc (length (main_sent st))) (sess (world st'))"
    have ms: "main_sent st' = main_sent st @ [req]" using main_sent_append [OF sent] nw m by simp
    have "chain_ok (main_sent st')" using inv lt q unfolding ms js_inv_def by (blast intro: chain_ok_snoc)
    moreover have "pend_ok (length (main_sent st')) (pending (world st'))"
      using rest m sc unfolding pend nw ms pend_ok_def by (auto simp: logout_item_def filter_empty_conv)
    ultimately show ?thesis using t tm unfolding js_inv_def ms by simp
  qed
qed


subsection \<open>One delivery\<close>

lemma timer_fired_run_effects: "timer_fired (run_effects md5 st es) = timer_fired st"
proof (induction es arbitrary: st)
  case (Cons e es)
  then show ?case by (cases e) (simp_all add: run_effects_def)
qed (simp add: run_effects_def)

lemma timer_fired_deliver [simp]: "timer_fired (script_deliver md5 st i r) = timer_fired st"
  by (simp add: script_deliver_def Let_def timer_fired_run_effects split: prod.split outcome.split jsval.split)

lemma run_effects_Logs: "world (run_effects md5 st (map Log vs)) = world st"
  by (induction vs arbitrary: st) (simp_all add: run_effects_def)

lemma run_effects_Call:
  "run_effects md5 st [Call c] = st\<lparr>world := record_outcome (world st) (run_call md5 c (sess (world st)))\<rparr>"
  by (simp add: run_effects_def)

lemma script_body_cases:
  "(\<exists>vs. script_body n a = map Log vs) \<or>
   (n = 1 \<and> \<not> truthy (fst a) \<and> script_body n a = [Call (GetArticleContents dnd_page (Fn 2))]) \<or>
   (n = 2 \<and> \<not> truthy (fst a) \<and> script_body n a = [Call (Edit dnd_page dnd_edit_fields (Fn 3))])"
proof -
  obtain err d h where a: "a = (err, d, h)" by (cases a)
  show ?thesis
    unfolding a script_body_def
    by (auto intro: exI [of _ "[err]"] exI [of _ "[h, err]"] exI [of _ "[d]"] exI [of _ "[]"])
qed

lemma script_body_other: "n \<noteq> 1 \<Longrightarrow> n \<noteq> 2 \<Longrightarrow> n \<noteq> 3 \<Longrightarrow> script_body n a = []"
  by (simp add: script_body_def split: prod.splits)

lemma script_body_err: "n \<noteq> 2 \<Longrightarrow> truthy (fst a) \<Longrightarrow> \<exists>vs. script_body n a = map Log vs"
  using script_body_cases [of n a] by auto

lemma script_deliver_eq:
  assumes "pending (world st) ! i = (req, k)" and "k r (sess (world st)) = (s', out)"
  shows "script_deliver md5 st i r =
           (case out of
              Invoked (Fn n) a \<Rightarrow>
                run_effects md5 (st\<lparr>world := (world st)\<lparr>sess := s', pending := remove_at i (pending (world st)) @ out_new out,
                                    trace := trace (world st) @ [event_of out]\<rparr>\<rparr>) (script_body n a)
            | _ \<Rightarrow> st\<lparr>world := (world st)\<lparr>sess := s', pending := remove_at i (pending (world st)) @ out_new out,
                                    trace := trace (world st) @ [event_of out]\<rparr>\<rparr>)"
  using assms by (simp add: script_deliver_def record_outcome_eq split: outcome.split jsval.split)


lemma deliver_world_end:
  assumes "pending (world st) ! i = (req, k)" and "k r (sess (world st)) = (s', out)"
    and "(\<exists>e. out = Thrown e) \<or> (\<exists>m a vs. out = Invoked (Fn m) a \<and> script_body m a = map Log vs)"
  shows "world (script_deliver md5 st i r) =
           (world st)\<lparr>sess := s', pending := remove_at i (pending (world st)) @ [], trace := trace (world st) @ [event_of out]\<rparr> \<and>
         sent_requests [event_of out] = map fst []"
  using assms(3)
  by (auto simp: script_deliver_eq [OF assms(1,2)] run_effects_Logs out_new_def event_of_def)

lemma deliver_world_await:
  assumes "pending (world st) ! i = (req, k)" and "k r (sess (world st)) = (s', Awaiting req' k')"
  shows "world (script_deliver md5 st i r) =
           (world st)\<lparr>sess := s', pending := remove_at i (pending (world st)) @ [(req', k')],
                      trace := trace (world st) @ [Sent req']\<rparr>"
  by (simp add: script_deliver_eq [OF assms] out_new_def event_of_def)

lemma deliver_world_call:
  assumes "pending (world st) ! i = (req, k)" and "k r (sess (world st)) = (s', Invoked (Fn m) a)"
    and "script_body m a = [Call c]" and "run_call md5 c s' = (s'', out2)"
  shows "world (script_deliver md5 st i r) =
           (world st)\<lparr>sess := s'', pending := remove_at i (pending (world st)) @ out_new out2,
                      trace := trace (world st) @ [Called (Fn m) a, event_of out2]\<rparr>"
  using assms(3,4)
  by (simp add: script_deliver_eq [OF assms(1,2)] run_effects_Call record_outcome_eq out_new_def event_of_def)

lemma js_inv_advance_world:
  assumes inv: "js_inv st" and i: "i < length (pending (world st))" and m: "is_main (fst (pending (world st) ! i))"
    and w: "world st' = (world st)\<lparr>sess := s'', pending := remove_at i (pending (world st)) @ new,
                                  trace := trace (world st) @ evs\<rparr>"
    and ev: "sent_requests evs = map fst new"
    and new: "(new = [] \<and> tok_ok (length (main_sent st)) s'') \<or>
              (\<exists>req k. new = [(req, k)] \<and> is_main req \<and> stage_cont (Suc (length (main_sent st))) k \<and>
                 length (main_sent st) < 5 \<and> mask_token (req_query req) = js_main_queries ! length (main_sent st) \<and>
                 tok_ok (Suc (length (main_sent st))) s'')"
    and tf: "timer_fired st' = timer_fired st"
  shows "js_inv st'"
proof (rule js_inv_advance [OF inv])
  show "pending (world st') = remove_at i (pending (world st)) @ new" using w by simp
  show "set (remove_at i (pending (world st))) \<subseteq> set (pending (world st))" by (rule set_remove_at)
  have "length (filter (is_main \<circ> fst) (pending (world st))) \<le> 1" using inv by (simp add: js_inv_def pend_ok_def)
  then show "filter (is_main \<circ> fst) (remove_at i (pending (world st))) = []"
    using i m by (intro filter_remove_at_only) auto
  show "sent_requests (trace (world st')) = sent_requests (trace (world st)) @ map fst new" using w ev by simp
  show "(new = [] \<and> tok_ok (length (main_sent st)) (sess (world st'))) \<or>
        (\<exists>req k. new = [(req, k)] \<and> is_main req \<and> stage_cont (Suc (length (main_sent st))) k \<and>
           length (main_sent st) < 5 \<and> mask_token (req_query req) = js_main_queries ! length (main_sent st) \<and>
           tok_ok (Suc (length (main_sent st))) (sess (world st')))"
    using new w by simp
  have nm: "\<forall>p \<in> set new. is_main (fst p)" using new by auto
  have tm: "timer_ok st" using inv by (simp add: js_inv_def)
  show "timer_ok st'" by (rule timer_ok_advance [OF tm tf _ _ nm]) (simp_all add: w ev)
qed


lemma is_main_mask: "mask_token (req_query req) = js_main_queries ! j \<Longrightarrow> j < 5 \<Longrightarrow> is_main req"
  by (simp add: is_main_def main_queries_not_logout)

lemma tok_ok_same: "tok_ok n s \<Longrightarrow> tokens s' = tokens s \<Longrightarrow> tok_ok n s'"
  by (simp add: tok_ok_def)

lemma tok_ok_Suc: "tok_ok n s \<Longrightarrow> tok_ok (Suc n) s"
  by (simp add: tok_ok_def)

lemma tok_ok_late: "3 < n \<Longrightarrow> tok_ok n s"
  by (simp add: tok_ok_def)

lemma js_inv_deliver_end:
  assumes inv: "js_inv st" and i: "i < length (pending (world st))" and p: "pending (world st) ! i = (req, k)"
    and m: "is_main req" and o: "k r (sess (world st)) = (s', out)"
    and e: "(\<exists>e. out = Thrown e) \<or> (\<exists>mm a vs. out = Invoked (Fn mm) a \<and> script_body mm a = map Log vs)"
    and t: "tok_ok (length (main_sent st)) s'"
  shows "js_inv (script_deliver md5 st i r)"
  using deliver_world_end [OF p o e, of md5] t
  by (intro js_inv_advance_world [OF inv i]) (auto simp: p m)

lemma js_inv_deliver_await:
  assumes inv: "js_inv st" and i: "i < length (pending (world st))" and p: "pending (world st) ! i = (req, k)"
    and m: "is_main req" and o: "k r (sess (world st)) = (s', Awaiting req' k')"
    and sc: "stage_cont (Suc (length (main_sent st))) k'" and lt: "length (main_sent st) < 5"
    and q: "mask_token (req_query req') = js_main_queries ! length (main_sent st)"
    and t: "tok_ok (Suc (length (main_sent st))) s'"
  shows "js_inv (script_deliver md5 st i r)"
  using deliver_world_await [OF p o, of md5] sc lt q t is_main_mask [OF q lt]
  by (intro js_inv_advance_world [OF inv i]) (auto simp: p m)

lemma js_inv_deliver_call:
  assumes inv: "js_inv st" and i: "i < length (pending (world st))" and p: "pending (world st) ! i = (req, k)"
    and m: "is_main req" and o: "k r (sess (world st)) = (s', Invoked (Fn mm) a)"
    and b: "script_body mm a = [Call c]" and rc: "run_call md5 c s' = (s'', Awaiting req' k')"
    and sc: "stage_cont (Suc (length (main_sent st))) k'" and lt: "length (main_sent st) < 5"
    and q: "mask_token (req_query req') = js_main_queries ! length (main_sent st)"
    and t: "tok_ok (Suc (length (main_sent st))) s''"
  shows "js_inv (script_deliver md5 st i r)"
  using deliver_world_call [OF p o b rc] sc lt q t is_main_mask [OF q lt]
  by (intro js_inv_advance_world [OF inv i]) (auto simp: p m out_new_def event_of_def)


lemma js_inv_deliver_thrown:
  assumes "js_inv st" "i < length (pending (world st))" "pending (world st) ! i = (req, k)" "is_main req"
    "k r (sess (world st)) = (s', Thrown e)" "tok_ok (length (main_sent st)) s'"
  shows "js_inv (script_deliver md5 st i r)"
  by (rule js_inv_deliver_end [OF assms(1-5) _ assms(6)]) simp

lemma js_inv_deliver_logs:
  assumes "js_inv st" "i < length (pending (world st))" "pending (world st) ! i = (req, k)" "is_main req"
    "k r (sess (world st)) = (s', Invoked (Fn mm) a)" "script_body mm a = map Log vs"
    "tok_ok (length (main_sent st)) s'"
  shows "js_inv (script_deliver md5 st i r)"
  by (rule js_inv_deliver_end [OF assms(1-5) _ assms(7)]) (use assms(6) in blast)

lemma js_inv_tok: "js_inv st \<Longrightarrow> tok_ok (length (main_sent st)) (sess (world st))"
  by (simp add: js_inv_def)

subsection \<open>Each stage of the chain\<close>

lemma js_inv_stage1:
  assumes inv: "js_inv st" and i: "i < length (pending (world st))" and p: "pending (world st) ! i = (req, k_login1)"
    and m: "is_main req" and n: "length (main_sent st) = 1"
  shows "js_inv (script_deliver md5 st i r)"
proof -
  obtain s' out where o: "k_login1 r (sess (world st)) = (s', out)" by (metis surj_pair)
  note out = k_login1_out [OF o]
  have t: "tok_ok 1 s'" using js_inv_tok [OF inv] out n by (simp add: tok_ok_def)
  from out show ?thesis
  proof (elim conjE disjE exE)
    fix e assume "out = Thrown e"
    then show ?thesis using js_inv_deliver_thrown [OF inv i p m] o t n by simp
  next
    fix a assume oa: "out = Invoked (Fn 1) a" and "truthy (fst a)"
    then obtain vs where "script_body 1 a = map Log vs" using script_body_err [of 1 a] by auto
    then show ?thesis using js_inv_deliver_logs [OF inv i p m] o oa t n by simp
  next
    fix req' assume "out = Awaiting req' k_login2" and "mask_token (req_query req') = js_main_queries ! 1"
    then show ?thesis using js_inv_deliver_await [OF inv i p m] o t n tok_ok_Suc [OF t]
      by (simp add: stage_cont_def)
  qed
qed

lemma js_inv_stage2:
  assumes inv: "js_inv st" and i: "i < length (pending (world st))" and p: "pending (world st) ! i = (req, k_login2)"
    and m: "is_main req" and n: "length (main_sent st) = 2"
  shows "js_inv (script_deliver md5 st i r)"
proof -
  obtain s' out where o: "k_login2 r (sess (world st)) = (s', out)" by (metis surj_pair)
  note out = k_login2_out [OF o]
  have t: "tok_ok 2 s'" using js_inv_tok [OF inv] out n by (simp add: tok_ok_def)
  from out show ?thesis
  proof (elim conjE disjE exE)
    fix e assume "out = Thrown e"
    then show ?thesis using js_inv_deliver_thrown [OF inv i p m] o t n by simp
  next
    fix a assume oa: "out = Invoked (Fn 1) a"
    from script_body_cases [of 1 a] show ?thesis
    proof (elim disjE exE conjE)
      fix vs assume "script_body 1 a = map Log vs"
      then show ?thesis using js_inv_deliver_logs [OF inv i p m] o oa t n by simp
    next
      assume b: "script_body 1 a = [Call (GetArticleContents dnd_page (Fn 2))]"
      obtain req' where rc: "run_call md5 (GetArticleContents dnd_page (Fn 2)) s' = (s', Awaiting req' k_contents)"
        and q: "mask_token (req_query req') = js_main_queries ! 2" using run_call_contents by blast
      show ?thesis using js_inv_deliver_call [OF inv i p m _ b rc] o oa q n tok_ok_Suc [OF t]
        by (simp add: stage_cont_def)
    qed simp
  qed
qed


lemma js_inv_stage3:
  assumes inv: "js_inv st" and i: "i < length (pending (world st))" and p: "pending (world st) ! i = (req, k_contents)"
    and m: "is_main req" and n: "length (main_sent st) = 3"
  shows "js_inv (script_deliver md5 st i r)"
proof -
  obtain s' out where o: "k_contents r (sess (world st)) = (s', out)" by (metis surj_pair)
  note out = k_contents_out [OF o]
  have t: "tok_ok 3 s'" using js_inv_tok [OF inv] out n by simp
  from out show ?thesis
  proof (elim conjE disjE exE)
    fix e assume "out = Thrown e"
    then show ?thesis using js_inv_deliver_thrown [OF inv i p m] o t n by simp
  next
    fix a assume oa: "out = Invoked (Fn 2) a"
    from script_body_cases [of 2 a] show ?thesis
    proof (elim disjE exE conjE)
      fix vs assume "script_body 2 a = map Log vs"
      then show ?thesis using js_inv_deliver_logs [OF inv i p m] o oa t n by simp
    next
      assume b: "script_body 2 a = [Call (Edit dnd_page dnd_edit_fields (Fn 3))]"
      have "\<not> truthy (obj_get (tokens s') ''edit'')" using t by (simp add: tok_ok_def)
      then obtain req' b' where rc: "run_call md5 (Edit dnd_page dnd_edit_fields (Fn 3)) s' = (s', Awaiting req' (k_token b'))"
        and q: "mask_token (req_query req') = js_main_queries ! 3" using run_call_edit by blast
      show ?thesis using js_inv_deliver_call [OF inv i p m _ b rc] o oa q n tok_ok_late [of 4 s']
        by (auto simp: stage_cont_def)
    qed simp
  qed
qed

lemma js_inv_stage4:
  assumes inv: "js_inv st" and i: "i < length (pending (world st))" and p: "pending (world st) ! i = (req, k_token b)"
    and m: "is_main req" and n: "length (main_sent st) = 4"
  shows "js_inv (script_deliver md5 st i r)"
proof -
  obtain s' out where o: "k_token b r (sess (world st)) = (s', out)" by (metis surj_pair)
  have t: "tok_ok n s'" if "3 < n" for n using that by (rule tok_ok_late)
  from k_token_out [OF o] show ?thesis
  proof (elim disjE exE conjE)
    fix e assume "out = Thrown e"
    then show ?thesis using js_inv_deliver_thrown [OF inv i p m] o t n by simp
  next
    fix req' assume "out = Awaiting req' k_edit" and "mask_token (req_query req') = js_main_queries ! 4"
    then show ?thesis using js_inv_deliver_await [OF inv i p m] o t n by (simp add: stage_cont_def)
  qed
qed

lemma js_inv_stage5:
  assumes inv: "js_inv st" and i: "i < length (pending (world st))" and p: "pending (world st) ! i = (req, k_edit)"
    and m: "is_main req" and n: "length (main_sent st) = 5"
  shows "js_inv (script_deliver md5 st i r)"
proof -
  obtain s' out where o: "k_edit r (sess (world st)) = (s', out)" by (metis surj_pair)
  have t: "tok_ok 5 s'" by (rule tok_ok_late) simp
  from k_user_out [OF o] show ?thesis
  proof (elim disjE exE conjE)
    fix e assume "out = Thrown e"
    then show ?thesis using js_inv_deliver_thrown [OF inv i p m] o t n by simp
  next
    fix a assume oa: "out = Invoked (Fn 3) a"
    obtain vs where "script_body 3 a = map Log vs" using script_body_cases [of 3 a] by auto
    then show ?thesis using js_inv_deliver_logs [OF inv i p m] o oa t n by simp
  qed
qed

lemma js_inv_deliver_logout:
  assumes inv: "js_inv st" and i: "i < length (pending (world st))" and p: "pending (world st) ! i = (req, k_logout)"
  shows "js_inv (script_deliver md5 st i r)"
proof -
  obtain s' out where o: "k_logout r (sess (world st)) = (s', out)" by (metis surj_pair)
  from k_user_out [OF o] have s: "s' = sess (world st)" and e: "(\<exists>e. out = Thrown e) \<or> (\<exists>a vs. out = Invoked (Fn 4) a \<and> script_body 4 a = map Log vs)"
    using script_body_other [of 4] by auto
  have w: "world (script_deliver md5 st i r) =
           (world st)\<lparr>sess := s', pending := remove_at i (pending (world st)) @ [], trace := trace (world st) @ [event_of out]\<rparr> \<and>
         sent_requests [event_of out] = map fst []"
    using e by (intro deliver_world_end [OF p o]) blast
  have tm: "timer_ok (script_deliver md5 st i r)"
    by (rule timer_ok_advance [of st _ i "[]"]) (use inv w in \<open>simp_all add: js_inv_def\<close>)
  show ?thesis
    by (rule js_inv_keep [OF inv _ _ _ _ _ _ tm, where rest = "remove_at i (pending (world st))" and new = "[]"])
       (use w s in \<open>simp_all add: set_remove_at filter_remove_at_le\<close>)
qed


subsection \<open>The invariant of the runs\<close>

lemma js_inv_deliver:
  assumes inv: "js_inv st" and i: "i < length (pending (world st))"
  shows "js_inv (script_deliver md5 st i r)"
proof -
  obtain req k where p: "pending (world st) ! i = (req, k)" by (metis surj_pair)
  have "(req, k) \<in> set (pending (world st))" using i p by (metis nth_mem)
  then have "logout_item (req, k) \<or> (is_main req \<and> stage_cont (length (main_sent st)) k)"
    using inv by (auto simp: js_inv_def pend_ok_def)
  then show ?thesis
  proof (elim disjE conjE)
    assume "logout_item (req, k)"
    then show ?thesis using js_inv_deliver_logout [OF inv i] p by (simp add: logout_item_def)
  next
    assume m: "is_main req" and "stage_cont (length (main_sent st)) k"
    then consider "length (main_sent st) = 1" "k = k_login1" | "length (main_sent st) = 2" "k = k_login2"
      | "length (main_sent st) = 3" "k = k_contents" | b where "length (main_sent st) = 4" "k = k_token b"
      | "length (main_sent st) = 5" "k = k_edit"
      unfolding stage_cont_def by blast
    then show ?thesis
    proof cases
      case 1 then show ?thesis using js_inv_stage1 [OF inv i _ m] p by simp
    next
      case 2 then show ?thesis using js_inv_stage2 [OF inv i _ m] p by simp
    next
      case 3 then show ?thesis using js_inv_stage3 [OF inv i _ m] p by simp
    next
      case 4 then show ?thesis using js_inv_stage4 [OF inv i _ m] p by simp
    next
      case 5 then show ?thesis using js_inv_stage5 [OF inv i _ m] p by simp
    qed
  qed
qed

lemma js_inv_timer:
  assumes inv: "js_inv st" and nf: "\<not> timer_fired st"
  shows "js_inv (run_effects md5 (st\<lparr>timer_fired := True\<rparr>) [Call (Logout (Fn 4))])"
proof -
  obtain req where rc: "run_call md5 (Logout (Fn 4)) (sess (world st)) = (sess (world st)\<lparr>loggedIn := False,
            cookies := cookie_delete ''_session'' (cookie_delete ''Token''
                         (cookie_delete ''UserID'' (cookie_delete ''UserName'' (cookies (sess (world st))))))\<rparr>,
            Awaiting req k_logout)" and q: "req_query req = logout_query"
    using run_call_logout by blast
  have tm: "timer_ok (run_effects md5 (st\<lparr>timer_fired := True\<rparr>) [Call (Logout (Fn 4))])"
    using inv nf
    by (simp add: js_inv_def timer_ok_def run_effects_Call rc record_outcome_eq out_new_def event_of_def is_main_def q
             del: run_call.simps)
  show ?thesis
    by (rule js_inv_keep [OF inv _ _ _ _ _ _ tm, where rest = "pending (world st)" and new = "[(req, k_logout)]"])
       (simp_all add: run_effects_Call rc record_outcome_eq out_new_def event_of_def logout_item_def is_main_def q
                 del: run_call.simps)
qed

lemma js_inv_start:
  assumes "login_js md5 = Inr st"
  shows "js_inv st"
proof -
  have "st = js_start" using assms login_js_start [of md5] by simp
  then show ?thesis
    by (simp add: js_inv_def main_sent_def chain_ok_def pend_ok_def tok_ok_def is_main_def mask_token_def
                js_main_queries_def stage_cont_def logout_item_def obj_get_def timer_ok_def)
qed

lemma js_inv_reachable: "script_reachable md5 st \<Longrightarrow> js_inv st"
proof (induction rule: script_reachable.induct)
  case (start st)
  then show ?case by (rule js_inv_start)
next
  case (step st st')
  from step.hyps(2) step.IH show ?case
    by (cases rule: script_step.cases) (auto intro: js_inv_deliver js_inv_timer)
qed


lemma js_inv_counts:
  assumes "js_inv st"
  shows "length (filter is_main (sent_requests (trace (world st)))) \<le> 5"
    and "length (filter (\<lambda>q. \<not> is_main q) (sent_requests (trace (world st)))) \<le> 1"
    and "length (filter (is_main \<circ> fst) (pending (world st))) \<le> 1"
    and "length (filter (\<lambda>p. \<not> is_main (fst p)) (pending (world st))) \<le> 1"
  using assms unfolding js_inv_def chain_ok_def main_sent_def pend_ok_def timer_ok_def
  by (simp_all split: if_split_asm)

lemma length_split_filter: "length xs = length (filter P xs) + length (filter (\<lambda>x. \<not> P x) xs)"
  by (simp add: sum_length_filter_compl)

text \<open>C37: In every run of \<open>login.js\<close> (any answers, in any order, with the
  timer's \<open>logout\<close> at any point), the script's own requests are sent in the
  order of the code's chain of callbacks (login round one, round two, the
  content query, the edit-token query, the edit), always a non-empty prefix of
  it, and at most one of them is waiting for its answer at any time.\<close>

theorem script_requests_in_order:
  assumes "script_reachable md5 st"
  shows "\<exists>n. 0 < n \<and> n \<le> 5 \<and>
           map (mask_token \<circ> req_query) (filter is_main (sent_requests (trace (world st)))) = take n js_main_queries \<and>
           length (filter (is_main \<circ> fst) (pending (world st))) \<le> 1"
proof -
  have inv: "js_inv st" using assms by (rule js_inv_reachable)
  then have "chain_ok (main_sent st)" by (simp add: js_inv_def)
  then have "0 < length (main_sent st) \<and> length (main_sent st) \<le> 5 \<and>
             map (mask_token \<circ> req_query) (main_sent st) = take (length (main_sent st)) js_main_queries"
    by (simp add: chain_ok_def)
  then show ?thesis using js_inv_counts(3) [OF inv] unfolding main_sent_def by blast
qed

text \<open>C38: In every run of \<open>login.js\<close> the script sends at most six requests
  (its five-step chain and one \<open>logout\<close>) and at most two are waiting for
  an answer at any time.\<close>

theorem script_request_bounds:
  assumes "script_reachable md5 st"
  shows "length (sent_requests (trace (world st))) \<le> 6 \<and> length (pending (world st)) \<le> 2"
proof -
  have inv: "js_inv st" using assms by (rule js_inv_reachable)
  have "length (filter (is_main \<circ> fst) (pending (world st))) = length (filter (\<lambda>p. is_main (fst p)) (pending (world st)))"
    by (simp add: comp_def)
  then show ?thesis
    using js_inv_counts [OF inv] length_split_filter [of "sent_requests (trace (world st))" is_main]
          length_split_filter [of "pending (world st)" "\<lambda>p. is_main (fst p)"]
    by linarith
qed

theorem script_requests_in_order_witness:
  "script_reachable fixed_md5 js_start \<and>
   (\<exists>n. 0 < n \<and> n \<le> 5 \<and>
      map (mask_token \<circ> req_query) (filter is_main (sent_requests (trace (world js_start)))) = take n js_main_queries \<and>
      length (filter (is_main \<circ> fst) (pending (world js_start))) \<le> 1)"
  using script_requests_in_order [OF script_reachable.start [OF login_js_start]]
        script_reachable.start [OF login_js_start]
  by blast

theorem script_request_bounds_witness:
  "script_reachable fixed_md5 js_start \<and>
   length (sent_requests (trace (world js_start))) \<le> 6 \<and> length (pending (world js_start)) \<le> 2"
  using script_request_bounds [OF script_reachable.start [OF login_js_start]]
        script_reachable.start [OF login_js_start]
  by blast


subsection \<open>The timer racing the chain\<close>

lemma script_reachable_timer:
  "script_reachable md5 st \<Longrightarrow> \<not> timer_fired st \<Longrightarrow>
   script_reachable md5 (run_effects md5 (st\<lparr>timer_fired := True\<rparr>) [Call (Logout (Fn 4))])"
  by (blast intro: script_reachable.step script_step.timer)

lemma script_reachable_deliver:
  "script_reachable md5 st \<Longrightarrow> i < length (pending (world st)) \<Longrightarrow>
   script_reachable md5 (script_deliver md5 st i r)"
  by (blast intro: script_reachable.step script_step.deliver)

text \<open>C39: The timer's \<open>logout\<close> in \<open>login.js\<close> does not wait for the
  chain of callbacks: in a reachable run where it fires after the content
  query, the session is logged out and its cookies deleted, yet the chain goes
  on and the edit POST is sent with an empty \<open>Cookie\<close> header, after the
  \<open>logout\<close> request.\<close>

theorem login_js_logout_race:
  "\<exists>st. script_reachable md5 st \<and> timer_fired st \<and> \<not> loggedIn (sess (world st)) \<and>
     map req_query (sent_requests (trace (world st))) =
       [login1_query,
        [(''action'', Str ''login''), (''lgname'', js_user), (''lgpassword'', js_pass), (''lgtoken'', Str ''t1''),
         (''format'', Str ''json'')],
        [(''prop'', Str ''revisions''), (''rvprop'', Str ''content''), (''titles'', Str ''User:Havvy/Botground''),
         (''action'', Str ''query''), (''format'', Str ''json'')],
        logout_query,
        [(''prop'', Str ''info''), (''intoken'', Str ''edit''), (''titles'', Str ''Main Page''),
         (''action'', Str ''query''), (''format'', Str ''json'')],
        [(''action'', Str ''edit''), (''format'', Str ''json'')]] \<and>
     hd (req_headers (last (sent_requests (trace (world st))))) = (''Cookie'', '''')"
proof -
  define st0 where "st0 = projr (login_js md5)"
  have l: "login_js md5 = Inr st0"
    unfolding st0_def by (simp add: login_js_def MediaWikiApi_def)
  define st2 where "st2 = script_run md5 st0 [login_answer round1_login, login_answer round2_login]"
  define st3 where "st3 = run_effects md5 (st2\<lparr>timer_fired := True\<rparr>) [Call (Logout (Fn 4))]"
  define st4 where "st4 = script_deliver md5 st3 0 contents_answer"
  define st5 where "st5 = script_deliver md5 st4 1
                      \<lparr>tr_err = Undefined, tr_ahr = plain_ahr, tr_data = token_answer ''edit'' ''1'' (Str ''ab+'')\<rparr>"
  have r2: "script_reachable md5 st2"
  proof (unfold st2_def, rule script_run_reachable [OF script_reachable.start [OF l]])
    show "list_all (\<lambda>i. pending (world (script_run md5 st0 (take i [login_answer round1_login, login_answer round2_login]))) \<noteq> [])
            [0..<length [login_answer round1_login, login_answer round2_login]]"
      unfolding st0_def by code_simp
  qed
  have f2: "\<not> timer_fired st2" unfolding st2_def st0_def by code_simp
  have r3: "script_reachable md5 st3" unfolding st3_def using r2 f2 by (rule script_reachable_timer)
  have p3: "0 < length (pending (world st3))" unfolding st3_def st2_def st0_def by code_simp
  have r4: "script_reachable md5 st4" unfolding st4_def using r3 p3 by (rule script_reachable_deliver)
  have p4: "1 < length (pending (world st4))" unfolding st4_def st3_def st2_def st0_def by code_simp
  have r5: "script_reachable md5 st5" unfolding st5_def using r4 p4 by (rule script_reachable_deliver)
  have f5: "timer_fired st5" unfolding st5_def st4_def st3_def by (simp add: timer_fired_run_effects)
  have li: "\<not> loggedIn (sess (world st5))" unfolding st5_def st4_def st3_def st2_def st0_def by code_simp
  have q: "map req_query (sent_requests (trace (world st5))) =
       [login1_query,
        [(''action'', Str ''login''), (''lgname'', js_user), (''lgpassword'', js_pass), (''lgtoken'', Str ''t1''),
         (''format'', Str ''json'')],
        [(''prop'', Str ''revisions''), (''rvprop'', Str ''content''), (''titles'', Str ''User:Havvy/Botground''),
         (''action'', Str ''query''), (''format'', Str ''json'')],
        logout_query,
        [(''prop'', Str ''info''), (''intoken'', Str ''edit''), (''titles'', Str ''Main Page''),
         (''action'', Str ''query''), (''format'', Str ''json'')],
        [(''action'', Str ''edit''), (''format'', Str ''json'')]]"
    unfolding st5_def st4_def st3_def st2_def st0_def by code_simp
  have h: "hd (req_headers (last (sent_requests (trace (world st5))))) = (''Cookie'', '''')"
    unfolding st5_def st4_def st3_def st2_def st0_def by code_simp
  show ?thesis by (intro exI [of _ st5] conjI r5 f5 li q h)
qed

end
