(* ===== verification/ScriptRuns.thy ===== *)
theory ScriptRuns
  imports ScriptOrder
begin

text \<open>
  Every run of \<open>src/lib/login.js\<close> ends.  Whatever the server answers and in
  whatever order, and wherever the timer fires, a run makes at most seven
  steps (five answers to the chain, the timer, the answer to its
  \<open>logout\<close>), and a run that can make no further step has nothing pending and
  its timer fired.  The proof is a potential that every step lowers by one:
  the chain's requests still to be sent, plus the requests pending, plus two
  while the timer has not fired.
\<close>

definition run_potential :: "script \<Rightarrow> nat" where
  "run_potential st = (5 - length (main_sent st)) + length (pending (world st)) + (if timer_fired st then 0 else 2)"

subsection \<open>What one delivery adds\<close>

lemma length_remove_at: "i < length xs \<Longrightarrow> length (remove_at i xs) = length xs - 1"
  by (simp add: remove_at_def)

lemma length_out_new: "length (out_new out) \<le> 1"
  by (simp add: out_new_def split: outcome.split)

lemma out_new_Invoked [simp]: "out_new (Invoked f a) = []"
  by (simp add: out_new_def)

lemma run_effects_call_adds:
  "\<exists>new. length new \<le> 1 \<and>
     pending (world (run_effects md5 st [Call c])) = pending (world st) @ new \<and>
     sent_requests (trace (world (run_effects md5 st [Call c]))) = sent_requests (trace (world st)) @ map fst new"
proof -
  obtain s'' out where "run_call md5 c (sess (world st)) = (s'', out)" by (metis surj_pair)
  then show ?thesis
    by (intro exI [of _ "out_new out"] conjI length_out_new) (simp_all add: run_effects_Call record_outcome_eq)
qed

lemma run_effects_body_adds:
  "\<exists>new. length new \<le> 1 \<and>
     pending (world (run_effects md5 st (script_body n a))) = pending (world st) @ new \<and>
     sent_requests (trace (world (run_effects md5 st (script_body n a)))) = sent_requests (trace (world st)) @ map fst new"
proof -
  from script_body_cases [of n a] show ?thesis
  proof (elim disjE exE conjE)
    fix vs assume "script_body n a = map Log vs"
    then show ?thesis by (intro exI [of _ "[]"]) (simp add: run_effects_Logs)
  qed (metis run_effects_call_adds)+
qed

lemma script_deliver_adds:
  "\<exists>new. length new \<le> 1 \<and>
     pending (world (script_deliver md5 st i r)) = remove_at i (pending (world st)) @ new \<and>
     sent_requests (trace (world (script_deliver md5 st i r))) = sent_requests (trace (world st)) @ map fst new"
proof -
  obtain req k where p: "pending (world st) ! i = (req, k)" by (metis surj_pair)
  obtain s' out where o: "k r (sess (world st)) = (s', out)" by (metis surj_pair)
  define st1 where "st1 = st\<lparr>world := (world st)\<lparr>sess := s', pending := remove_at i (pending (world st)) @ out_new out,
                                    trace := trace (world st) @ [event_of out]\<rparr>\<rparr>"
  have d: "script_deliver md5 st i r = (case out of Invoked (Fn n) a \<Rightarrow> run_effects md5 st1 (script_body n a) | _ \<Rightarrow> st1)"
    unfolding st1_def by (rule script_deliver_eq [OF p o])
  show ?thesis
  proof (cases "\<exists>n a. out = Invoked (Fn n) a")
    case True
    then obtain n a where oi: "out = Invoked (Fn n) a" by blast
    obtain new where "length new \<le> 1" "pending (world (run_effects md5 st1 (script_body n a))) = pending (world st1) @ new"
      "sent_requests (trace (world (run_effects md5 st1 (script_body n a)))) = sent_requests (trace (world st1)) @ map fst new"
      using run_effects_body_adds by blast
    then show ?thesis using d oi by (intro exI [of _ new]) (simp add: st1_def event_of_def)
  next
    case False
    then have "script_deliver md5 st i r = st1" using d by (auto split: outcome.split jsval.split)
    then show ?thesis using length_out_new [of out] by (intro exI [of _ "out_new out"]) (simp add: st1_def)
  qed
qed

subsection \<open>Every step lowers the potential\<close>

lemma potential_deliver:
  assumes r: "script_reachable md5 st" and i: "i < length (pending (world st))"
  shows "run_potential (script_deliver md5 st i r) < run_potential st"
proof -
  let ?st' = "script_deliver md5 st i r"
  have inv: "js_inv st" using r by (rule js_inv_reachable)
  have inv': "js_inv ?st'" using r i by (blast intro: js_inv_reachable script_reachable.step script_step.deliver)
  obtain new where n: "length new \<le> 1" and p: "pending (world ?st') = remove_at i (pending (world st)) @ new"
    and sn: "sent_requests (trace (world ?st')) = sent_requests (trace (world st)) @ map fst new"
    using script_deliver_adds by blast
  have "length (filter (\<lambda>q. \<not> is_main q) (sent_requests (trace (world ?st')))) =
        length (filter (\<lambda>q. \<not> is_main q) (sent_requests (trace (world st))))"
    using inv inv' by (simp add: js_inv_def timer_ok_def)
  then have "filter is_main (map fst new) = map fst new" using sn by (simp add: filter_id_conv filter_empty_conv)
  then have ms: "main_sent ?st' = main_sent st @ map fst new" using main_sent_append [OF sn] by simp
  have "length (main_sent ?st') \<le> 5" using inv' by (simp add: js_inv_def chain_ok_def)
  then show ?thesis using i n unfolding run_potential_def p ms by (simp add: length_remove_at)
qed

lemma potential_timer:
  assumes "\<not> timer_fired st"
  shows "run_potential (run_effects md5 (st\<lparr>timer_fired := True\<rparr>) [Call (Logout (Fn 4))]) < run_potential st"
proof -
  obtain s' req where rc: "run_call md5 (Logout (Fn 4)) (sess (world st)) = (s', Awaiting req k_logout)"
    and q: "req_query req = logout_query"
    using run_call_logout by blast
  show ?thesis using assms
    by (simp add: run_potential_def main_sent_def run_effects_Call rc record_outcome_eq out_new_def event_of_def
                  is_main_def q del: run_call.simps)
qed

lemma potential_step: "script_reachable md5 st \<Longrightarrow> script_step md5 st st' \<Longrightarrow> run_potential st' < run_potential st"
  by (erule script_step.cases) (auto intro: potential_deliver potential_timer)

lemma potential_start:
  assumes "login_js md5 = Inr st0"
  shows "run_potential st0 = 7"
proof -
  have "st0 = js_start" using assms login_js_start [of md5] by simp
  then show ?thesis by (simp add: run_potential_def main_sent_def is_main_def)
qed

lemma runs_lower_potential:
  "login_js md5 = Inr st0 \<Longrightarrow> (script_step md5 ^^ n) st0 st \<Longrightarrow>
   script_reachable md5 st \<and> run_potential st + n \<le> run_potential st0"
proof (induction n arbitrary: st)
  case 0
  then show ?case by (auto intro: script_reachable.start)
next
  case (Suc n)
  then obtain b where b: "(script_step md5 ^^ n) st0 b" and s: "script_step md5 b st" by (meson relpowp_Suc_E)
  with Suc.IH [OF Suc.prems(1)] have "script_reachable md5 b" "run_potential b + n \<le> run_potential st0" by auto
  with s show ?case using potential_step [of md5 b st] by (auto intro: script_reachable.step)
qed

lemma script_step_exists: "(\<exists>st'. script_step md5 st st') \<longleftrightarrow> pending (world st) \<noteq> [] \<or> \<not> timer_fired st"
proof
  assume "\<exists>st'. script_step md5 st st'"
  then show "pending (world st) \<noteq> [] \<or> \<not> timer_fired st" by (auto elim: script_step.cases)
next
  assume "pending (world st) \<noteq> [] \<or> \<not> timer_fired st"
  then show "\<exists>st'. script_step md5 st st'"
    by (auto intro: script_step.deliver [of 0] script_step.timer)
qed

text \<open>C5: Every run of \<open>login.js\<close> ends: from the state the script's top level
  leaves, any sequence of steps (answers in any order, the timer at any point)
  has at most seven steps, and a state from which no step is possible is
  exactly one with nothing pending and the timer fired.\<close>

theorem login_js_terminates:
  assumes "login_js md5 = Inr st0" and "(script_step md5 ^^ n) st0 st"
  shows "n \<le> 7 \<and> ((\<nexists>st'. script_step md5 st st') \<longleftrightarrow> pending (world st) = [] \<and> timer_fired st)"
  using runs_lower_potential [OF assms] potential_start [OF assms(1)] script_step_exists [of md5 st] by auto

theorem login_js_terminates_witness:
  "login_js fixed_md5 = Inr js_start \<and> (script_step fixed_md5 ^^ 0) js_start js_start \<and> (0::nat) \<le> 7 \<and>
   (\<exists>st'. script_step fixed_md5 js_start st')"
  using login_js_terminates [of fixed_md5 js_start 0 js_start] login_js_start [of fixed_md5] by simp

end
