(* ===== verification/Spec2Isabelle.thy ===== *)
theory Spec2Isabelle
  imports Liveness ScriptRuns
begin

text \<open>
  \<^bold>\<open>MediaWikiApi: a verification development.\<close>

  The program (\<open>src/lib/index.js\<close>) is a client for a wiki's HTTP API.  A
  session object (\<open>MediaWikiApi(site)\<close>) holds the host, the API path, the
  bot flag, a logged-in flag, a cookie jar and a token cache.  Its public
  operations (\<open>login\<close>, \<open>logout\<close>, \<open>edit\<close>, \<open>getArticleContents\<close>,
  \<open>categorymembers\<close>) build query objects, fetch tokens through
  \<open>_getToken\<close>, and hand requests to \<open>_request\<close> (via \<open>_post\<close>, \<open>_get\<close>,
  \<open>_query\<close>), which renders the cookie header, calls the transport \<open>ahr2\<close> and
  normalises its answer before calling the caller's continuation.

  \<^bold>\<open>How the model corresponds to the code.\<close>
  \<^item> \<open>Prelude\<close>: generic list and association-list lemmas; JavaScript objects
    are association lists updated with \<^const>\<open>AList.update\<close> and
    \<^const>\<open>AList.delete\<close>.
  \<^item> \<open>JsValue\<close>: the value layer the code relies on: \<open>jsval\<close>, truthiness,
    \<open>typeof\<close>, \<open>ToString\<close>, \<open>+\<close>, property reads that throw a
    \<open>TypeError\<close> on \<open>undefined\<close>/\<open>null\<close> (\<open>get_prop\<close>, a sum type), the
    keys a \<open>for-in\<close> loop visits, \<open>join\<close> and \<open>slice(0, -n)\<close>.
  \<^item> \<open>CookieJar\<close>: \<open>this.cookies\<close> as the record \<open>cookie_jar\<close> and
    \<open>parse()\<close> as \<open>parse\<close>; map assignment and \<open>delete\<close> as
    \<open>cookie_set\<close>/\<open>cookie_delete\<close>.
  \<^item> \<open>Session\<close>: the object's fields as the record \<open>session\<close>, the
    constructor \<open>MediaWikiApi\<close> (an \<open>Error\<close> on a falsy site), the request
    object \<open>http_req\<close>, and the effect type: an operation is an \<open>action\<close>,
    a function from the session to the updated session and an \<open>outcome\<close>
    (the caller's callback invoked, an exception thrown, or a request handed to
    the transport together with the continuation that \<open>when\<close> will run).
    A callback is either a caller's function value or a closure of the code.
  \<^item> \<open>Request\<close>: \<open>_request\<close> (\<open>request\<close>, \<open>build_req\<close>,
    \<open>response_handler\<close>) and the wrappers \<open>post\<close>, \<open>get\<close>, \<open>query\<close>.
  \<^item> \<open>TokenCache\<close>: \<open>_getToken\<close> and its continuation \<open>token_received\<close>.
  \<^item> \<open>FormEncoding\<close>: \<open>_makeQueryString\<close> with \<open>encodeURI\<close> and the \<open>+\<close>
    replacement; the server's \<open>application/x-www-form-urlencoded\<close> decoder
    \<open>form_decode\<close> is an environment model written from the wire format, used
    only to state the round trip.
  \<^item> \<open>Facade\<close>: \<open>login\<close> with its two continuations \<open>login_round1\<close> and
    \<open>login_round2\<close>, \<open>logout\<close>, and \<open>edit\<close> split into its synchronous part
    \<open>edit_body\<close> (title, \<open>edit_checksum\<close>, forced fields) and the token
    continuation \<open>edit_with_token\<close>.  The hash of \<open>md5\<close> is a parameter.
  \<^item> \<open>Queries\<close>: \<open>categorymembers\<close> (\<open>cm_options\<close>) and
    \<open>getArticleContents\<close> (\<open>contents_received\<close>).
  \<^item> \<open>System\<close>: the session shared by any number of operations in flight: a
    step relation \<open>sys_step\<close> that either calls an operation or delivers any
    pending request's answer (in any order), and \<open>reachable\<close> from a
    constructed session.
  \<^item> \<open>Liveness\<close>: \<open>settles n\<close>, an outcome that ends within \<open>n\<close> more
    answers whatever they are, and the transport draining the queue
    (\<open>deliver_step\<close>).
  \<^item> \<open>Script\<close>: \<open>src/lib/login.js\<close>.  Its callbacks are caller functions
    \<open>Fn 1\<close>..\<open>Fn 4\<close> whose bodies (\<open>script_body\<close>: \<open>console.log\<close> lines
    and further calls on the same session) run when an answer ends in them;
    \<open>script_step\<close> adds the timer's \<open>logout\<close>, firing once at any point.
  \<^item> \<open>ScriptOrder\<close>: the order of the script's requests over every run.  Its
    invariant \<open>js_inv\<close> has four parts: the chain's requests sent so far are a
    prefix of \<open>js_main_queries\<close> (the server-chosen \<open>lgtoken\<close> blanked by
    \<open>mask_token\<close>); every pending request waits with the continuation of the
    chain's current stage (\<open>stage_cont\<close>) or is the timer's \<open>logout\<close>;
    no edit token is cached before the token query; the \<open>logout\<close> has been
    sent once if and only if the timer fired.  Each stage's continuation is
    analysed once (\<open>k_login1_out\<close> .. \<open>k_token_out\<close>), and one
    delivery lemma per stage shows the invariant preserved.
  \<^item> \<open>ScriptRuns\<close>: the runs of the script end.  \<open>run_potential\<close> counts
    the chain's requests still to be sent, the pending requests and two while
    the timer has not fired; every step lowers it by one.

  \<^bold>\<open>What is proved.\<close>
  The response normalisation of \<open>_request\<close> on every branch (C1--C4); the
  cookie header equals the separator-joined entries (C6); the token cache's
  fetch-then-hit behaviour and its failure path (C7, C8); the form encoding's
  round trip through the server's decoder, the absence of a raw \<open>+\<close>, and the
  failure of that round trip on \<open>&\<close>: a value is cut at its first \<open>&\<close>
  and its rest read as further fields (C9--C11); the login handshake's order
  and state changes (C12--C15); logout's clearing and its late usage error
  (C16, C17); edit's error paths, checksum and request (C18--C22); the query
  consumers (C23, C24, C26); a reachable run in which a second token query
  overwrites the cached edit token (C25); and, for every reachable state of the concurrent
  system, the invariants of the login state and of the cookie jar and that
  every request goes to the session's own endpoint (C27--C29), and that the
  queue of pending requests always drains, within two answers per request
  (C30).  The script is a client of the concurrent session (C31); its
  successful run and its failed login are proved (C32, C33), as is the
  specification's end-to-end login with the header it renders (C34) and the
  exact condition under which the header ends in a separator (C35).  Every
  public operation ends in its own callback or throws, within two answers
  (C36).  Over every run of the script, whatever the answers and their order,
  its requests follow its callback chain in order with at most one in flight
  (C37), at most six requests are sent and two pending (C38), every run ends
  within seven steps with nothing pending (C5), and the timer's
  \<open>logout\<close> can overtake the chain so that the edit goes out without
  cookies (C39).  The text \<open>edit\<close> checksums is a string except when both
  text fields are truthy non-string primitives, exactly the case in which the
  checksum throws (C40).  The
  invariants
  are proved once, generically: an operation \<^emph>\<open>keeps\<close> a predicate when its
  synchronous part and all continuations it leaves, for any answer, preserve it,
  and every operation keeps every predicate closed under the four session
  updates the code performs.

  \<^bold>\<open>Bounds.\<close>  There is no fuel: every loop of the code is structural
  recursion over a list, and the unbounded behaviour (answers arriving in any
  order, forever) is the step relation.  The bounds proved are those of the
  code: two answers per operation (C36), twice the pending requests to drain
  the queue (C30), six requests per run of the script (C38), and seven steps per run of the
  script, after which nothing is pending (C5).

  \<^bold>\<open>Not modelled.\<close>
  The transport \<open>ahr2\<close> and the remote server are the environment: a request
  is handed out and an arbitrary answer \<open>(err, ahr, data)\<close> is delivered.
  Numbers are integers (the code only handles ids and limits), so
  floating-point formatting is not modelled; JavaScript's ordering of
  integer-like keys before other keys in \<open>for-in\<close> is not modelled (objects
  keep insertion order); strings are lists of 8-bit characters, not UTF-16.
  Objects are values, not references: \<open>edit\<close> writes the title, checksum
  and forced fields into the caller's body object, which the model copies, so
  what the caller later sees of its own object is not modelled.  The hash
  function behind \<open>md5\<close> is a parameter; the scenarios use a fixed digest.
\<close>

end
